theory Spec2Isabelle
  imports Complex_Main
begin

section \<open>JavaScript strings and values\<close>

text \<open>
  Strings are modelled as HOL strings. The functions below are the methods of
  \<^verbatim>\<open>String.prototype\<close> that the route handlers and utilities use.
\<close>

definition startsWith :: "string \<Rightarrow> string \<Rightarrow> bool" where
  "startsWith s k = (take (length k) s = k)"

fun includesStr :: "string \<Rightarrow> string \<Rightarrow> bool" where
  "includesStr [] k = (k = [])"
| "includesStr (c # cs) k = (startsWith (c # cs) k \<or> includesStr cs k)"

definition substring :: "string \<Rightarrow> nat \<Rightarrow> nat \<Rightarrow> string" where
  "substring s i j = take (max i j - min i j) (drop (min i j) s)"

text \<open>Truthiness of an optional string: \<^verbatim>\<open>undefined\<close> and the empty string are falsy.\<close>

definition truthy :: "string option \<Rightarrow> bool" where
  "truthy v = (case v of None \<Rightarrow> False | Some s \<Rightarrow> s \<noteq> [])"

text \<open>A destructuring default applies only to \<^verbatim>\<open>undefined\<close>.\<close>

definition orDefault :: "string option \<Rightarrow> string \<Rightarrow> string" where
  "orDefault v d = (case v of None \<Rightarrow> d | Some s \<Rightarrow> s)"

text \<open>\<^verbatim>\<open>a || b\<close> on an optional string.\<close>

definition orElse :: "string option \<Rightarrow> string \<Rightarrow> string" where
  "orElse v d = (if truthy v then the v else d)"

text \<open>
  A thrown value, as far as the handlers inspect it: \<^verbatim>\<open>error.message\<close>,
  \<^verbatim>\<open>error.code\<close> and \<^verbatim>\<open>error.type\<close>, each possibly absent.
\<close>

record js_error =
  message :: "string option"
  code :: "string option"
  etype :: "string option"

definition Error :: "string \<Rightarrow> js_error" where
  "Error m = \<lparr>message = Some m, code = None, etype = None\<rparr>"

text \<open>\<^verbatim>\<open>error.message?.includes(k)\<close>: falsy when there is no message.\<close>

definition messageIncludes :: "js_error \<Rightarrow> string \<Rightarrow> bool" where
  "messageIncludes e k = (case message e of None \<Rightarrow> False | Some m \<Rightarrow> includesStr m k)"

section \<open>JSON responses\<close>

record error_json =
  error :: string
  details :: "string option"
  suggestion :: "string option"
  technicalInfo :: "(string \<times> string \<times> string) option"

definition errorJson :: "string \<Rightarrow> error_json" where
  "errorJson e = \<lparr>error = e, details = None, suggestion = None, technicalInfo = None\<rparr>"

definition errorDetails :: "string \<Rightarrow> string \<Rightarrow> error_json" where
  "errorDetails e d = \<lparr>error = e, details = Some d, suggestion = None, technicalInfo = None\<rparr>"

text \<open>A response is a failure with its HTTP status, or a success payload (status 200).\<close>

datatype 'a response = Failure nat error_json | Success 'a

fun status :: "'a response \<Rightarrow> nat" where
  "status (Failure n _) = n"
| "status (Success _) = 200"

fun errorOf :: "'a response \<Rightarrow> string option" where
  "errorOf (Failure _ j) = Some (error j)"
| "errorOf (Success _) = None"

section \<open>edit-image route: classification of a thrown provider error\<close>

text \<open>The inner \<^verbatim>\<open>catch (error: any)\<close> block of the edit-image handler.\<close>

definition classifyError :: "js_error \<Rightarrow> 'a response" where
  "classifyError e =
    (if messageIncludes e ''invalid_request_error'' then
       Failure 400 (errorDetails ''Invalid request''
         (''The request format or parameters are invalid. '' @ the (message e)))
     else if messageIncludes e ''rate_limit_exceeded'' then
       Failure 429 (errorDetails ''Rate limit exceeded''
         ''Too many requests to OpenAI. Please wait a moment and try again.'')
     else if messageIncludes e ''404 Client Error'' \<and> messageIncludes e ''replicate.delivery'' then
       Failure 400 \<lparr>error = ''Image URL expired'',
         details = Some ''The image URL has expired. Replicate-generated images are only accessible for 24 hours. Please try editing a more recent image or upload the image file directly.'',
         suggestion = Some ''Upload the image file directly to edit it, or generate a new image to edit.'',
         technicalInfo = None\<rparr>
     else if messageIncludes e ''safety system'' \<or> code e = Some ''moderation_blocked''
             \<or> etype e = Some ''image_generation_user_error'' then
       Failure 400 (errorDetails ''Content not allowed''
         ''The image or edit request was rejected by OpenAI's safety system. This may happen with copyrighted characters, inappropriate content, or certain types of modifications. Try using different wording or editing a different image.'')
     else if messageIncludes e ''model_not_found'' then
       Failure 400 (errorDetails ''Model not available''
         ''GPT-Image-1 model not found. Please ensure your OpenAI organization is verified and you have access to GPT-4o's image generation capabilities.'')
     else
       Failure 500 (errorDetails ''Failed to edit image''
         (orElse (message e) ''An unexpected error occurred'')))"

section \<open>Search intent detector\<close>

subsection \<open>Character classes and lower-casing\<close>

text \<open>
  Characters are code units; the detector's keywords and patterns are ASCII, and
  \<^verbatim>\<open>toLowerCase\<close> is modelled on the ASCII letters (other code units are unchanged,
  which never creates or removes an occurrence of an ASCII keyword).
\<close>

definition toLowerChar :: "char \<Rightarrow> char" where
  "toLowerChar c =
    (case map_of (zip ''ABCDEFGHIJKLMNOPQRSTUVWXYZ'' ''abcdefghijklmnopqrstuvwxyz'') c of
       None \<Rightarrow> c | Some d \<Rightarrow> d)"

definition toLowerCase :: "string \<Rightarrow> string" where
  "toLowerCase s = map toLowerChar s"

definition isSpace :: "char \<Rightarrow> bool" where
  "isSpace c = (c \<in> set [CHR 0x09, CHR 0x0A, CHR 0x0B, CHR 0x0C, CHR 0x0D, CHR 0x20, CHR 0xA0])"

definition isDigit :: "char \<Rightarrow> bool" where
  "isDigit c = (c \<in> set ''0123456789'')"

definition isWordChar :: "char \<Rightarrow> bool" where
  "isWordChar c =
    (c \<in> set ''abcdefghijklmnopqrstuvwxyzABCDEFGHIJKLMNOPQRSTUVWXYZ0123456789_'')"

definition isLineTerminator :: "char \<Rightarrow> bool" where
  "isLineTerminator c = (c \<in> set [CHR 0x0A, CHR 0x0D])"

subsection \<open>The regular expressions of the detector\<close>

text \<open>
  The patterns use literals, alternation, \<^verbatim>\<open>?\<close>, \<^verbatim>\<open>*\<close>, \<^verbatim>\<open>+\<close>, \<^verbatim>\<open>{0,n}\<close>,
  \<^verbatim>\<open>.\<close>, \<^verbatim>\<open>\s\<close>, \<^verbatim>\<open>\d\<close> and the assertion \<^verbatim>\<open>\b\<close>, all under the flag
  \<^verbatim>\<open>i\<close>. Without back-references \<^verbatim>\<open>test\<close> asks whether some match exists, so the
  matcher returns every position a pattern can end at. A position is the character before
  it (for \<^verbatim>\<open>\b\<close>) and the rest of the input.
\<close>

datatype rx = Eps | Chr char | AnyChar | Space | Digit | WordB
  | Seq rx rx | Alt rx rx | Opt rx | Star rx

type_synonym pos = "char option \<times> string"

fun stepChar :: "(char \<Rightarrow> bool) \<Rightarrow> pos \<Rightarrow> pos list" where
  "stepChar P (_, []) = []"
| "stepChar P (_, c # cs) = (if P c then [(Some c, cs)] else [])"

fun isWordBefore :: "char option \<Rightarrow> bool" where
  "isWordBefore None = False"
| "isWordBefore (Some c) = isWordChar c"

fun isWordAfter :: "string \<Rightarrow> bool" where
  "isWordAfter [] = False"
| "isWordAfter (c # _) = isWordChar c"

fun starIter :: "(pos \<Rightarrow> pos list) \<Rightarrow> nat \<Rightarrow> pos list \<Rightarrow> pos list" where
  "starIter f 0 ps = ps"
| "starIter f (Suc n) ps = ps @ starIter f n (remdups (concat (map f ps)))"

fun rxm :: "rx \<Rightarrow> pos \<Rightarrow> pos list" where
  "rxm Eps p = [p]"
| "rxm (Chr c) p = stepChar (\<lambda>d. toLowerChar d = toLowerChar c) p"
| "rxm AnyChar p = stepChar (\<lambda>d. \<not> isLineTerminator d) p"
| "rxm Space p = stepChar isSpace p"
| "rxm Digit p = stepChar isDigit p"
| "rxm WordB p = (if isWordBefore (fst p) \<noteq> isWordAfter (snd p) then [p] else [])"
| "rxm (Seq r1 r2) p = concat (map (rxm r2) (rxm r1 p))"
| "rxm (Alt r1 r2) p = rxm r1 p @ rxm r2 p"
| "rxm (Opt r) p = rxm r p @ [p]"
| "rxm (Star r) p = starIter (rxm r) (length (snd p)) [p]"

text \<open>All positions of a string, each with the character before it.\<close>

fun positions :: "char option \<Rightarrow> string \<Rightarrow> pos list" where
  "positions a [] = [(a, [])]"
| "positions a (c # cs) = (a, c # cs) # positions (Some c) cs"

definition rxTest :: "rx \<Rightarrow> string \<Rightarrow> bool" where
  "rxTest r s = list_ex (\<lambda>p. rxm r p \<noteq> []) (positions None s)"

fun lit :: "string \<Rightarrow> rx" where
  "lit [] = Eps"
| "lit [c] = Chr c"
| "lit (c # cs) = Seq (Chr c) (lit cs)"

fun seqs :: "rx list \<Rightarrow> rx" where
  "seqs [] = Eps"
| "seqs [r] = r"
| "seqs (r # rs) = Seq r (seqs rs)"

fun alts :: "rx list \<Rightarrow> rx" where
  "alts [] = Eps"
| "alts [r] = r"
| "alts (r # rs) = Alt r (alts rs)"

definition oneOf :: "string list \<Rightarrow> rx" where
  "oneOf ws = alts (map lit ws)"

definition Plus :: "rx \<Rightarrow> rx" where
  "Plus r = Seq r (Star r)"

fun upTo :: "rx \<Rightarrow> nat \<Rightarrow> rx" where
  "upTo r 0 = Eps"
| "upTo r (Suc n) = Opt (Seq r (upTo r n))"


subsection \<open>Keyword tables and patterns\<close>

definition currentInfoKeywords :: "string list" where
  "currentInfoKeywords =
    [''latest'', ''current'', ''today'', ''now'', ''recent'', ''news'',
     ''update'', ''2025'', ''2024'', ''this year'', ''this month'',
     ''right now'', ''at the moment'', ''currently'', ''breaking'',
     ''live'', ''ongoing'', ''happening'']"

definition factualKeywords :: "string list" where
  "factualKeywords =
    [''what is'', ''who is'', ''when did'', ''where is'', ''how does'',
     ''price of'', ''cost of'', ''statistics'', ''data'', ''facts about'']"

definition researchKeywords :: "string list" where
  "researchKeywords =
    [''compare'', ''versus'', ''vs'', ''difference between'', ''best'',
     ''top'', ''review'', ''analysis'', ''research'', ''study'']"

definition actionExclusions :: "string list" where
  "actionExclusions =
    [''generate'', ''create'', ''make'', ''produce'', ''build'', ''design'',
     ''draw'', ''paint'', ''compose'', ''write'', ''edit'', ''modify'',
     ''dialogue'', ''conversation'', ''multi-speaker'', ''voice'', ''audio'',
     ''tts'', ''text to speech'', ''narrate'', ''speak'', ''say'',
     ''image'', ''picture'', ''photo'', ''video'', ''animation'',
     ''download'', ''save'', ''extract'']"

definition generativePatterns :: "rx list" where
  "generativePatterns =
    [seqs [WordB, oneOf [''create'', ''generate'', ''make'', ''produce''], Plus Space,
           Opt (oneOf [''a'', ''an'', ''some'']), Star Space,
           oneOf [''dialogue'', ''conversation'', ''audio'', ''voice'', ''image'', ''video'']],
     seqs [WordB,
           alts [seqs [lit ''dia'', Star Space, lit ''tts''],
                 lit ''wavespeed'',
                 seqs [lit ''multi'', Opt AnyChar, lit ''speaker''],
                 seqs [lit ''voice'', Star Space, lit ''acting'']],
           WordB],
     seqs [WordB,
           alts [lit ''alice'', lit ''bob'', lit ''charlie'',
                 seqs [lit ''speaker'', Star Space, Plus Digit]],
           upTo AnyChar 20,
           oneOf [''say'', ''speak'', ''voice'']],
     seqs [WordB, lit ''character'', Opt (Chr CHR ''s''), Plus Space,
           oneOf [''talking'', ''speaking'', ''conversing''], WordB],
     seqs [WordB, oneOf [''draw'', ''paint'', ''design'', ''illustrate''], Plus Space,
           Opt (oneOf [''a'', ''an'', ''some'']), Star Space,
           oneOf [''picture'', ''image'', ''scene'']]]"

definition complexTermsPattern :: rx where
  "complexTermsPattern =
    seqs [WordB,
          oneOf [''analyze'', ''compare'', ''evaluate'', ''investigate'', ''comprehensive'',
                 ''detailed''],
          WordB]"

subsection \<open>The search intent and its helpers\<close>

datatype searchType = current_events | factual | research | comparison

datatype complexityLevel = simple | moderate | complex

record SearchIntent =
  needsSearch :: bool
  searchQuery :: "string option"
  searchType :: "searchType option"
  timeFilter :: "string option"
  domainFilter :: "string list option"
  queryType :: "searchType option"
  complexity :: "complexityLevel option"
  estimatedDuration :: "nat option"
  requiresAsync :: "bool option"

text \<open>The object literal \<^verbatim>\<open>{ needsSearch: false }\<close>: no other field is set.\<close>

definition noSearch :: SearchIntent where
  "noSearch = \<lparr>needsSearch = False, searchQuery = None, searchType = None, timeFilter = None,
     domainFilter = None, queryType = None, complexity = None, estimatedDuration = None,
     requiresAsync = None\<rparr>"

text \<open>\<^verbatim>\<open>message.split(/\s+/)\<close>: the pieces between maximal runs of whitespace.\<close>

function splitWs :: "string \<Rightarrow> string \<Rightarrow> string list" where
  "splitWs cur [] = [rev cur]"
| "splitWs cur (c # cs) =
     (if isSpace c then rev cur # splitWs [] (dropWhile isSpace cs)
      else splitWs (c # cur) cs)"
  by pat_completeness auto
termination
  by (relation "measure (\<lambda>(cur, s). length s)")
     (auto simp: length_dropWhile_le less_Suc_eq_le)

definition split_ws :: "string \<Rightarrow> string list" where
  "split_ws s = splitWs [] s"

text \<open>\<^verbatim>\<open>String.prototype.trim\<close>.\<close>

definition trim :: "string \<Rightarrow> string" where
  "trim s = rev (dropWhile isSpace (rev (dropWhile isSpace s)))"

definition questionWords :: "string list" where
  "questionWords = [''what'', ''who'', ''when'', ''where'', ''how'', ''why'', ''is'', ''are'',
     ''can'', ''could'', ''would'', ''should'']"

text \<open>
  \<^verbatim>\<open>replace(/^(what|who|...)\s+/i, '')\<close>: a leading question word followed by
  whitespace is removed together with all of that whitespace (at most one alternative
  can be followed by whitespace at the start of a given message).
\<close>

definition stripQuestionWord :: "string \<Rightarrow> string" where
  "stripQuestionWord s =
    (case find (\<lambda>w. startsWith (toLowerCase s) w \<and> length w < length s
                     \<and> isSpace (s ! length w)) questionWords of
       None \<Rightarrow> s
     | Some w \<Rightarrow> dropWhile isSpace (drop (length w) s))"

text \<open>\<^verbatim>\<open>replace(/\?$/, '')\<close>.\<close>

definition stripFinalQuestionMark :: "string \<Rightarrow> string" where
  "stripFinalQuestionMark s = (if s \<noteq> [] \<and> last s = CHR ''?'' then butlast s else s)"

definition extractSearchQuery :: "string \<Rightarrow> string" where
  "extractSearchQuery m = trim (stripFinalQuestionMark (stripQuestionWord m))"

definition extractDomainFilter :: "string \<Rightarrow> string list option" where
  "extractDomainFilter m =
    (let domains = (if includesStr m ''reddit'' then [''reddit.com''] else [])
                 @ (if includesStr m ''wikipedia'' then [''wikipedia.org''] else [])
                 @ (if includesStr m ''github'' then [''github.com''] else [])
                 @ (if includesStr m ''stackoverflow'' then [''stackoverflow.com''] else [])
     in if length domains > 0 then Some domains else None)"

definition stopWords :: "string list" where
  "stopWords = [''the'', ''a'', ''an'', ''is'', ''are'', ''was'', ''were'', ''what'', ''when'',
     ''where'', ''who'', ''how'', ''why'']"

definition countConcepts :: "string \<Rightarrow> nat" where
  "countConcepts m =
    length (remdups (filter (\<lambda>w. length w > 3 \<and> w \<notin> set stopWords)
                            (split_ws (toLowerCase m))))"

definition assessComplexity :: "string \<Rightarrow> searchType option \<Rightarrow> complexityLevel" where
  "assessComplexity m st =
    (let wordCount = length (split_ws m);
         hasMultipleQuestions = (length (filter (\<lambda>c. c = CHR ''?'') m) > 1);
         hasComplexTerms = rxTest complexTermsPattern m;
         hasMultipleConcepts = (countConcepts m > 2)
     in if st = Some research \<or> st = Some comparison then complex
        else
          let complexityScore =
                (if wordCount > 50 then 2 else if wordCount > 20 then 1 else 0)
              + (if hasMultipleQuestions then 2 else 0)
              + (if hasComplexTerms then 1 else 0)
              + (if hasMultipleConcepts then (1::nat) else 0)
          in if complexityScore \<ge> 4 then complex
             else if complexityScore \<ge> 2 then moderate
             else simple)"

fun baseDurations :: "complexityLevel \<Rightarrow> searchType \<Rightarrow> nat" where
  "baseDurations simple current_events = 2"
| "baseDurations simple factual = 3"
| "baseDurations simple research = 10"
| "baseDurations simple comparison = 8"
| "baseDurations moderate current_events = 5"
| "baseDurations moderate factual = 8"
| "baseDurations moderate research = 30"
| "baseDurations moderate comparison = 20"
| "baseDurations complex current_events = 10"
| "baseDurations complex factual = 15"
| "baseDurations complex research = 60"
| "baseDurations complex comparison = 40"

definition estimateDuration :: "complexityLevel option \<Rightarrow> searchType option \<Rightarrow> nat" where
  "estimateDuration c st =
    (let d = baseDurations (case c of None \<Rightarrow> simple | Some c' \<Rightarrow> c')
                           (case st of None \<Rightarrow> factual | Some st' \<Rightarrow> st')
     in if d = 0 then 5 else d)"

definition hasActionKeyword :: "string \<Rightarrow> bool" where
  "hasActionKeyword lowerMessage = list_ex (\<lambda>keyword. includesStr lowerMessage keyword) actionExclusions"

definition hasGenerativePattern :: "string \<Rightarrow> bool" where
  "hasGenerativePattern userMessage = list_ex (\<lambda>pattern. rxTest pattern userMessage) generativePatterns"

definition detectSearchIntent :: "string \<Rightarrow> SearchIntent" where
  "detectSearchIntent userMessage =
    (let lowerMessage = toLowerCase userMessage in
     if hasActionKeyword lowerMessage \<or> hasGenerativePattern userMessage then noSearch
     else
       let needsCurrentInfo = list_ex (\<lambda>keyword. includesStr lowerMessage keyword) currentInfoKeywords;
           needsFactualInfo = list_ex (\<lambda>keyword. includesStr lowerMessage keyword) factualKeywords;
           needsResearch = list_ex (\<lambda>keyword. includesStr lowerMessage keyword) researchKeywords
       in if \<not> (needsCurrentInfo \<or> needsFactualInfo \<or> needsResearch) then noSearch
          else
            let tf = (if includesStr lowerMessage ''today'' then Some ''day''
                      else if includesStr lowerMessage ''this week'' then Some ''week''
                      else if includesStr lowerMessage ''this month'' then Some ''month''
                      else if includesStr lowerMessage ''this year'' then Some ''year''
                      else None);
                st = (if needsCurrentInfo then current_events
                      else if needsResearch then research
                      else factual);
                df = extractDomainFilter lowerMessage;
                cx = assessComplexity userMessage (Some st);
                ra = (cx = complex \<or> st = research);
                ed = estimateDuration (Some cx) (Some st)
            in \<lparr>needsSearch = True,
                searchQuery = Some (extractSearchQuery userMessage),
                searchType = Some st,
                timeFilter = tf,
                domainFilter = df,
                queryType = Some st,
                complexity = Some cx,
                estimatedDuration = Some ed,
                requiresAsync = Some ra\<rparr>)"

section \<open>WaveSpeed multi-image client\<close>

text \<open>Decimal rendering of a number in a template string.\<close>

definition digitChar :: "nat \<Rightarrow> char" where
  "digitChar d = ''0123456789'' ! (d mod 10)"

function showNat :: "nat \<Rightarrow> string" where
  "showNat n = (if n < 10 then [digitChar n] else showNat (n div 10) @ [digitChar (n mod 10)])"
  by pat_completeness auto
termination
  by (relation "measure id") auto

declare showNat.simps [simp del]

text \<open>
  A value caught by \<^verbatim>\<open>catch\<close>: an \<^verbatim>\<open>Error\<close> object with its message, or anything
  else (for which \<^verbatim>\<open>error instanceof Error\<close> is false).
\<close>

datatype thrown = ErrorObject string | NotAnError

record WaveSpeedMultiImageRequest =
  rq_images :: "string list"
  rq_prompt :: string
  rq_guidanceScale :: "real option"
  rq_safetyTolerance :: "string option"

record payload =
  guidance_scale :: real
  p_images :: "string list"
  p_prompt :: string
  safety_tolerance :: string

text \<open>
  \<^verbatim>\<open>processedInputs\<close> lists, for each input image, its 1-based index, its kind and its
  length (from which the source renders a size in KB).
\<close>

record ws_metadata =
  md_model :: string
  md_provider :: string
  processedInputs :: "((nat \<times> string \<times> nat) list \<times> string) option"
  executionTime :: "nat option"

record WaveSpeedMultiImageResponse =
  success :: bool
  rs_imageUrl :: "string option"
  rs_taskId :: "string option"
  errorMessage :: "string option"
  rs_metadata :: "ws_metadata option"

text \<open>The outcome of submitting the task: the fetch or the JSON decoding throws, the
  response is not ok (status and body text), or the decoded body with the task id found at
  \<^verbatim>\<open>data.id\<close> and at \<^verbatim>\<open>id\<close>.\<close>

datatype submit_outcome =
    SubmitThrows thrown
  | SubmitNotOk nat string
  | SubmitJson "string option" "string option"

text \<open>The decoded body of a poll response.\<close>

record poll_data =
  d_status :: "string option"
  d_outputs :: "string list option"

record poll_result =
  data :: "poll_data option"
  r_status :: "string option"
  r_outputs :: "string list option"
  r_error :: "string option"

datatype poll_outcome =
    PollThrows thrown
  | PollNotOk nat
  | PollJson poll_result

text \<open>The remote service: what the submission answers and what the n-th poll answers.\<close>

record wavespeed =
  submitTask :: submit_outcome
  pollResult :: "nat \<Rightarrow> poll_outcome"

datatype ws_event = EvSubmit payload | EvSleep nat | EvPoll nat

definition maxAttempts :: nat where
  "maxAttempts = 120"

text \<open>\<^verbatim>\<open>pollResult.data?.status || pollResult.status\<close>\<close>

definition statusOf :: "poll_result \<Rightarrow> string option" where
  "statusOf r =
    (case data r of
       None \<Rightarrow> r_status r
     | Some d \<Rightarrow> if truthy (d_status d) then d_status d else r_status r)"

text \<open>\<^verbatim>\<open>pollResult.data?.outputs || pollResult.outputs\<close> (an array, even empty, is truthy)\<close>

definition outputsOf :: "poll_result \<Rightarrow> string list option" where
  "outputsOf r =
    (case data r of
       None \<Rightarrow> r_outputs r
     | Some d \<Rightarrow> (case d_outputs d of None \<Rightarrow> r_outputs r | Some os \<Rightarrow> Some os))"

definition isCompleted :: "poll_result \<Rightarrow> bool" where
  "isCompleted r =
    (statusOf r = Some ''completed'' \<and>
     (case outputsOf r of None \<Rightarrow> False | Some os \<Rightarrow> length os > 0))"

definition isFailed :: "poll_result \<Rightarrow> bool" where
  "isFailed r = (\<not> isCompleted r \<and> statusOf r = Some ''failed'')"

definition successResponse ::
  "WaveSpeedMultiImageRequest \<Rightarrow> string \<Rightarrow> nat \<Rightarrow> poll_result \<Rightarrow> WaveSpeedMultiImageResponse" where
  "successResponse request tid attempts r =
    \<lparr>success = True,
     rs_imageUrl = Some (hd (the (outputsOf r))),
     rs_taskId = Some tid,
     errorMessage = None,
     rs_metadata = Some \<lparr>md_model = ''wavespeed-ai/flux-kontext-max/multi'',
       md_provider = ''wavespeed'',
       processedInputs = Some
         (map (\<lambda>(i, img). (i + 1,
                 if startsWith img ''data:'' then ''data URL'' else ''HTTP URL'',
                 length img))
              (zip [0..<length (rq_images request)] (rq_images request)),
          rq_prompt request),
       executionTime = Some (attempts * 1000)\<rparr>\<rparr>"

text \<open>
  The polling loop. The result is the value returned from inside the loop, or the value
  thrown out of it; the second component is the sequence of sleeps and polls made.
\<close>

function pollLoop ::
  "(nat \<Rightarrow> poll_outcome) \<Rightarrow> WaveSpeedMultiImageRequest \<Rightarrow> string \<Rightarrow> nat \<Rightarrow> ws_event list
     \<Rightarrow> (thrown + WaveSpeedMultiImageResponse) \<times> ws_event list" where
  "pollLoop poll request tid attempts tr =
    (if attempts < maxAttempts then
       let attempts' = attempts + 1;
           tr' = tr @ [EvSleep 1000, EvPoll attempts']
       in (case poll attempts' of
             PollNotOk st \<Rightarrow> pollLoop poll request tid attempts' tr'
           | PollThrows pollError \<Rightarrow>
               if attempts' \<ge> maxAttempts then (Inl pollError, tr')
               else pollLoop poll request tid attempts' tr'
           | PollJson r \<Rightarrow>
               if isCompleted r then (Inr (successResponse request tid attempts' r), tr')
               else if statusOf r = Some ''failed'' then
                 (if attempts' \<ge> maxAttempts
                  then (Inl (ErrorObject (''Task failed: '' @ orElse (r_error r) ''Unknown error'')), tr')
                  else pollLoop poll request tid attempts' tr')
               else pollLoop poll request tid attempts' tr')
     else (Inl (ErrorObject ''Task timed out after 2 minutes''), tr))"
  by pat_completeness auto
termination
  by (relation "measure (\<lambda>(poll, request, tid, attempts, tr). maxAttempts - attempts)") auto

declare pollLoop.simps [simp del]

text \<open>The outer \<^verbatim>\<open>catch\<close>: every thrown value becomes a response with \<^verbatim>\<open>success: false\<close>.\<close>

definition failureResponse :: "thrown \<Rightarrow> WaveSpeedMultiImageResponse" where
  "failureResponse e =
    \<lparr>success = False,
     rs_imageUrl = None,
     rs_taskId = None,
     errorMessage = Some (case e of ErrorObject m \<Rightarrow> m | NotAnError \<Rightarrow> ''Unknown error occurred''),
     rs_metadata = Some \<lparr>md_model = ''wavespeed-ai/flux-kontext-max/multi'',
       md_provider = ''wavespeed'', processedInputs = None, executionTime = None\<rparr>\<rparr>"

definition makePayload :: "WaveSpeedMultiImageRequest \<Rightarrow> payload" where
  "makePayload request =
    \<lparr>guidance_scale = (case rq_guidanceScale request of
                         None \<Rightarrow> 3.5 | Some g \<Rightarrow> if g = 0 then 3.5 else g),
     p_images = rq_images request,
     p_prompt = rq_prompt request,
     safety_tolerance = orElse (rq_safetyTolerance request) ''2''\<rparr>"

definition generateMultiImageEdit ::
  "wavespeed \<Rightarrow> WaveSpeedMultiImageRequest \<Rightarrow> WaveSpeedMultiImageResponse \<times> ws_event list" where
  "generateMultiImageEdit w request =
    (let tr = [EvSubmit (makePayload request)] in
     case submitTask w of
       SubmitThrows e \<Rightarrow> (failureResponse e, tr)
     | SubmitNotOk st errorText \<Rightarrow>
         (failureResponse (ErrorObject (''Failed to submit task: '' @ showNat st @ '' '' @ errorText)), tr)
     | SubmitJson dataId topId \<Rightarrow>
         if \<not> truthy dataId \<and> \<not> truthy topId then
           (failureResponse (ErrorObject ''No task ID received from WaveSpeed API''), tr)
         else
           (case pollLoop (pollResult w) request (orElse dataId (the topId)) 0 tr of
              (Inl e, tr') \<Rightarrow> (failureResponse e, tr')
            | (Inr response, tr') \<Rightarrow> (response, tr')))"

text \<open>What a poll reports, and the events of the first polls after a given attempt count.\<close>

definition reportsCompleted :: "poll_outcome \<Rightarrow> bool" where
  "reportsCompleted p = (case p of PollJson r \<Rightarrow> isCompleted r | _ \<Rightarrow> False)"

definition reportsFailed :: "poll_outcome \<Rightarrow> bool" where
  "reportsFailed p = (case p of PollJson r \<Rightarrow> isFailed r | _ \<Rightarrow> False)"

definition pollThrew :: "poll_outcome \<Rightarrow> bool" where
  "pollThrew p = (case p of PollThrows e \<Rightarrow> True | _ \<Rightarrow> False)"

definition pollEvents :: "nat \<Rightarrow> nat \<Rightarrow> ws_event list" where
  "pollEvents a n = concat (map (\<lambda>i. [EvSleep 1000, EvPoll i]) [Suc a ..< Suc a + n])"

definition taskAccepted :: "wavespeed \<Rightarrow> bool" where
  "taskAccepted w =
    (case submitTask w of SubmitJson dataId topId \<Rightarrow> truthy dataId \<or> truthy topId | _ \<Rightarrow> False)"

text \<open>A poll after which the loop goes on.\<close>

definition goesOn :: "(nat \<Rightarrow> poll_outcome) \<Rightarrow> nat \<Rightarrow> bool" where
  "goesOn poll j = (\<not> reportsCompleted (poll j) \<and>
     (j < maxAttempts \<or> (\<not> reportsFailed (poll j) \<and> \<not> pollThrew (poll j))))"

text \<open>Example requests and services, used to run the client on concrete inputs.\<close>

definition twoImages :: WaveSpeedMultiImageRequest where
  "twoImages = \<lparr>rq_images = [''https://example.com/a.png'', ''data:image/png;base64,AAAA''],
     rq_prompt = ''merge both'', rq_guidanceScale = None, rq_safetyTolerance = None\<rparr>"

definition jsonStatus :: "string \<Rightarrow> string list option \<Rightarrow> poll_outcome" where
  "jsonStatus s os = PollJson \<lparr>data = Some \<lparr>d_status = Some s, d_outputs = os\<rparr>,
     r_status = None, r_outputs = None, r_error = None\<rparr>"

definition completesAtThird :: wavespeed where
  "completesAtThird = \<lparr>submitTask = SubmitJson (Some ''task-1'') None,
     pollResult = (\<lambda>k. if k < 3 then jsonStatus ''processing'' None
                        else jsonStatus ''completed'' (Some [''https://cdn.example.com/out.png'']))\<rparr>"

definition neverFinishes :: wavespeed where
  "neverFinishes = \<lparr>submitTask = SubmitJson None (Some ''task-2''),
     pollResult = (\<lambda>k. jsonStatus ''processing'' None)\<rparr>"

definition throwsAtLastPoll :: wavespeed where
  "throwsAtLastPoll = \<lparr>submitTask = SubmitJson (Some ''task-3'') None,
     pollResult = (\<lambda>k. if k = 120 then PollThrows (ErrorObject ''socket hang up'')
                        else PollNotOk 503)\<rparr>"

definition failedThenCompleted :: wavespeed where
  "failedThenCompleted = \<lparr>submitTask = SubmitJson (Some ''task-4'') None,
     pollResult = (\<lambda>k. if k = 1 then jsonStatus ''failed'' None
                        else jsonStatus ''completed'' (Some [''https://cdn.example.com/late.png'']))\<rparr>"

section \<open>Image URL validation (image-url-validator)\<close>

text \<open>
  The outside world of the image routes. Each external call is answered by an oracle that
  is given the number of earlier calls of the same kind and the call's arguments, so two
  calls with the same arguments may be answered differently. Every call is recorded, with
  its answer, in a trace. The persistence lookup \<^verbatim>\<open>getImageByLocalId\<close> and the provider
  clients are treated like the network: what they return or throw is a parameter.
\<close>

datatype head_outcome = HeadResponse bool nat | HeadThrows js_error

record stored_image =
  stored_url :: "string option"

datatype db_outcome = DbResult "stored_image option" | DbThrows js_error

text \<open>A GET request: the fetch throws, the response is not ok (status, status text), or
  the body is read as a data URL, which may itself fail.\<close>

datatype get_outcome = GetThrows js_error | GetNotOk nat string | GetBlob "js_error + string"

text \<open>The conversion proxy: the fetch or the JSON decoding throws, the response is not ok,
  or the decoded body with its \<^verbatim>\<open>dataUrl\<close> field.\<close>

datatype proxy_outcome = ProxyThrows js_error | ProxyNotOk | ProxyJson "string option"

record edit_input =
  ei_prompt :: string
  input_image :: string
  aspect_ratio :: string
  output_format :: string
  ei_safety_tolerance :: nat

datatype edit_outcome = EditUrl string | EditThrows js_error

record gpt_options =
  go_size :: string
  go_quality :: string
  go_style :: string
  go_mask :: "string option"

record gpt_result =
  g_imageUrl :: string
  g_originalImageUrl :: "string option"
  g_revisedPrompt :: "string option"
  g_model :: "string option"
  g_method :: "string option"

datatype gpt_outcome = GptResult gpt_result | GptThrows js_error

record world =
  headRequest :: "nat \<Rightarrow> string \<Rightarrow> head_outcome"
  getImageByLocalId :: "nat \<Rightarrow> string \<Rightarrow> db_outcome"
  getRequest :: "nat \<Rightarrow> string \<Rightarrow> get_outcome"
  proxyRequest :: "nat \<Rightarrow> string \<Rightarrow> proxy_outcome"
  editImage :: "string \<Rightarrow> edit_input \<Rightarrow> edit_outcome"
  smartEditWithGPTImage1 :: "string \<Rightarrow> string \<Rightarrow> gpt_options \<Rightarrow> gpt_outcome"

datatype event =
    EvHead string head_outcome
  | EvLookup string db_outcome
  | EvGet string get_outcome
  | EvProxy string proxy_outcome
  | EvReplicateEdit string edit_input edit_outcome
  | EvGptEdit string string gpt_options gpt_outcome

fun isHead :: "event \<Rightarrow> bool" where
  "isHead (EvHead _ _) = True"
| "isHead _ = False"

fun isLookup :: "event \<Rightarrow> bool" where
  "isLookup (EvLookup _ _) = True"
| "isLookup _ = False"

fun isGet :: "event \<Rightarrow> bool" where
  "isGet (EvGet _ _) = True"
| "isGet _ = False"

fun isProxy :: "event \<Rightarrow> bool" where
  "isProxy (EvProxy _ _) = True"
| "isProxy _ = False"

fun isReplicateEdit :: "event \<Rightarrow> bool" where
  "isReplicateEdit (EvReplicateEdit _ _ _) = True"
| "isReplicateEdit _ = False"

definition countOf :: "(event \<Rightarrow> bool) \<Rightarrow> event list \<Rightarrow> nat" where
  "countOf P tr = length (filter P tr)"

definition fetchHead :: "world \<Rightarrow> string \<Rightarrow> event list \<Rightarrow> head_outcome \<times> event list" where
  "fetchHead w url tr =
    (let r = headRequest w (countOf isHead tr) url in (r, tr @ [EvHead url r]))"

definition lookupImage :: "world \<Rightarrow> string \<Rightarrow> event list \<Rightarrow> db_outcome \<times> event list" where
  "lookupImage w imageId tr =
    (let r = getImageByLocalId w (countOf isLookup tr) imageId in (r, tr @ [EvLookup imageId r]))"

definition validateImageUrl :: "world \<Rightarrow> string \<Rightarrow> event list \<Rightarrow> bool \<times> event list" where
  "validateImageUrl w url tr =
    (case fetchHead w url tr of
       (HeadResponse ok st, tr') \<Rightarrow> (ok, tr')
     | (HeadThrows e, tr') \<Rightarrow> (False, tr'))"

definition downloadImageAsDataUrl ::
  "world \<Rightarrow> string \<Rightarrow> event list \<Rightarrow> (js_error + string) \<times> event list" where
  "downloadImageAsDataUrl w url tr =
    (let r = getRequest w (countOf isGet tr) url; tr' = tr @ [EvGet url r] in
     case r of
       GetThrows e \<Rightarrow> (Inl e, tr')
     | GetNotOk st statusText \<Rightarrow>
         (Inl (Error (''Failed to fetch image: '' @ showNat st @ '' '' @ statusText)), tr')
     | GetBlob b \<Rightarrow> (b, tr'))"

text \<open>
  The result is the value returned (\<^verbatim>\<open>undefined\<close> when the proxy's body has no
  \<^verbatim>\<open>dataUrl\<close>) or the error thrown.
\<close>

definition ensureImageUrlAccessible ::
  "world \<Rightarrow> string \<Rightarrow> event list \<Rightarrow> (js_error + string option) \<times> event list" where
  "ensureImageUrlAccessible w url tr =
    (case validateImageUrl w url tr of
       (True, tr1) \<Rightarrow> (Inr (Some url), tr1)
     | (False, tr1) \<Rightarrow>
         (case downloadImageAsDataUrl w url tr1 of
            (Inr dataUrl, tr2) \<Rightarrow> (Inr (Some dataUrl), tr2)
          | (Inl e, tr2) \<Rightarrow>
              (let p = proxyRequest w (countOf isProxy tr2) url; tr3 = tr2 @ [EvProxy url p] in
               case p of
                 ProxyJson dataUrl \<Rightarrow> (Inr dataUrl, tr3)
               | _ \<Rightarrow> (Inl (Error ''Image URL has expired and could not be recovered. Please try editing a more recent image.''), tr3))))"

definition isReplicateDeliveryUrl :: "string \<Rightarrow> bool" where
  "isReplicateDeliveryUrl url = includesStr url ''replicate.delivery''"

section \<open>edit-image route\<close>

record edit_body =
  eb_imageUrl :: "string option"
  eb_imageId :: "string option"
  eb_prompt :: "string option"
  eb_model :: "string option"
  eb_quality :: "string option"
  eb_style :: "string option"
  eb_size :: "string option"
  eb_mask :: "string option"

text \<open>\<^verbatim>\<open>process.env\<close>\<close>

record env =
  OPENAI_API_KEY :: "string option"
  REPLICATE_API_KEY :: "string option"
  WAVESPEED_API_KEY :: "string option"

record edit_image_entry =
  ie_url :: string
  ie_originalUrl :: string
  ie_revisedPrompt :: string
  ie_index :: nat

record edit_metadata =
  em_model :: string
  em_provider :: string
  em_quality :: string
  em_style :: string
  em_size :: string
  em_originalPrompt :: string
  em_editMode :: bool
  em_method :: string
  em_imageCount :: nat
  em_note :: "string option"

type_synonym edit_success = "edit_image_entry list \<times> edit_metadata"

text \<open>The quality and size tables of the handler.\<close>

definition gptQualityOf :: "string \<Rightarrow> string" where
  "gptQualityOf quality =
    (if quality = ''standard'' then ''medium''
     else if quality = ''hd'' then ''high''
     else ''medium'')"

definition validSizes :: "string list" where
  "validSizes = [''1024x1024'', ''1536x1024'', ''1024x1536'']"

definition actualSizeOf :: "string \<Rightarrow> string" where
  "actualSizeOf sz =
    (if sz = ''1792x1024'' then ''1536x1024''
     else if sz = ''1024x1536'' then ''1024x1536''
     else if sz \<notin> set validSizes then ''1024x1024''
     else sz)"

definition urlExpiredResponse :: "string \<Rightarrow> edit_success response" where
  "urlExpiredResponse imageUrl =
    (let isReplicateUrl = includesStr imageUrl ''replicate.delivery'' in
     Failure 400
       \<lparr>error = ''Image URL expired or inaccessible'',
        details = Some (if isReplicateUrl
          then ''The Replicate image URL has expired. Replicate URLs are only available for 24 hours.''
          else ''The image URL is no longer accessible.''),
        suggestion = Some ''To edit this image, please save it to your device first, then upload it again.'',
        technicalInfo = Some (imageUrl, ''url_expired'',
          if isReplicateUrl then ''replicate'' else ''unknown'')\<rparr>)"

text \<open>
  How a block of the handler ends: it falls through with a value, it returns a response,
  or it throws.
\<close>

datatype 'a flow = Value 'a | Return "edit_success response" | Throw js_error

definition found :: "stored_image option \<Rightarrow> bool" where
  "found storedImage = (case storedImage of None \<Rightarrow> False | Some s \<Rightarrow> truthy (stored_url s))"

text \<open>
  The \<^verbatim>\<open>catch\<close> block of the accessibility check: a database lookup when there is an image
  id and the URL is a Replicate delivery URL, then the download, then the 400 response.
\<close>

definition recoverInCatch ::
  "world \<Rightarrow> string \<Rightarrow> string option \<Rightarrow> event list \<Rightarrow> string option flow \<times> event list" where
  "recoverInCatch w imageUrl imageId tr =
    (if truthy imageId \<and> isReplicateDeliveryUrl imageUrl then
       (case lookupImage w (the imageId) tr of
          (DbThrows e, tr1) \<Rightarrow> (Throw e, tr1)
        | (DbResult storedImage, tr1) \<Rightarrow>
            if found storedImage then (Value (stored_url (the storedImage)), tr1)
            else
              (case ensureImageUrlAccessible w imageUrl tr1 of
                 (Inr v, tr2) \<Rightarrow> (Value v, tr2)
               | (Inl recoveryError, tr2) \<Rightarrow> (Return (urlExpiredResponse imageUrl), tr2)))
     else
       (case ensureImageUrlAccessible w imageUrl tr of
          (Inr v, tr1) \<Rightarrow> (Value v, tr1)
        | (Inl recoveryError, tr1) \<Rightarrow> (Return (urlExpiredResponse imageUrl), tr1)))"

text \<open>
  The \<^verbatim>\<open>try\<close> block of the accessibility check; whatever is thrown inside it, by the
  HEAD request, the lookup or the download, lands in the \<^verbatim>\<open>catch\<close> block above.
\<close>

definition checkAccessibility ::
  "world \<Rightarrow> string \<Rightarrow> string option \<Rightarrow> event list \<Rightarrow> string option flow \<times> event list" where
  "checkAccessibility w imageUrl imageId tr =
    (case fetchHead w imageUrl tr of
       (HeadThrows e, tr1) \<Rightarrow> recoverInCatch w imageUrl imageId tr1
     | (HeadResponse ok st, tr1) \<Rightarrow>
         if ok then (Value (Some imageUrl), tr1)
         else if truthy imageId \<and> isReplicateDeliveryUrl imageUrl then
           (case lookupImage w (the imageId) tr1 of
              (DbThrows e, tr2) \<Rightarrow> recoverInCatch w imageUrl imageId tr2
            | (DbResult storedImage, tr2) \<Rightarrow>
                if found storedImage then (Value (stored_url (the storedImage)), tr2)
                else
                  (case ensureImageUrlAccessible w imageUrl tr2 of
                     (Inr v, tr3) \<Rightarrow> (Value v, tr3)
                   | (Inl e, tr3) \<Rightarrow> recoverInCatch w imageUrl imageId tr3))
         else
           (case ensureImageUrlAccessible w imageUrl tr1 of
              (Inr v, tr2) \<Rightarrow> (Value v, tr2)
            | (Inl e, tr2) \<Rightarrow> recoverInCatch w imageUrl imageId tr2))"

definition isFluxKontext :: "string \<Rightarrow> bool" where
  "isFluxKontext model = (model = ''flux-kontext-max'' \<or> model = ''flux-kontext-pro'')"

text \<open>The Replicate branch of the handler, after the model and key checks.\<close>

definition editWithReplicate ::
  "world \<Rightarrow> string \<Rightarrow> string \<Rightarrow> string option \<Rightarrow> string \<Rightarrow> string \<Rightarrow> string \<Rightarrow> string
     \<Rightarrow> edit_success response \<times> event list" where
  "editWithReplicate w model imageUrl imageId prompt quality style sz =
    (case (if \<not> startsWith imageUrl ''data:'' \<and> \<not> includesStr imageUrl ''blob.vercel-storage.com''
           then checkAccessibility w imageUrl imageId []
           else (Value (Some imageUrl), [])) of
       (Return r, tr) \<Rightarrow> (r, tr)
     | (Throw e, tr) \<Rightarrow> (classifyError e, tr)
     | (Value None, tr) \<Rightarrow>
         (classifyError (Error ''Cannot read properties of undefined (reading 'substring')''), tr)
     | (Value (Some validImageUrl), tr) \<Rightarrow>
         (let editInput = \<lparr>ei_prompt = prompt, input_image = validImageUrl,
                aspect_ratio = ''match_input_image'', output_format = ''png'',
                ei_safety_tolerance = 2\<rparr>;
              r = editImage w model editInput;
              tr' = tr @ [EvReplicateEdit model editInput r]
          in case r of
               EditThrows e \<Rightarrow> (classifyError e, tr')
             | EditUrl editedImageUrl \<Rightarrow>
                 (Success ([\<lparr>ie_url = editedImageUrl, ie_originalUrl = imageUrl,
                              ie_revisedPrompt = prompt, ie_index = 0\<rparr>],
                           \<lparr>em_model = model, em_provider = ''replicate'', em_quality = quality,
                            em_style = style, em_size = sz, em_originalPrompt = prompt,
                            em_editMode = True, em_method = ''image-to-image'',
                            em_imageCount = 1, em_note = None\<rparr>), tr')))"

text \<open>The GPT-Image-1 branch of the handler.\<close>

definition editWithGPTImage1 ::
  "world \<Rightarrow> string \<Rightarrow> string \<Rightarrow> string \<Rightarrow> string \<Rightarrow> string \<Rightarrow> string option
     \<Rightarrow> edit_success response \<times> event list" where
  "editWithGPTImage1 w imageUrl prompt quality style sz maskOpt =
    (if \<not> startsWith imageUrl ''data:'' \<and>
        (includesStr imageUrl ''generativelanguage.googleapis.com'' \<or> includesStr imageUrl ''files/'')
     then (Failure 400
            \<lparr>error = ''Image editing not available for Gemini file URIs'',
             details = Some ''Gemini file URIs cannot be accessed by external services. Please upload the image again or use a generated image.'',
             suggestion = Some ''Try uploading the image file directly instead of using a Gemini URI'',
             technicalInfo = None\<rparr>, [])
     else
       (let opts = \<lparr>go_size = actualSizeOf sz, go_quality = gptQualityOf quality,
                     go_style = style, go_mask = maskOpt\<rparr>;
            r = smartEditWithGPTImage1 w imageUrl prompt opts;
            tr = [EvGptEdit imageUrl prompt opts r]
        in case r of
             GptThrows e \<Rightarrow> (classifyError e, tr)
           | GptResult result \<Rightarrow>
               (Success ([\<lparr>ie_url = g_imageUrl result,
                            ie_originalUrl = orElse (g_originalImageUrl result) imageUrl,
                            ie_revisedPrompt = orElse (g_revisedPrompt result) prompt,
                            ie_index = 0\<rparr>],
                         \<lparr>em_model = orElse (g_model result) ''gpt-image-1'',
                          em_provider = ''openai'', em_quality = quality,
                          em_style = style, em_size = sz, em_originalPrompt = prompt,
                          em_editMode = True,
                          em_method = orElse (g_method result) ''image-to-image'',
                          em_imageCount = 1,
                          em_note = (case g_model result of
                                       None \<Rightarrow> None
                                     | Some m \<Rightarrow> if includesStr m ''fallback''
                                         then Some ''Using fallback model due to GPT-Image-1 availability''
                                         else None)\<rparr>), tr)))"

text \<open>
  The handler. The request is the parsed body, or the error thrown by \<^verbatim>\<open>req.json()\<close>.
\<close>

definition POST_edit_image ::
  "env \<Rightarrow> world \<Rightarrow> js_error + edit_body \<Rightarrow> edit_success response \<times> event list" where
  "POST_edit_image ev w req =
    (case req of
       Inl e \<Rightarrow> (Failure 500 (errorDetails ''Failed to process request''
                    (orElse (message e) ''Unknown error'')), [])
     | Inr body \<Rightarrow>
        (let model = orDefault (eb_model body) ''flux-kontext-pro'';
             quality = orDefault (eb_quality body) ''standard'';
             style = orDefault (eb_style body) ''vivid'';
             sz = orDefault (eb_size body) ''1024x1024''
         in
         if model = ''gpt-image-1'' \<and> \<not> truthy (OPENAI_API_KEY ev) then
           (Failure 500 (errorDetails ''OpenAI API key not configured''
              ''Please add OPENAI_API_KEY to your .env.local file. Get your API key from https://platform.openai.com/api-keys''), [])
         else if isFluxKontext model \<and> \<not> truthy (REPLICATE_API_KEY ev) then
           (Failure 500 (errorDetails ''Replicate API key not configured''
              ''Please add REPLICATE_API_KEY to your .env.local file.''), [])
         else if \<not> truthy (eb_imageUrl body) then
           (Failure 400 (errorJson ''Image URL is required''), [])
         else if \<not> truthy (eb_prompt body) then
           (Failure 400 (errorJson ''Edit prompt is required''), [])
         else if model = ''gpt-image-1'' then
           editWithGPTImage1 w (the (eb_imageUrl body)) (the (eb_prompt body)) quality style sz
             (eb_mask body)
         else if isFluxKontext model then
           (if \<not> truthy (REPLICATE_API_KEY ev) then
              (Failure 500 (errorDetails ''Replicate API key not configured''
                 ''Please add REPLICATE_API_KEY to your .env.local file.''), [])
            else editWithReplicate w model (the (eb_imageUrl body)) (eb_imageId body)
                   (the (eb_prompt body)) quality style sz)
         else
           (Failure 400 (errorDetails ''Invalid model specified''
              (''The model \"'' @ model @ ''\" is not supported for image editing.'')), [])))"

text \<open>Vocabulary for statements about the trace of the edit-image handler.\<close>

fun headOk :: "head_outcome \<Rightarrow> bool" where
  "headOk (HeadResponse ok st) = ok"
| "headOk (HeadThrows e) = False"

text \<open>A recovery step that did not produce a usable URL.\<close>

fun failedStep :: "event \<Rightarrow> bool" where
  "failedStep (EvHead url h) = (\<not> headOk h)"
| "failedStep (EvLookup imageId (DbResult storedImage)) = (\<not> found storedImage)"
| "failedStep (EvLookup imageId (DbThrows e)) = True"
| "failedStep (EvGet url (GetBlob (Inr dataUrl))) = False"
| "failedStep (EvGet url g) = True"
| "failedStep (EvProxy url (ProxyJson dataUrl)) = False"
| "failedStep (EvProxy url p) = True"
| "failedStep (EvReplicateEdit model editInput r) = False"
| "failedStep (EvGptEdit url p opts r) = False"

text \<open>A list of events without any provider call.\<close>

definition recoveryOnly :: "event list \<Rightarrow> bool" where
  "recoveryOnly evs = list_all (\<lambda>e. isHead e \<or> isLookup e \<or> isGet e \<or> isProxy e) evs"

definition editInputFor :: "string \<Rightarrow> string \<Rightarrow> edit_input" where
  "editInputFor p validImageUrl =
    \<lparr>ei_prompt = p, input_image = validImageUrl, aspect_ratio = ''match_input_image'',
     output_format = ''png'', ei_safety_tolerance = 2\<rparr>"

text \<open>A request that passes the key and presence checks and takes the Replicate branch
  with a URL that is neither a data URL nor a blob-storage URL.\<close>

definition reachesCascade :: "env \<Rightarrow> edit_body \<Rightarrow> bool" where
  "reachesCascade ev body =
    (isFluxKontext (orDefault (eb_model body) ''flux-kontext-pro'')
     \<and> truthy (REPLICATE_API_KEY ev)
     \<and> truthy (eb_imageUrl body) \<and> truthy (eb_prompt body)
     \<and> \<not> startsWith (the (eb_imageUrl body)) ''data:''
     \<and> \<not> includesStr (the (eb_imageUrl body)) ''blob.vercel-storage.com'')"

text \<open>
  The events that come before \<^verbatim>\<open>ensureImageUrlAccessible\<close> when the handler's own HEAD
  check has failed: the check, and the lookup if there is an image id for a Replicate
  delivery URL.
\<close>

definition beforeEnsure :: "world \<Rightarrow> string \<Rightarrow> string option \<Rightarrow> event list" where
  "beforeEnsure w url imageId =
    (if truthy imageId \<and> isReplicateDeliveryUrl url
     then [EvHead url (headRequest w 0 url),
           EvLookup (the imageId) (getImageByLocalId w 0 (the imageId))]
     else [EvHead url (headRequest w 0 url)])"

text \<open>The response of the Replicate branch for a given outcome of the provider call.\<close>

definition replicateResponse ::
  "string \<Rightarrow> string \<Rightarrow> string \<Rightarrow> string \<Rightarrow> string \<Rightarrow> string \<Rightarrow> edit_outcome
     \<Rightarrow> edit_success response" where
  "replicateResponse model imageUrl p quality style sz r =
    (case r of
       EditThrows e \<Rightarrow> classifyError e
     | EditUrl editedImageUrl \<Rightarrow>
         Success ([\<lparr>ie_url = editedImageUrl, ie_originalUrl = imageUrl,
                      ie_revisedPrompt = p, ie_index = 0\<rparr>],
                   \<lparr>em_model = model, em_provider = ''replicate'', em_quality = quality,
                    em_style = style, em_size = sz, em_originalPrompt = p,
                    em_editMode = True, em_method = ''image-to-image'',
                    em_imageCount = 1, em_note = None\<rparr>))"

text \<open>Example environments, requests and worlds for the edit-image route.\<close>

definition replicateEnv :: env where
  "replicateEnv = \<lparr>OPENAI_API_KEY = None, REPLICATE_API_KEY = Some ''r8_key'',
     WAVESPEED_API_KEY = None\<rparr>"

definition catRequest :: edit_body where
  "catRequest = \<lparr>eb_imageUrl = Some ''https://example.com/cat.png'', eb_imageId = None,
     eb_prompt = Some ''make it blue'', eb_model = None, eb_quality = None, eb_style = None,
     eb_size = None, eb_mask = None\<rparr>"

definition deliveryRequest :: edit_body where
  "deliveryRequest = \<lparr>eb_imageUrl = Some ''https://replicate.delivery/pbxt/out.png'',
     eb_imageId = Some ''img_1'', eb_prompt = Some ''make it blue'',
     eb_model = Some ''flux-kontext-max'', eb_quality = None, eb_style = None,
     eb_size = None, eb_mask = None\<rparr>"

text \<open>Nothing is reachable: every HEAD and GET answers 404, nothing is stored, the proxy
  request throws.\<close>

definition goneWorld :: world where
  "goneWorld = \<lparr>headRequest = (\<lambda>n url. HeadResponse False 404),
     getImageByLocalId = (\<lambda>n imageId. DbResult None),
     getRequest = (\<lambda>n url. GetNotOk 404 ''Not Found''),
     proxyRequest = (\<lambda>n url. ProxyThrows (Error ''Failed to parse URL'')),
     editImage = (\<lambda>model editInput. EditUrl ''https://replicate.delivery/pbxt/edited.png''),
     smartEditWithGPTImage1 = (\<lambda>url p opts. GptThrows (Error ''not used''))\<rparr>"

text \<open>The first HEAD request runs into its 5 second timeout; later ones are answered.\<close>

definition slowServer :: world where
  "slowServer = goneWorld\<lparr>headRequest :=
     (\<lambda>n url. if n = 0 then HeadThrows (Error ''The operation was aborted due to timeout'')
               else HeadResponse True 200)\<rparr>"

definition storedCopy :: world where
  "storedCopy = goneWorld\<lparr>getImageByLocalId :=
     (\<lambda>n imageId. DbResult (Some \<lparr>stored_url = Some ''https://store.example.com/img_1.png''\<rparr>))\<rparr>"

definition downloadable :: world where
  "downloadable = goneWorld\<lparr>getRequest :=
     (\<lambda>n url. GetBlob (Inr ''data:image/png;base64,iVBORw0KGgo=''))\<rparr>"

text \<open>The error thrown by a provider call, if the event is a provider call that threw.\<close>

fun providerThrew :: "event \<Rightarrow> js_error option" where
  "providerThrew (EvReplicateEdit model editInput (EditThrows e)) = Some e"
| "providerThrew (EvGptEdit url p opts (GptThrows e)) = Some e"
| "providerThrew _ = None"

text \<open>An error whose message carries two of the markers the handler looks for.\<close>

definition rateLimitedInvalidRequest :: js_error where
  "rateLimitedInvalidRequest =
    Error ''429 rate_limit_exceeded: too many requests (type: invalid_request_error)''"

definition openaiEnv :: env where
  "openaiEnv = \<lparr>OPENAI_API_KEY = Some ''sk-key'', REPLICATE_API_KEY = None,
     WAVESPEED_API_KEY = None\<rparr>"

definition gptRequest :: edit_body where
  "gptRequest = \<lparr>eb_imageUrl = Some ''https://example.com/cat.png'', eb_imageId = None,
     eb_prompt = Some ''make it blue'', eb_model = Some ''gpt-image-1'',
     eb_quality = Some ''hd'', eb_style = None, eb_size = Some ''1792x1024'',
     eb_mask = None\<rparr>"

definition rateLimitedWorld :: world where
  "rateLimitedWorld = goneWorld\<lparr>smartEditWithGPTImage1 :=
     (\<lambda>url p opts. GptThrows rateLimitedInvalidRequest)\<rparr>"

section \<open>generate-image route\<close>

record gen_body =
  gb_prompt :: "string option"
  gb_originalPrompt :: "string option"
  gb_model :: "string option"
  gb_quality :: "string option"
  gb_style :: "string option"
  gb_size :: "string option"
  gb_imageContext :: "string option"
  gb_originalImageId :: "string option"

record gen_options =
  gn_quality :: string
  gn_style :: "string option"
  gn_size :: string
  gn_model :: "string option"
  gn_n :: "nat option"

record replicate_options =
  ro_aspect_ratio :: string
  ro_output_format :: string
  ro_guidance_scale :: real

record gen_result =
  gr_imageUrl :: string
  gr_revisedPrompt :: "string option"

datatype gen_outcome = GenResult gen_result | GenThrows js_error

datatype replicate_outcome = ReplicateUrl string | ReplicateThrows js_error

text \<open>The provider clients of the generate-image route.\<close>

record providers =
  generateImageWithContext :: "string \<Rightarrow> string \<Rightarrow> gen_options \<Rightarrow> gen_outcome"
  generateImageWithGPTImage1 :: "string \<Rightarrow> gen_options \<Rightarrow> gen_outcome"
  generateImage :: "string \<Rightarrow> string \<Rightarrow> replicate_options \<Rightarrow> replicate_outcome"

datatype gen_event =
    EvGenerateWithContext string string gen_options
  | EvGenerateWithGPTImage1 string gen_options
  | EvReplicateGenerate string string replicate_options

record gen_image_entry =
  ge_url :: string
  ge_revisedPrompt :: string
  ge_index :: nat

record gen_metadata =
  gm_model :: string
  gm_provider :: string
  gm_quality :: "string option"
  gm_mappedQuality :: "string option"
  gm_style :: string
  gm_size :: string
  gm_originalPrompt :: string
  gm_imageCount :: nat

type_synonym gen_success = "gen_image_entry list \<times> gen_metadata"

text \<open>The quality table of the generate-image handler.\<close>

definition mappedQualityOf :: "string \<Rightarrow> string" where
  "mappedQualityOf quality =
    (if quality = ''hd'' then ''high''
     else if quality = ''standard'' then ''medium''
     else ''medium'')"

text \<open>
  The aspect ratio table, on its own keys. (A size that names a property every object
  inherits, such as \<^verbatim>\<open>toString\<close>, finds that property in the code and not a ratio; such
  sizes are outside this table.)
\<close>

definition aspectRatioMap :: "string \<rightharpoonup> string" where
  "aspectRatioMap = [''1024x1024'' \<mapsto> ''1:1'', ''1792x1024'' \<mapsto> ''16:9'', ''1024x1536'' \<mapsto> ''9:16'']"

definition isReplicateModel :: "string \<Rightarrow> bool" where
  "isReplicateModel model =
    (model = ''flux-kontext-pro'' \<or> model = ''flux-kontext-max'' \<or> model = ''flux-dev-ultra-fast'')"

definition POST_generate_image ::
  "env \<Rightarrow> providers \<Rightarrow> js_error + gen_body \<Rightarrow> gen_success response \<times> gen_event list" where
  "POST_generate_image ev pr req =
    (case req of
       Inl e \<Rightarrow> (Failure 500 (errorJson ''Internal server error''), [])
     | Inr body \<Rightarrow>
        (let model = orDefault (gb_model body) ''flux-kontext-pro'';
             quality = orDefault (gb_quality body) ''standard'';
             style = orDefault (gb_style body) ''vivid'';
             sz = orDefault (gb_size body) ''1024x1024''
         in
         if \<not> truthy (gb_prompt body) then
           (Failure 400 (errorJson ''Prompt is required''), [])
         else
           let p = the (gb_prompt body) in
           if model = ''gpt-image-1'' then
             (if \<not> truthy (OPENAI_API_KEY ev) then
                (Failure 500 (errorDetails ''OpenAI API key not configured''
                   ''Please add OPENAI_API_KEY to your .env.local file.''), [])
              else
                let mappedQuality = mappedQualityOf quality;
                    (result, tr) =
                      (if truthy (gb_imageContext body) then
                         (let opts = \<lparr>gn_quality = mappedQuality, gn_style = None, gn_size = sz,
                                       gn_model = Some ''gpt-image-1'', gn_n = None\<rparr>
                          in (generateImageWithContext pr p (the (gb_imageContext body)) opts,
                              [EvGenerateWithContext p (the (gb_imageContext body)) opts]))
                       else
                         (let opts = \<lparr>gn_quality = mappedQuality, gn_style = Some style,
                                       gn_size = sz, gn_model = None, gn_n = Some 1\<rparr>
                          in (generateImageWithGPTImage1 pr p opts,
                              [EvGenerateWithGPTImage1 p opts])))
                in case result of
                     GenThrows e \<Rightarrow>
                       (Failure 500 (errorDetails ''Failed to generate image with GPT-Image-1''
                          (orElse (message e) ''Image generation failed'')), tr)
                   | GenResult res \<Rightarrow>
                       (Success ([\<lparr>ge_url = gr_imageUrl res,
                                    ge_revisedPrompt = orElse (gr_revisedPrompt res) p,
                                    ge_index = 0\<rparr>],
                                 \<lparr>gm_model = ''gpt-image-1'', gm_provider = ''openai'',
                                  gm_quality = Some quality, gm_mappedQuality = Some mappedQuality,
                                  gm_style = style, gm_size = sz,
                                  gm_originalPrompt = orElse (gb_originalPrompt body) p,
                                  gm_imageCount = 1\<rparr>), tr))
           else if isReplicateModel model then
             (if \<not> truthy (REPLICATE_API_KEY ev) then
                (Failure 500 (errorDetails ''Replicate API key not configured''
                   ''Please add REPLICATE_API_KEY to your .env.local file.''), [])
              else
                let opts = \<lparr>ro_aspect_ratio = (case aspectRatioMap sz of
                                                  None \<Rightarrow> ''1:1''
                                                | Some a \<Rightarrow> if a = [] then ''1:1'' else a),
                             ro_output_format = ''jpg'',
                             ro_guidance_scale = (if style = ''vivid'' then 4.5 else 3.5)\<rparr>;
                    tr = [EvReplicateGenerate model p opts]
                in case generateImage pr model p opts of
                     ReplicateThrows e \<Rightarrow>
                       (Failure 500 (errorDetails (''Failed to generate image with '' @ model)
                          (orElse (message e) ''Image generation failed'')), tr)
                   | ReplicateUrl imageUrl \<Rightarrow>
                       (Success ([\<lparr>ge_url = imageUrl, ge_revisedPrompt = p, ge_index = 0\<rparr>],
                                 \<lparr>gm_model = model, gm_provider = ''replicate'',
                                  gm_quality = None, gm_mappedQuality = None,
                                  gm_style = style, gm_size = sz,
                                  gm_originalPrompt = orElse (gb_originalPrompt body) p,
                                  gm_imageCount = 1\<rparr>), tr))
           else
             (Failure 400 (errorDetails (''Unsupported model: '' @ model)
                ''Supported models: gpt-image-1, flux-kontext-pro, flux-kontext-max, flux-dev-ultra-fast''),
              [])))"

text \<open>Example requests and providers for the generate-image route.\<close>

definition noKeys :: env where
  "noKeys = \<lparr>OPENAI_API_KEY = None, REPLICATE_API_KEY = None, WAVESPEED_API_KEY = None\<rparr>"

definition genRequest :: "string option \<Rightarrow> string option \<Rightarrow> gen_body" where
  "genRequest p model = \<lparr>gb_prompt = p, gb_originalPrompt = None, gb_model = model,
     gb_quality = Some ''hd'', gb_style = None, gb_size = Some ''1792x1024'',
     gb_imageContext = None, gb_originalImageId = None\<rparr>"

definition workingProviders :: providers where
  "workingProviders = \<lparr>
     generateImageWithContext = (\<lambda>p ctx opts.
        GenResult \<lparr>gr_imageUrl = ''https://cdn.example.com/ctx.png'', gr_revisedPrompt = None\<rparr>),
     generateImageWithGPTImage1 = (\<lambda>p opts.
        GenResult \<lparr>gr_imageUrl = ''https://cdn.example.com/gen.png'', gr_revisedPrompt = None\<rparr>),
     generateImage = (\<lambda>model p opts. ReplicateUrl ''https://replicate.delivery/pbxt/gen.jpg'')\<rparr>"

definition gptWorld :: world where
  "gptWorld = goneWorld\<lparr>smartEditWithGPTImage1 := (\<lambda>url p opts.
     GptResult \<lparr>g_imageUrl = ''https://cdn.example.com/edited.png'', g_originalImageUrl = None,
       g_revisedPrompt = None, g_model = None, g_method = None\<rparr>)\<rparr>"

text \<open>The options a GPT-Image-1 call of the generate-image route was made with.\<close>

fun gptOptions :: "gen_event \<Rightarrow> gen_options option" where
  "gptOptions (EvGenerateWithContext p ctx opts) = Some opts"
| "gptOptions (EvGenerateWithGPTImage1 p opts) = Some opts"
| "gptOptions (EvReplicateGenerate model p opts) = None"

section \<open>edit-multi-image route\<close>

text \<open>A JSON value of the request body; \<^verbatim>\<open>JUndefined\<close> is a missing field.\<close>

datatype json = JUndefined | JNull | JBool bool | JNum real | JStr string | JArr "json list"
  | JObj

fun jsTruthy :: "json \<Rightarrow> bool" where
  "jsTruthy JUndefined = False"
| "jsTruthy JNull = False"
| "jsTruthy (JBool b) = b"
| "jsTruthy (JNum n) = (n \<noteq> 0)"
| "jsTruthy (JStr s) = (s \<noteq> [])"
| "jsTruthy (JArr xs) = True"
| "jsTruthy JObj = True"

fun isArray :: "json \<Rightarrow> bool" where
  "isArray (JArr xs) = True"
| "isArray _ = False"

fun elements :: "json \<Rightarrow> json list" where
  "elements (JArr xs) = xs"
| "elements _ = []"

fun isString :: "json \<Rightarrow> bool" where
  "isString (JStr s) = True"
| "isString _ = False"

fun stringOf :: "json \<Rightarrow> string" where
  "stringOf (JStr s) = s"
| "stringOf _ = []"

record multi_body =
  mb_images :: json
  mb_prompt :: json
  mb_guidanceScale :: "real option"
  mb_safetyTolerance :: "string option"

datatype multi_event = EvNewClient string | EvClient ws_event

record multi_success =
  ms_url :: "string option"
  ms_index :: nat
  ms_revisedPrompt :: string
  ms_model :: string
  ms_provider :: string
  ms_imageCount :: nat
  ms_guidanceScale :: real
  ms_safetyTolerance :: string
  ms_taskId :: "string option"
  ms_metadata :: "ws_metadata option"

text \<open>\<^verbatim>\<open>errors.join(', ')\<close>\<close>

fun joinWith :: "string \<Rightarrow> string list \<Rightarrow> string" where
  "joinWith sep [] = []"
| "joinWith sep [x] = x"
| "joinWith sep (x # xs) = x @ sep @ joinWith sep xs"

text \<open>\<^verbatim>\<open>validateImages\<close> of the client, on an array of strings.\<close>

definition validateImages :: "string list \<Rightarrow> bool \<times> string list" where
  "validateImages imgs =
    (let errors =
           (if length imgs = 0 then [''At least one image is required''] else [])
         @ (if length imgs > 10 then [''Maximum 10 images allowed''] else [])
         @ concat (map (\<lambda>(index, image).
             if image = [] then [''Image '' @ showNat (index + 1) @ '' is invalid'']
             else if \<not> startsWith image ''data:'' \<and> \<not> startsWith image ''http''
               then [''Image '' @ showNat (index + 1) @ '' must be a data URL or HTTP URL'']
             else []) (zip [0..<length imgs] imgs))
     in (length errors = 0, errors))"

text \<open>
  The handler. After the key check the images are logged with \<^verbatim>\<open>url.startsWith\<close>, which
  throws on the first element that is not a string; the outer \<^verbatim>\<open>catch\<close> turns that
  into a 500 whose details are the message of the \<^verbatim>\<open>TypeError\<close>.
\<close>

definition startsWithError :: "json option \<Rightarrow> string" where
  "startsWithError x =
    (case x of
       Some JNull \<Rightarrow> ''Cannot read properties of null (reading 'startsWith')''
     | Some JUndefined \<Rightarrow> ''Cannot read properties of undefined (reading 'startsWith')''
     | _ \<Rightarrow> ''url.startsWith is not a function'')"

definition POST_edit_multi_image ::
  "env \<Rightarrow> wavespeed \<Rightarrow> js_error + multi_body \<Rightarrow> multi_success response \<times> multi_event list" where
  "POST_edit_multi_image ev ws req =
    (case req of
       Inl e \<Rightarrow> (Failure 500 (errorDetails ''Internal server error''
                    (orElse (message e) ''Unknown error occurred'')), [])
     | Inr body \<Rightarrow>
        (let imgs = mb_images body; p = mb_prompt body;
             guidance = (case mb_guidanceScale body of None \<Rightarrow> 3.5 | Some g \<Rightarrow> g);
             tolerance = orDefault (mb_safetyTolerance body) ''2''
         in
         if \<not> jsTruthy imgs \<or> \<not> isArray imgs \<or> length (elements imgs) = 0 then
           (Failure 400 (errorJson ''Images array is required and must not be empty''), [])
         else if \<not> jsTruthy p \<or> \<not> isString p \<or> trim (stringOf p) = [] then
           (Failure 400 (errorJson ''Prompt is required''), [])
         else if length (elements imgs) < 2 then
           (Failure 400 (errorJson ''At least 2 images are required for multi-image editing''), [])
         else if length (elements imgs) > 10 then
           (Failure 400 (errorJson ''Maximum 10 images allowed for multi-image editing''), [])
         else if \<not> truthy (WAVESPEED_API_KEY ev) then
           (Failure 500 (errorDetails ''WaveSpeed API key not configured''
              ''Please add WAVESPEED_API_KEY to your .env.local file''), [])
         else if \<not> list_all isString (elements imgs) then
           (Failure 500 (errorDetails ''Internal server error''
              (startsWithError (find (\<lambda>x. \<not> isString x) (elements imgs)))), [])
         else
           let urls = map stringOf (elements imgs);
               tr = [EvNewClient (the (WAVESPEED_API_KEY ev))];
               (valid, errors) = validateImages urls
           in if \<not> valid then
                (Failure 400 (errorDetails ''Invalid images provided'' (joinWith '', '' errors)), tr)
              else
                let (result, ctr) = generateMultiImageEdit ws
                      \<lparr>rq_images = urls, rq_prompt = stringOf p,
                       rq_guidanceScale = Some guidance, rq_safetyTolerance = Some tolerance\<rparr>;
                    tr' = tr @ map EvClient ctr
                in if \<not> success result then
                     (Failure 500 (errorDetails ''Multi-image generation failed''
                        (orElse (errorMessage result) ''Unknown error occurred'')), tr')
                   else
                     (Success \<lparr>ms_url = rs_imageUrl result, ms_index = 0,
                        ms_revisedPrompt = stringOf p,
                        ms_model = (case rs_metadata result of
                                      None \<Rightarrow> ''flux-kontext-max-multi'' | Some m \<Rightarrow> md_model m),
                        ms_provider = (case rs_metadata result of
                                      None \<Rightarrow> ''wavespeed'' | Some m \<Rightarrow> md_provider m),
                        ms_imageCount = length urls,
                        ms_guidanceScale = guidance, ms_safetyTolerance = tolerance,
                        ms_taskId = rs_taskId result,
                        ms_metadata = rs_metadata result\<rparr>, tr')))"

text \<open>Example bodies for the edit-multi-image route.\<close>

definition multiBody :: "json \<Rightarrow> json \<Rightarrow> multi_body" where
  "multiBody imgs p = \<lparr>mb_images = imgs, mb_prompt = p, mb_guidanceScale = None,
     mb_safetyTolerance = None\<rparr>"

definition someImages :: "nat \<Rightarrow> json" where
  "someImages n = JArr (replicate n (JStr ''https://example.com/a.png''))"

section \<open>Image progress store\<close>

text \<open>
  JavaScript numbers are modelled as real numbers, and \<^verbatim>\<open>Math.random()\<close> is a parameter
  of the functions that call it (a number at least 0 and below 1).
\<close>

datatype ImageGenerationStage = initializing | processing | finalizing | completed | failed

datatype generationStatus = generating | statusCompleted | statusFailed

record ImageGenerationProgress =
  ip_imageId :: string
  ip_prompt :: string
  ip_originalImageId :: "string option"
  ip_originalImageUrl :: "string option"
  ip_progress :: real
  ip_stage :: ImageGenerationStage
  ip_stageMessage :: string
  ip_status :: generationStatus
  ip_elapsedTime :: real
  ip_estimatedRemainingTime :: real
  ip_estimatedTotalTime :: real
  ip_error :: "string option"
  ip_createdAt :: int
  ip_completedAt :: "int option"
  ip_lastUpdated :: int
  ip_quality :: "string option"
  ip_style :: "string option"
  ip_size :: "string option"
  ip_model :: "string option"

type_synonym ImageGenerationState = "string \<rightharpoonup> ImageGenerationProgress"

fun stageRanges :: "ImageGenerationStage \<Rightarrow> real \<times> real" where
  "stageRanges initializing = (0, 20)"
| "stageRanges processing = (20, 85)"
| "stageRanges finalizing = (85, 100)"
| "stageRanges completed = (100, 100)"
| "stageRanges failed = (0, 0)"

definition smoothstep :: "real \<Rightarrow> real" where
  "smoothstep t = t * t * (3 - 2 * t)"

definition calculateProgressFromElapsed ::
  "real \<Rightarrow> real \<Rightarrow> ImageGenerationStage \<Rightarrow> real \<Rightarrow> int" where
  "calculateProgressFromElapsed elapsedTime estimatedTotal stage random =
    (let (rmin, rmax) = stageRanges stage in
     if stage = completed then 100
     else if stage = failed then 0
     else
       let timeProgress = min (elapsedTime / estimatedTotal) 1;
           smoothProgress = smoothstep timeProgress;
           calculatedProgress = rmin + smoothProgress * (rmax - rmin);
           variance = (random - 0.5) * 1;
           finalProgress = calculatedProgress + variance
       in \<lfloor>max rmin (min finalProgress rmax)\<rfloor>)"

definition modelName :: "string option \<Rightarrow> string" where
  "modelName model =
    (if (case model of None \<Rightarrow> False | Some m \<Rightarrow> includesStr m ''gpt-image-1'') then ''GPT-Image-1''
     else if model = Some ''flux-kontext-pro'' then ''Flux Kontext Pro''
     else if model = Some ''flux-kontext-max'' then ''Flux Kontext Max''
     else if model = Some ''flux-dev-ultra-fast'' then ''WaveSpeed AI''
     else ''AI model'')"

text \<open>\<^verbatim>\<open>progress && progress < n\<close>: a progress of 0 is falsy.\<close>

definition getStageMessage ::
  "ImageGenerationStage \<Rightarrow> string option \<Rightarrow> real \<Rightarrow> bool \<Rightarrow> string" where
  "getStageMessage stage model prog isEdit =
    (case stage of
       initializing \<Rightarrow>
         if isEdit then ''Initializing '' @ modelName model @ '' for image editing...''
         else ''Initializing '' @ modelName model @ ''...''
     | processing \<Rightarrow>
         if prog \<noteq> 0 \<and> prog < 30 then
           (if isEdit then ''Analyzing original image...'' else ''Analyzing prompt...'')
         else if prog \<noteq> 0 \<and> prog < 50 then
           (if isEdit then ''Applying edits to image...'' else ''Generating initial concepts...'')
         else if prog \<noteq> 0 \<and> prog < 70 then
           (if isEdit then ''Refining edited regions...'' else ''Rendering image details...'')
         else if prog \<noteq> 0 \<and> prog < 85 then ''Enhancing image quality...''
         else ''Finalizing generation...''
     | finalizing \<Rightarrow> ''Processing final image...''
     | completed \<Rightarrow> if isEdit then ''Image edit complete!'' else ''Image generation complete!''
     | failed \<Rightarrow> ''Generation failed'')"

text \<open>
  \<^verbatim>\<open>calculateProgress\<close> of the store, with the current time in milliseconds and the
  random number as parameters. It returns the new \<^verbatim>\<open>progress\<close> map.
\<close>

definition calculateProgress ::
  "string \<Rightarrow> int \<Rightarrow> real \<Rightarrow> ImageGenerationState \<Rightarrow> ImageGenerationState" where
  "calculateProgress imageId now random state =
    (case state imageId of
       None \<Rightarrow> state
     | Some current \<Rightarrow>
         if ip_status current \<noteq> generating then state
         else
           let elapsedTime = (now - ip_createdAt current) div 1000;
               prog = calculateProgressFromElapsed (of_int elapsedTime)
                        (ip_estimatedTotalTime current) (ip_stage current) random;
               remainingTime = max 0 (ip_estimatedTotalTime current - of_int elapsedTime);
               progressChanged = (\<bar>ip_progress current - of_int prog\<bar> \<ge> 1);
               timeChanged = (\<bar>ip_elapsedTime current - of_int elapsedTime\<bar> \<ge> 1)
           in if progressChanged \<or> timeChanged then
                let isEdit = truthy (ip_originalImageId current);
                    stageMessage = getStageMessage (ip_stage current) (ip_model current)
                                     (of_int prog) isEdit
                in state(imageId \<mapsto> current
                     \<lparr>ip_elapsedTime := of_int elapsedTime,
                      ip_progress := min (of_int prog)
                                         (if ip_stage current = completed then 100 else 99),
                      ip_estimatedRemainingTime := remainingTime,
                      ip_stageMessage := stageMessage,
                      ip_lastUpdated := now\<rparr>)
              else state)"

text \<open>An image that has been generating for a minute and is in its last stage.\<close>

definition lateImage :: ImageGenerationProgress where
  "lateImage = \<lparr>ip_imageId = ''img_1'', ip_prompt = ''a cat'', ip_originalImageId = None,
     ip_originalImageUrl = None, ip_progress = 90, ip_stage = finalizing,
     ip_stageMessage = ''Processing final image...'', ip_status = generating,
     ip_elapsedTime = 11, ip_estimatedRemainingTime = 1, ip_estimatedTotalTime = 12,
     ip_error = None, ip_createdAt = 1000, ip_completedAt = None, ip_lastUpdated = 12000,
     ip_quality = None, ip_style = None, ip_size = None, ip_model = None\<rparr>"

section \<open>Saving generated images to localStorage\<close>

text \<open>
  The fields of a generated image that \<^verbatim>\<open>saveGeneratedImages\<close> reads. A timestamp is
  the time value of the \<^verbatim>\<open>Date\<close>, or absent when the date is missing or invalid.
\<close>

record GeneratedImage =
  gi_id :: string
  gi_url :: string
  gi_prompt :: string
  gi_timestamp :: "int option"
  gi_quality :: string
  gi_model :: string
  gi_originalImageId :: "string option"
  gi_isGenerating :: bool
  gi_isUploaded :: "bool option"
  gi_geminiUri :: "string option"
  gi_isMultiImageEdit :: "bool option"
  gi_sourceImages :: "string list option"
  gi_inputImages :: "string list option"

text \<open>An entry as it is serialized; the timestamp stands for its ISO string.\<close>

record stored_entry =
  se_id :: string
  se_url :: string
  se_prompt :: string
  se_timestamp :: int
  se_quality :: string
  se_model :: string
  se_originalImageId :: "string option"
  se_isUploaded :: "bool option"
  se_geminiUri :: "string option"
  se_isMultiImageEdit :: "bool option"
  se_sourceImages :: "string list option"
  se_inputImages :: "string list option"

datatype storage_value = Images "stored_entry list" | Other string

type_synonym localStorage = "string \<rightharpoonup> storage_value"

text \<open>
  The browser: the size in bytes of the serialized entries, whether \<^verbatim>\<open>setItem\<close> accepts
  a value for a key in a given state of the storage (it throws otherwise), whether
  \<^verbatim>\<open>removeItem\<close> succeeds for a key (it throws otherwise), and the current time.
\<close>

record browser =
  calculateDataSize :: "stored_entry list \<Rightarrow> nat"
  accepts :: "localStorage \<Rightarrow> string \<Rightarrow> storage_value \<Rightarrow> bool"
  removable :: "string \<Rightarrow> bool"
  dateNow :: int

text \<open>\<^verbatim>\<open>xs.slice(-k)\<close>: the last \<^verbatim>\<open>k\<close> elements, and the whole array for \<^verbatim>\<open>k = 0\<close>.\<close>

definition sliceLast :: "nat \<Rightarrow> 'a list \<Rightarrow> 'a list" where
  "sliceLast k xs = (if k = 0 then xs else drop (length xs - k) xs)"

definition prepareEntry :: "int \<Rightarrow> GeneratedImage \<Rightarrow> stored_entry" where
  "prepareEntry now img =
    \<lparr>se_id = gi_id img,
     se_url = substring (gi_url img) 0 500,
     se_prompt = substring (gi_prompt img) 0 200,
     se_timestamp = (case gi_timestamp img of None \<Rightarrow> now | Some t \<Rightarrow> t),
     se_quality = gi_quality img,
     se_model = gi_model img,
     se_originalImageId = gi_originalImageId img,
     se_isUploaded = gi_isUploaded img,
     se_geminiUri = gi_geminiUri img,
     se_isMultiImageEdit = gi_isMultiImageEdit img,
     se_sourceImages = gi_sourceImages img,
     se_inputImages = map_option (map (\<lambda>url.
         if startsWith url ''data:'' then ''[DATA_URL_REMOVED]'' else substring url 0 200))
       (gi_inputImages img)\<rparr>"

definition prepareForStorage :: "int \<Rightarrow> GeneratedImage list \<Rightarrow> stored_entry list" where
  "prepareForStorage now imgs = map (prepareEntry now) imgs"

definition maxSize :: nat where
  "maxSize = 4 * 1024 * 1024"

text \<open>
  \<^verbatim>\<open>Math.floor(n * 0.7)\<close>; on the lengths that occur here (at most 30) the floating
  point product has the floor of the exact one.
\<close>

definition seventyPercent :: "nat \<Rightarrow> nat" where
  "seventyPercent n = (7 * n) div 10"

definition tooLarge :: "browser \<Rightarrow> GeneratedImage list \<Rightarrow> bool" where
  "tooLarge br imgs =
    (calculateDataSize br (prepareForStorage (dateNow br) imgs) > maxSize \<and> length imgs > 5)"

definition sliceSeventy :: "GeneratedImage list \<Rightarrow> GeneratedImage list" where
  "sliceSeventy imgs = sliceLast (seventyPercent (length imgs)) imgs"

function shrinkToFit :: "browser \<Rightarrow> GeneratedImage list \<Rightarrow> GeneratedImage list" where
  "shrinkToFit br imagesToSave =
    (if tooLarge br imagesToSave then shrinkToFit br (sliceSeventy imagesToSave)
     else imagesToSave)"
  by pat_completeness auto
termination
  by (relation "measure (\<lambda>(br, imgs). length imgs)")
     (auto simp: tooLarge_def sliceSeventy_def sliceLast_def seventyPercent_def)

declare shrinkToFit.simps [simp del]

text \<open>\<^verbatim>\<open>localStorage.setItem\<close>: the new storage, or nothing when it throws.\<close>

definition setItem :: "browser \<Rightarrow> string \<Rightarrow> storage_value \<Rightarrow> localStorage \<Rightarrow> localStorage option" where
  "setItem br key v storage = (if accepts br storage key v then Some (storage(key \<mapsto> v)) else None)"

text \<open>\<^verbatim>\<open>clearOldImages\<close>: each removal is tried, and a removal that throws is skipped.\<close>

definition removeItem :: "browser \<Rightarrow> string \<Rightarrow> localStorage \<Rightarrow> localStorage" where
  "removeItem br key storage = (if removable br key then storage(key := None) else storage)"

definition clearOldImages :: "browser \<Rightarrow> localStorage \<Rightarrow> localStorage" where
  "clearOldImages br storage = removeItem br ''imageCache'' (removeItem br ''generatedImages'' storage)"

definition completedImages :: "GeneratedImage list \<Rightarrow> GeneratedImage list" where
  "completedImages imgs =
    filter (\<lambda>img. \<not> gi_isGenerating img \<and> gi_url img \<noteq> [] \<and> \<not> startsWith (gi_url img) ''data:'') imgs"

text \<open>
  The function returns nothing; its effect is the new state of the storage. The expiry
  information it computes goes into \<^verbatim>\<open>metadata\<close>, which is not serialized.
\<close>

definition saveGeneratedImages :: "browser \<Rightarrow> GeneratedImage list \<Rightarrow> localStorage \<Rightarrow> localStorage" where
  "saveGeneratedImages br imgs storage =
    (let imagesWithExpirationInfo = completedImages imgs in
     if length imagesWithExpirationInfo = 0 then storage
     else
       let imagesToSave = shrinkToFit br (sliceLast 30 imagesWithExpirationInfo);
           serialized = prepareForStorage (dateNow br) imagesToSave
       in case setItem br ''generatedImages'' (Images serialized) storage of
            Some storage' \<Rightarrow> storage'
          | None \<Rightarrow>
              (let cleared = clearOldImages br storage;
                   minimalImages = sliceLast 10 imagesWithExpirationInfo;
                   minimalSerialized = prepareForStorage (dateNow br) minimalImages
               in case setItem br ''generatedImages'' (Images minimalSerialized) cleared of
                    Some storage' \<Rightarrow> storage'
                  | None \<Rightarrow> cleared))"

text \<open>Example images and browsers for \<^verbatim>\<open>saveGeneratedImages\<close>.\<close>

definition imageNo :: "nat \<Rightarrow> GeneratedImage" where
  "imageNo n = \<lparr>gi_id = ''img_'' @ replicate n (CHR ''i''),
     gi_url = ''https://cdn.example.com/'' @ replicate n (CHR ''i''),
     gi_prompt = ''a cat'', gi_timestamp = Some 1000, gi_quality = ''standard'',
     gi_model = ''flux-kontext-pro'', gi_originalImageId = None, gi_isGenerating = False,
     gi_isUploaded = None, gi_geminiUri = None, gi_isMultiImageEdit = None,
     gi_sourceImages = None, gi_inputImages = None\<rparr>"

definition pendingImage :: GeneratedImage where
  "pendingImage = (imageNo 0)\<lparr>gi_isGenerating := True\<rparr>"

text \<open>A browser in which every entry takes one megabyte and every write is accepted, and
  one whose storage is full until the old keys are removed.\<close>

definition roomyBrowser :: browser where
  "roomyBrowser = \<lparr>calculateDataSize = (\<lambda>es. length es * 1024 * 1024),
     accepts = (\<lambda>storage key v. True), removable = (\<lambda>key. True), dateNow = 5000\<rparr>"

definition fullBrowser :: browser where
  "fullBrowser = \<lparr>calculateDataSize = (\<lambda>es. length es),
     accepts = (\<lambda>storage key v. storage ''imageCache'' = None), removable = (\<lambda>key. True),
     dateNow = 5000\<rparr>"

definition usedStorage :: localStorage where
  "usedStorage = [''imageCache'' \<mapsto> Other ''cached'', ''theme'' \<mapsto> Other ''dark'']"

text \<open>An image with a long URL, a long prompt, no valid timestamp and two input images.\<close>

definition longImage :: GeneratedImage where
  "longImage = (imageNo 1)\<lparr>gi_url := ''https://cdn.example.com/'' @ replicate 600 (CHR ''u''),
     gi_prompt := replicate 250 (CHR ''p''), gi_timestamp := None,
     gi_inputImages := Some [''data:image/png;base64,AAAA'', ''https://cdn.example.com/in.png'']\<rparr>"

text \<open>The entries that are expected in the storage for these images.\<close>

definition storedNo :: "nat \<Rightarrow> stored_entry" where
  "storedNo n = \<lparr>se_id = ''img_'' @ replicate n (CHR ''i''),
     se_url = ''https://cdn.example.com/'' @ replicate n (CHR ''i''),
     se_prompt = ''a cat'', se_timestamp = 1000, se_quality = ''standard'',
     se_model = ''flux-kontext-pro'', se_originalImageId = None, se_isUploaded = None,
     se_geminiUri = None, se_isMultiImageEdit = None, se_sourceImages = None,
     se_inputImages = None\<rparr>"

definition storedLong :: stored_entry where
  "storedLong = \<lparr>se_id = ''img_i'',
     se_url = ''https://cdn.example.com/'' @ replicate 476 (CHR ''u''),
     se_prompt = replicate 200 (CHR ''p''), se_timestamp = 5000, se_quality = ''standard'',
     se_model = ''flux-kontext-pro'', se_originalImageId = None, se_isUploaded = None,
     se_geminiUri = None, se_isMultiImageEdit = None, se_sourceImages = None,
     se_inputImages = Some [''[DATA_URL_REMOVED]'', ''https://cdn.example.com/in.png'']\<rparr>"

section \<open>Properties of the search intent detector\<close>

text \<open>
  Claim C8. Whenever an action-exclusion keyword occurs in the lower-cased message, or a
  generative pattern matches the message, \<^verbatim>\<open>detectSearchIntent\<close> returns exactly
  \<^verbatim>\<open>{ needsSearch: false }\<close>, with no other field set, whatever other keywords
  (current-information, factual, research) the message contains.
\<close>

theorem detectSearchIntent_exclusion:
  assumes "(\<exists>keyword \<in> set actionExclusions. includesStr (toLowerCase userMessage) keyword)
         \<or> (\<exists>pattern \<in> set generativePatterns. rxTest pattern userMessage)"
  shows "detectSearchIntent userMessage = noSearch"
  using assms
  by (simp add: detectSearchIntent_def hasActionKeyword_def hasGenerativePattern_def
      list_ex_iff)

text \<open>
  The message of the witness contains the exclusion keyword \<^verbatim>\<open>edit\<close> together with a
  current-information, a factual and a research keyword.
\<close>

theorem detectSearchIntent_exclusion_witness:
  "((\<exists>keyword \<in> set actionExclusions.
        includesStr (toLowerCase ''Edit: what is the latest research?'') keyword)
     \<or> (\<exists>pattern \<in> set generativePatterns. rxTest pattern ''Edit: what is the latest research?''))
   \<and> includesStr (toLowerCase ''Edit: what is the latest research?'') ''latest''
   \<and> includesStr (toLowerCase ''Edit: what is the latest research?'') ''what is''
   \<and> includesStr (toLowerCase ''Edit: what is the latest research?'') ''research''
   \<and> detectSearchIntent ''Edit: what is the latest research?'' = noSearch"
proof -
  have h: "(\<exists>keyword \<in> set actionExclusions.
              includesStr (toLowerCase ''Edit: what is the latest research?'') keyword)
     \<or> (\<exists>pattern \<in> set generativePatterns. rxTest pattern ''Edit: what is the latest research?'')"
    by code_simp
  have k: "includesStr (toLowerCase ''Edit: what is the latest research?'') ''latest''
   \<and> includesStr (toLowerCase ''Edit: what is the latest research?'') ''what is''
   \<and> includesStr (toLowerCase ''Edit: what is the latest research?'') ''research''"
    by code_simp
  from detectSearchIntent_exclusion [OF h] h k show ?thesis by blast
qed

text \<open>A message that only a generative pattern excludes: no exclusion keyword occurs in it.\<close>

lemma detectSearchIntent_pattern_only:
  "\<not> hasActionKeyword (toLowerCase ''Illustrate a scene of the latest news'')
   \<and> hasGenerativePattern ''Illustrate a scene of the latest news''
   \<and> detectSearchIntent ''Illustrate a scene of the latest news'' = noSearch"
  by code_simp

text \<open>
  Claim C9. \<^verbatim>\<open>detectSearchIntent\<close> never returns the search type \<^verbatim>\<open>comparison\<close>.
  When \<^verbatim>\<open>needsSearch\<close> is true the search type is \<^verbatim>\<open>current_events\<close> if a
  current-information keyword is present, else \<^verbatim>\<open>research\<close> if a research keyword is
  present, else \<^verbatim>\<open>factual\<close>; a result of type \<^verbatim>\<open>research\<close> has complexity
  \<^verbatim>\<open>complex\<close> and \<^verbatim>\<open>requiresAsync\<close> true; and \<^verbatim>\<open>assessComplexity\<close> and
  \<^verbatim>\<open>estimateDuration\<close> are called with the returned search type, so their
  \<^verbatim>\<open>comparison\<close> branches are never taken from here.
\<close>

theorem detectSearchIntent_searchType:
  "searchType (detectSearchIntent userMessage) \<noteq> Some comparison
   \<and> (needsSearch (detectSearchIntent userMessage) \<longrightarrow>
        searchType (detectSearchIntent userMessage) =
          Some (if \<exists>keyword \<in> set currentInfoKeywords.
                     includesStr (toLowerCase userMessage) keyword
                then current_events
                else if \<exists>keyword \<in> set researchKeywords.
                          includesStr (toLowerCase userMessage) keyword
                then research else factual)
      \<and> (searchType (detectSearchIntent userMessage) = Some research \<longrightarrow>
            complexity (detectSearchIntent userMessage) = Some complex
          \<and> requiresAsync (detectSearchIntent userMessage) = Some True)
      \<and> complexity (detectSearchIntent userMessage) =
          Some (assessComplexity userMessage (searchType (detectSearchIntent userMessage)))
      \<and> estimatedDuration (detectSearchIntent userMessage) =
          Some (estimateDuration (complexity (detectSearchIntent userMessage))
                                 (searchType (detectSearchIntent userMessage))))"
  by (auto simp: detectSearchIntent_def Let_def noSearch_def list_ex_iff assessComplexity_def
       split: if_splits)

theorem detectSearchIntent_searchType_witness:
  "needsSearch (detectSearchIntent ''compare rust versus go'')
   \<and> searchType (detectSearchIntent ''compare rust versus go'') = Some research
   \<and> searchType (detectSearchIntent ''compare rust versus go'') \<noteq> Some comparison
   \<and> complexity (detectSearchIntent ''compare rust versus go'') = Some complex
   \<and> requiresAsync (detectSearchIntent ''compare rust versus go'') = Some True"
proof -
  have h: "needsSearch (detectSearchIntent ''compare rust versus go'')
         \<and> searchType (detectSearchIntent ''compare rust versus go'') = Some research"
    by code_simp
  from detectSearchIntent_searchType [of "''compare rust versus go''"] h
  show ?thesis by blast
qed
section \<open>Properties of the WaveSpeed polling loop\<close>

lemma pollEvents_0 [simp]: "pollEvents a 0 = []"
  by (simp add: pollEvents_def)

lemma pollEvents_Suc: "pollEvents a (Suc n) = [EvSleep 1000, EvPoll (Suc a)] @ pollEvents (Suc a) n"
  by (simp add: pollEvents_def upt_rec)

lemma pollLoop_continue:
  assumes "a < maxAttempts" "\<not> reportsCompleted (poll (Suc a))"
    and "Suc a < maxAttempts \<or> (\<not> reportsFailed (poll (Suc a)) \<and> \<not> pollThrew (poll (Suc a)))"
  shows "pollLoop poll req t a tr = pollLoop poll req t (Suc a) (tr @ [EvSleep 1000, EvPoll (Suc a)])"
  using assms
  by (subst pollLoop.simps)
     (auto simp: Let_def reportsCompleted_def reportsFailed_def pollThrew_def isFailed_def
           split: poll_outcome.splits)

lemma pollLoop_completed:
  assumes "a < maxAttempts" "poll (Suc a) = PollJson r" "isCompleted r"
  shows "pollLoop poll req t a tr =
          (Inr (successResponse req t (Suc a) r), tr @ [EvSleep 1000, EvPoll (Suc a)])"
  using assms by (subst pollLoop.simps) (simp add: Let_def)

lemma pollLoop_last_throws:
  assumes "Suc a = maxAttempts" "poll (Suc a) = PollThrows e"
  shows "pollLoop poll req t a tr = (Inl e, tr @ [EvSleep 1000, EvPoll (Suc a)])"
  using assms by (subst pollLoop.simps) (simp add: Let_def)

lemma pollLoop_exhausted:
  "pollLoop poll req t maxAttempts tr = (Inl (ErrorObject ''Task timed out after 2 minutes''), tr)"
  by (subst pollLoop.simps) simp

lemma pollLoop_run:
  "a + n \<le> maxAttempts \<Longrightarrow> (\<And>j. a < j \<Longrightarrow> j \<le> a + n \<Longrightarrow> goesOn poll j) \<Longrightarrow>
   pollLoop poll req t a tr = pollLoop poll req t (a + n) (tr @ pollEvents a n)"
proof (induction n arbitrary: a tr)
  case 0
  then show ?case by simp
next
  case (Suc n)
  have g: "goesOn poll (Suc a)" by (rule Suc.prems(2)) simp_all
  have lt: "a < maxAttempts" using Suc.prems(1) by simp
  have step: "pollLoop poll req t a tr =
              pollLoop poll req t (Suc a) (tr @ [EvSleep 1000, EvPoll (Suc a)])"
    using g lt by (intro pollLoop_continue) (simp_all add: goesOn_def)
  have le: "Suc a + n \<le> maxAttempts" using Suc.prems(1) by simp
  have rest: "pollLoop poll req t (Suc a) (tr @ [EvSleep 1000, EvPoll (Suc a)]) =
        pollLoop poll req t (Suc a + n) ((tr @ [EvSleep 1000, EvPoll (Suc a)]) @ pollEvents (Suc a) n)"
  proof (rule Suc.IH [OF le])
    fix j assume "Suc a < j" "j \<le> Suc a + n"
    then show "goesOn poll j" by (intro Suc.prems(2)) simp_all
  qed
  show ?case unfolding step rest by (simp add: pollEvents_Suc)
qed

lemma pollLoop_trace:
  "\<exists>n. n \<le> maxAttempts - a \<and> snd (pollLoop poll req t a tr) = tr @ pollEvents a n"
proof (induction poll req t a tr rule: pollLoop.induct)
  case (1 poll request tid attempts tr)
  show ?case
  proof (cases "attempts < maxAttempts")
    case False
    then show ?thesis
      by (subst pollLoop.simps) (auto intro: exI [of _ 0])
  next
    case True
    let ?tr' = "tr @ [EvSleep 1000, EvPoll (attempts + 1)]"
    have stop: "\<exists>n. n \<le> maxAttempts - attempts \<and> ?tr' = tr @ pollEvents attempts n"
      using True by (intro exI [of _ 1]) (simp add: pollEvents_Suc)
    have cont: "\<exists>n. n \<le> maxAttempts - attempts \<and>
        snd (pollLoop poll request tid (attempts + 1) ?tr') = tr @ pollEvents attempts n"
      if "\<exists>n. n \<le> maxAttempts - (attempts + 1) \<and>
        snd (pollLoop poll request tid (attempts + 1) ?tr') = ?tr' @ pollEvents (attempts + 1) n"
    proof -
      from that obtain n where n: "n \<le> maxAttempts - (attempts + 1)"
        "snd (pollLoop poll request tid (attempts + 1) ?tr') = ?tr' @ pollEvents (attempts + 1) n"
        by blast
      show ?thesis
        using n True by (intro exI [of _ "Suc n"]) (simp add: pollEvents_Suc)
    qed
    show ?thesis
    proof (cases "poll (attempts + 1)")
      case (PollThrows e)
      then show ?thesis
        using True stop cont "1.IH"(1)
        by (subst pollLoop.simps) (simp add: Let_def)
    next
      case (PollNotOk st)
      then show ?thesis
        using True cont "1.IH"(2)
        by (subst pollLoop.simps) (simp add: Let_def)
    next
      case (PollJson r)
      then show ?thesis
        using True stop cont "1.IH"(3,4)
        by (subst pollLoop.simps) (simp add: Let_def)
    qed
  qed
qed

lemma pollLoop_first_completed:
  assumes "0 < k" "k \<le> maxAttempts" "poll k = PollJson r" "isCompleted r"
    and "\<And>j. 0 < j \<Longrightarrow> j < k \<Longrightarrow> \<not> reportsCompleted (poll j)"
  shows "pollLoop poll req t 0 tr = (Inr (successResponse req t k r), tr @ pollEvents 0 k)"
proof -
  obtain a where k: "k = Suc a" using assms(1) by (cases k) auto
  have "pollLoop poll req t 0 tr = pollLoop poll req t (0 + a) (tr @ pollEvents 0 a)"
    using assms(2,5) k by (intro pollLoop_run) (auto simp: goesOn_def)
  also have "\<dots> = (Inr (successResponse req t (Suc a) r),
                    (tr @ pollEvents 0 a) @ [EvSleep 1000, EvPoll (Suc a)])"
    using assms(2,3,4) k by (simp add: pollLoop_completed)
  also have "(tr @ pollEvents 0 a) @ [EvSleep 1000, EvPoll (Suc a)] = tr @ pollEvents 0 k"
    by (simp add: k pollEvents_def)
  finally show ?thesis by (simp add: k)
qed

lemma pollLoop_timeout:
  assumes "\<And>j. 0 < j \<Longrightarrow> j \<le> maxAttempts \<Longrightarrow> \<not> reportsCompleted (poll j)"
    and "\<not> reportsFailed (poll maxAttempts)" "\<not> pollThrew (poll maxAttempts)"
  shows "pollLoop poll req t 0 tr =
          (Inl (ErrorObject ''Task timed out after 2 minutes''), tr @ pollEvents 0 maxAttempts)"
proof -
  have "pollLoop poll req t 0 tr = pollLoop poll req t (0 + maxAttempts) (tr @ pollEvents 0 maxAttempts)"
    using assms by (intro pollLoop_run) (auto simp: goesOn_def)
  then show ?thesis by (simp add: pollLoop_exhausted)
qed

lemma pollLoop_throws_at_end:
  assumes "poll maxAttempts = PollThrows e"
    and "\<And>j. 0 < j \<Longrightarrow> j < maxAttempts \<Longrightarrow> \<not> reportsCompleted (poll j)"
  shows "pollLoop poll req t 0 tr = (Inl e, tr @ pollEvents 0 maxAttempts)"
proof -
  obtain a where m: "maxAttempts = Suc a" by (simp add: maxAttempts_def)
  have "pollLoop poll req t 0 tr = pollLoop poll req t (0 + a) (tr @ pollEvents 0 a)"
    using assms(2) m by (intro pollLoop_run) (auto simp: goesOn_def)
  also have "\<dots> = (Inl e, (tr @ pollEvents 0 a) @ [EvSleep 1000, EvPoll (Suc a)])"
    using assms(1) m by (simp add: pollLoop_last_throws)
  also have "(tr @ pollEvents 0 a) @ [EvSleep 1000, EvPoll (Suc a)] = tr @ pollEvents 0 maxAttempts"
    by (simp add: m pollEvents_def)
  finally show ?thesis .
qed

lemma generateMultiImageEdit_accepted:
  assumes "taskAccepted w"
  obtains dataId topId where "submitTask w = SubmitJson dataId topId"
    and "generateMultiImageEdit w request =
      (case pollLoop (pollResult w) request (orElse dataId (the topId)) 0 [EvSubmit (makePayload request)] of
         (Inl e, tr') \<Rightarrow> (failureResponse e, tr')
       | (Inr response, tr') \<Rightarrow> (response, tr'))"
  using assms
  by (auto simp: taskAccepted_def generateMultiImageEdit_def Let_def split: submit_outcome.splits)

lemma generateMultiImageEdit_trace:
  "\<exists>n\<le>120. snd (generateMultiImageEdit w request) = EvSubmit (makePayload request) # pollEvents 0 n"
proof (cases "taskAccepted w")
  case False
  then have "snd (generateMultiImageEdit w request) = [EvSubmit (makePayload request)]"
    by (auto simp: taskAccepted_def generateMultiImageEdit_def Let_def split: submit_outcome.splits)
  then show ?thesis by (intro exI [of _ 0]) simp
next
  case True
  then obtain dataId topId where
    g: "generateMultiImageEdit w request =
      (case pollLoop (pollResult w) request (orElse dataId (the topId)) 0 [EvSubmit (makePayload request)] of
         (Inl e, tr') \<Rightarrow> (failureResponse e, tr')
       | (Inr response, tr') \<Rightarrow> (response, tr'))"
    by (rule generateMultiImageEdit_accepted)
  obtain n where n: "n \<le> maxAttempts - 0"
    "snd (pollLoop (pollResult w) request (orElse dataId (the topId)) 0 [EvSubmit (makePayload request)])
       = [EvSubmit (makePayload request)] @ pollEvents 0 n"
    using pollLoop_trace by blast
  have "snd (generateMultiImageEdit w request) = EvSubmit (makePayload request) # pollEvents 0 n"
    using n(2) unfolding g by (auto split: prod.splits sum.splits)
  with n(1) show ?thesis by (auto simp: maxAttempts_def)
qed

lemma pollLoop_returns_success:
  "pollLoop poll req t a tr = (Inr r, tr') \<Longrightarrow> success r"
proof (induction poll req t a tr rule: pollLoop.induct)
  case (1 poll request tid attempts tr)
  show ?case
  proof (cases "attempts < maxAttempts")
    case False
    with "1.prems" show ?thesis
      by (subst (asm) pollLoop.simps) simp
  next
    case True
    show ?thesis
    proof (cases "poll (attempts + 1)")
      case (PollThrows e)
      with True "1.prems" "1.IH"(1) show ?thesis
        by (subst (asm) pollLoop.simps) (simp add: Let_def split: if_splits)
    next
      case (PollNotOk st)
      with True "1.prems" "1.IH"(2) show ?thesis
        by (subst (asm) pollLoop.simps) (simp add: Let_def)
    next
      case (PollJson r')
      with True "1.prems" "1.IH"(3,4) show ?thesis
        by (subst (asm) pollLoop.simps)
           (auto simp: Let_def successResponse_def split: if_splits)
    qed
  qed
qed

lemma generateMultiImageEdit_responds:
  "success (fst (generateMultiImageEdit w request))
   \<or> errorMessage (fst (generateMultiImageEdit w request)) \<noteq> None"
proof (cases "taskAccepted w")
  case False
  then show ?thesis
    by (auto simp: taskAccepted_def generateMultiImageEdit_def Let_def failureResponse_def
             split: submit_outcome.splits)
next
  case True
  then obtain dataId topId where
    g: "generateMultiImageEdit w request =
      (case pollLoop (pollResult w) request (orElse dataId (the topId)) 0 [EvSubmit (makePayload request)] of
         (Inl e, tr') \<Rightarrow> (failureResponse e, tr')
       | (Inr response, tr') \<Rightarrow> (response, tr'))"
    by (rule generateMultiImageEdit_accepted)
  show ?thesis
    unfolding g
    by (auto simp: failureResponse_def split: prod.splits sum.splits
             dest: pollLoop_returns_success)
qed

text \<open>
  Claim C2, as amended. For every request \<^verbatim>\<open>generateMultiImageEdit\<close> returns a response
  (it never throws): one with \<^verbatim>\<open>success: true\<close> or one carrying an error message. It
  polls at most 120 times and sleeps 1000 ms right before each poll. Once the task is
  accepted: the first poll among the 120 that reports \<^verbatim>\<open>completed\<close> with a non-empty
  outputs array, no earlier poll having reported \<^verbatim>\<open>failed\<close>, ends the loop with
  \<^verbatim>\<open>success: true\<close> and the first output URL; when no poll reports \<^verbatim>\<open>completed\<close>
  with outputs or \<^verbatim>\<open>failed\<close> and the 120th poll does not throw, the result is
  \<^verbatim>\<open>success: false\<close> with error "Task timed out after 2 minutes" after exactly 120
  polls; and when instead the 120th poll throws, the result is \<^verbatim>\<open>success: false\<close>
  with the message of the thrown error.
\<close>

theorem generateMultiImageEdit_polling:
  "(\<exists>n\<le>120. snd (generateMultiImageEdit w request) = EvSubmit (makePayload request) # pollEvents 0 n)
   \<and> (success (fst (generateMultiImageEdit w request))
        \<or> errorMessage (fst (generateMultiImageEdit w request)) \<noteq> None)
   \<and> (taskAccepted w \<longrightarrow>
        (\<forall>k r u us.
            0 < k \<and> k \<le> 120 \<and> pollResult w k = PollJson r
            \<and> statusOf r = Some ''completed'' \<and> outputsOf r = Some (u # us)
            \<and> (\<forall>j. 0 < j \<and> j < k \<longrightarrow>
                   \<not> reportsCompleted (pollResult w j) \<and> \<not> reportsFailed (pollResult w j))
            \<longrightarrow> success (fst (generateMultiImageEdit w request))
              \<and> rs_imageUrl (fst (generateMultiImageEdit w request)) = Some u
              \<and> snd (generateMultiImageEdit w request)
                  = EvSubmit (makePayload request) # pollEvents 0 k)
      \<and> ((\<forall>j. 0 < j \<and> j \<le> 120 \<longrightarrow>
               \<not> reportsCompleted (pollResult w j) \<and> \<not> reportsFailed (pollResult w j))
          \<and> \<not> pollThrew (pollResult w 120)
            \<longrightarrow> \<not> success (fst (generateMultiImageEdit w request))
              \<and> errorMessage (fst (generateMultiImageEdit w request))
                  = Some ''Task timed out after 2 minutes''
              \<and> snd (generateMultiImageEdit w request)
                  = EvSubmit (makePayload request) # pollEvents 0 120)
      \<and> (\<forall>m. (\<forall>j. 0 < j \<and> j < 120 \<longrightarrow>
                   \<not> reportsCompleted (pollResult w j) \<and> \<not> reportsFailed (pollResult w j))
               \<and> pollResult w 120 = PollThrows (ErrorObject m)
            \<longrightarrow> \<not> success (fst (generateMultiImageEdit w request))
              \<and> errorMessage (fst (generateMultiImageEdit w request)) = Some m))"
proof (intro conjI impI allI)
  show "\<exists>n\<le>120. snd (generateMultiImageEdit w request) = EvSubmit (makePayload request) # pollEvents 0 n"
    by (rule generateMultiImageEdit_trace)
  show "success (fst (generateMultiImageEdit w request))
        \<or> errorMessage (fst (generateMultiImageEdit w request)) \<noteq> None"
    by (rule generateMultiImageEdit_responds)
next
  fix k r u us
  assume acc: "taskAccepted w"
    and h: "0 < k \<and> k \<le> 120 \<and> pollResult w k = PollJson r
            \<and> statusOf r = Some ''completed'' \<and> outputsOf r = Some (u # us)
            \<and> (\<forall>j. 0 < j \<and> j < k \<longrightarrow>
                   \<not> reportsCompleted (pollResult w j) \<and> \<not> reportsFailed (pollResult w j))"
  from acc obtain dataId topId where
    g: "generateMultiImageEdit w request =
      (case pollLoop (pollResult w) request (orElse dataId (the topId)) 0 [EvSubmit (makePayload request)] of
         (Inl e, tr') \<Rightarrow> (failureResponse e, tr')
       | (Inr response, tr') \<Rightarrow> (response, tr'))"
    by (rule generateMultiImageEdit_accepted)
  have c: "isCompleted r" using h by (simp add: isCompleted_def)
  have "pollLoop (pollResult w) request (orElse dataId (the topId)) 0 [EvSubmit (makePayload request)]
        = (Inr (successResponse request (orElse dataId (the topId)) k r),
           [EvSubmit (makePayload request)] @ pollEvents 0 k)"
    using h c by (intro pollLoop_first_completed) (simp_all add: maxAttempts_def)
  then have "generateMultiImageEdit w request
        = (successResponse request (orElse dataId (the topId)) k r,
           EvSubmit (makePayload request) # pollEvents 0 k)"
    unfolding g by simp
  then show "success (fst (generateMultiImageEdit w request))"
    and "rs_imageUrl (fst (generateMultiImageEdit w request)) = Some u"
    and "snd (generateMultiImageEdit w request) = EvSubmit (makePayload request) # pollEvents 0 k"
    using h by (simp_all add: successResponse_def)
next
  assume acc: "taskAccepted w"
    and h: "(\<forall>j. 0 < j \<and> j \<le> 120 \<longrightarrow>
               \<not> reportsCompleted (pollResult w j) \<and> \<not> reportsFailed (pollResult w j))
          \<and> \<not> pollThrew (pollResult w 120)"
  from acc obtain dataId topId where
    g: "generateMultiImageEdit w request =
      (case pollLoop (pollResult w) request (orElse dataId (the topId)) 0 [EvSubmit (makePayload request)] of
         (Inl e, tr') \<Rightarrow> (failureResponse e, tr')
       | (Inr response, tr') \<Rightarrow> (response, tr'))"
    by (rule generateMultiImageEdit_accepted)
  have "pollLoop (pollResult w) request (orElse dataId (the topId)) 0 [EvSubmit (makePayload request)]
        = (Inl (ErrorObject ''Task timed out after 2 minutes''),
           [EvSubmit (makePayload request)] @ pollEvents 0 maxAttempts)"
    using h by (intro pollLoop_timeout) (simp_all add: maxAttempts_def)
  then have "generateMultiImageEdit w request
        = (failureResponse (ErrorObject ''Task timed out after 2 minutes''),
           EvSubmit (makePayload request) # pollEvents 0 120)"
    unfolding g by (simp add: maxAttempts_def)
  then show "\<not> success (fst (generateMultiImageEdit w request))"
    and "errorMessage (fst (generateMultiImageEdit w request)) = Some ''Task timed out after 2 minutes''"
    and "snd (generateMultiImageEdit w request) = EvSubmit (makePayload request) # pollEvents 0 120"
    by (simp_all add: failureResponse_def)
next
  fix m
  assume acc: "taskAccepted w"
    and h: "(\<forall>j. 0 < j \<and> j < 120 \<longrightarrow>
                   \<not> reportsCompleted (pollResult w j) \<and> \<not> reportsFailed (pollResult w j))
               \<and> pollResult w 120 = PollThrows (ErrorObject m)"
  from acc obtain dataId topId where
    g: "generateMultiImageEdit w request =
      (case pollLoop (pollResult w) request (orElse dataId (the topId)) 0 [EvSubmit (makePayload request)] of
         (Inl e, tr') \<Rightarrow> (failureResponse e, tr')
       | (Inr response, tr') \<Rightarrow> (response, tr'))"
    by (rule generateMultiImageEdit_accepted)
  have "pollLoop (pollResult w) request (orElse dataId (the topId)) 0 [EvSubmit (makePayload request)]
        = (Inl (ErrorObject m), [EvSubmit (makePayload request)] @ pollEvents 0 maxAttempts)"
    using h by (intro pollLoop_throws_at_end) (simp_all add: maxAttempts_def)
  then have "generateMultiImageEdit w request
        = (failureResponse (ErrorObject m), EvSubmit (makePayload request) # pollEvents 0 maxAttempts)"
    unfolding g by simp
  then show "\<not> success (fst (generateMultiImageEdit w request))"
    and "errorMessage (fst (generateMultiImageEdit w request)) = Some m"
    by (simp_all add: failureResponse_def)
qed

lemma jsonStatus_reports [simp]:
  "reportsCompleted (jsonStatus ''processing'' None) = False"
  "reportsFailed (jsonStatus ''processing'' None) = False"
  "pollThrew (jsonStatus s os) = False"
  "reportsCompleted (PollNotOk n) = False"
  "reportsFailed (PollNotOk n) = False"
  by (simp_all add: jsonStatus_def reportsCompleted_def reportsFailed_def pollThrew_def
        isCompleted_def isFailed_def statusOf_def outputsOf_def truthy_def)

theorem generateMultiImageEdit_polling_witness:
  "success (fst (generateMultiImageEdit completesAtThird twoImages))
   \<and> rs_imageUrl (fst (generateMultiImageEdit completesAtThird twoImages))
       = Some ''https://cdn.example.com/out.png''
   \<and> snd (generateMultiImageEdit completesAtThird twoImages)
       = EvSubmit (makePayload twoImages) # pollEvents 0 3
   \<and> \<not> success (fst (generateMultiImageEdit neverFinishes twoImages))
   \<and> errorMessage (fst (generateMultiImageEdit neverFinishes twoImages))
       = Some ''Task timed out after 2 minutes''
   \<and> snd (generateMultiImageEdit neverFinishes twoImages)
       = EvSubmit (makePayload twoImages) # pollEvents 0 120
   \<and> \<not> success (fst (generateMultiImageEdit throwsAtLastPoll twoImages))
   \<and> errorMessage (fst (generateMultiImageEdit throwsAtLastPoll twoImages))
       = Some ''socket hang up''"
proof -
  have a1: "taskAccepted completesAtThird"
    by (simp add: taskAccepted_def completesAtThird_def truthy_def)
  have h1: "0 < (3::nat) \<and> (3::nat) \<le> 120
     \<and> pollResult completesAtThird 3 = PollJson \<lparr>data = Some \<lparr>d_status = Some ''completed'',
            d_outputs = Some [''https://cdn.example.com/out.png'']\<rparr>,
          r_status = None, r_outputs = None, r_error = None\<rparr>
     \<and> statusOf \<lparr>data = Some \<lparr>d_status = Some ''completed'',
            d_outputs = Some [''https://cdn.example.com/out.png'']\<rparr>,
          r_status = None, r_outputs = None, r_error = None\<rparr> = Some ''completed''
     \<and> outputsOf \<lparr>data = Some \<lparr>d_status = Some ''completed'',
            d_outputs = Some [''https://cdn.example.com/out.png'']\<rparr>,
          r_status = None, r_outputs = None, r_error = None\<rparr>
         = Some (''https://cdn.example.com/out.png'' # [])
     \<and> (\<forall>j. 0 < j \<and> j < 3 \<longrightarrow>
            \<not> reportsCompleted (pollResult completesAtThird j)
          \<and> \<not> reportsFailed (pollResult completesAtThird j))"
    by (simp add: completesAtThird_def jsonStatus_def statusOf_def outputsOf_def truthy_def
          reportsCompleted_def reportsFailed_def isCompleted_def isFailed_def)
  have a2: "taskAccepted neverFinishes"
    by (simp add: taskAccepted_def neverFinishes_def truthy_def)
  have h2: "(\<forall>j. 0 < j \<and> j \<le> 120 \<longrightarrow>
               \<not> reportsCompleted (pollResult neverFinishes j)
             \<and> \<not> reportsFailed (pollResult neverFinishes j))
          \<and> \<not> pollThrew (pollResult neverFinishes 120)"
    by (simp add: neverFinishes_def)
  have a3: "taskAccepted throwsAtLastPoll"
    by (simp add: taskAccepted_def throwsAtLastPoll_def truthy_def)
  have h3: "(\<forall>j. 0 < j \<and> j < 120 \<longrightarrow>
               \<not> reportsCompleted (pollResult throwsAtLastPoll j)
             \<and> \<not> reportsFailed (pollResult throwsAtLastPoll j))
          \<and> pollResult throwsAtLastPoll 120 = PollThrows (ErrorObject ''socket hang up'')"
    by (simp add: throwsAtLastPoll_def)
  from generateMultiImageEdit_polling [of completesAtThird twoImages] a1 h1
  have r1: "success (fst (generateMultiImageEdit completesAtThird twoImages))
   \<and> rs_imageUrl (fst (generateMultiImageEdit completesAtThird twoImages))
       = Some ''https://cdn.example.com/out.png''
   \<and> snd (generateMultiImageEdit completesAtThird twoImages)
       = EvSubmit (makePayload twoImages) # pollEvents 0 3"
    by blast
  from generateMultiImageEdit_polling [of neverFinishes twoImages] a2 h2
  have r2: "\<not> success (fst (generateMultiImageEdit neverFinishes twoImages))
   \<and> errorMessage (fst (generateMultiImageEdit neverFinishes twoImages))
       = Some ''Task timed out after 2 minutes''
   \<and> snd (generateMultiImageEdit neverFinishes twoImages)
       = EvSubmit (makePayload twoImages) # pollEvents 0 120"
    by blast
  from generateMultiImageEdit_polling [of throwsAtLastPoll twoImages] a3 h3
  have r3: "\<not> success (fst (generateMultiImageEdit throwsAtLastPoll twoImages))
   \<and> errorMessage (fst (generateMultiImageEdit throwsAtLastPoll twoImages))
       = Some ''socket hang up''"
    by blast
  from r1 r2 r3 show ?thesis by blast
qed

text \<open>
  The claim as stated fails where the 120th poll throws: every one of the 120 polls passes
  without a terminal status, yet the error is the thrown one and not the time-out, because
  the inner \<^verbatim>\<open>catch\<close> rethrows on the last attempt.
\<close>

theorem generateMultiImageEdit_timeout_counterexample:
  "snd (generateMultiImageEdit throwsAtLastPoll twoImages)
       = EvSubmit (makePayload twoImages) # pollEvents 0 120
   \<and> \<not> success (fst (generateMultiImageEdit throwsAtLastPoll twoImages))
   \<and> errorMessage (fst (generateMultiImageEdit throwsAtLastPoll twoImages))
       = Some ''socket hang up''
   \<and> errorMessage (fst (generateMultiImageEdit throwsAtLastPoll twoImages))
       \<noteq> Some ''Task timed out after 2 minutes''"
proof -
  have "pollLoop (pollResult throwsAtLastPoll) twoImages ''task-3'' 0 [EvSubmit (makePayload twoImages)]
        = (Inl (ErrorObject ''socket hang up''),
           [EvSubmit (makePayload twoImages)] @ pollEvents 0 maxAttempts)"
    by (intro pollLoop_throws_at_end) (simp_all add: throwsAtLastPoll_def maxAttempts_def)
  then have "generateMultiImageEdit throwsAtLastPoll twoImages
        = (failureResponse (ErrorObject ''socket hang up''),
           EvSubmit (makePayload twoImages) # pollEvents 0 120)"
    by (simp add: generateMultiImageEdit_def throwsAtLastPoll_def truthy_def orElse_def
          maxAttempts_def)
  then show ?thesis by (simp add: failureResponse_def)
qed

text \<open>
  A poll that reports \<^verbatim>\<open>failed\<close> before the last attempt does not end the loop either:
  the error thrown for it is caught by the same inner \<^verbatim>\<open>catch\<close>, polling goes on, and
  a later \<^verbatim>\<open>completed\<close> report yields \<^verbatim>\<open>success: true\<close>.
\<close>

lemma generateMultiImageEdit_failed_is_swallowed:
  "reportsFailed (pollResult failedThenCompleted 1)
   \<and> success (fst (generateMultiImageEdit failedThenCompleted twoImages))
   \<and> rs_imageUrl (fst (generateMultiImageEdit failedThenCompleted twoImages))
       = Some ''https://cdn.example.com/late.png''
   \<and> snd (generateMultiImageEdit failedThenCompleted twoImages)
       = EvSubmit (makePayload twoImages) # pollEvents 0 2"
proof -
  let ?r = "\<lparr>data = Some \<lparr>d_status = Some ''completed'',
            d_outputs = Some [''https://cdn.example.com/late.png'']\<rparr>,
          r_status = None, r_outputs = None, r_error = None\<rparr>"
  have f: "reportsFailed (pollResult failedThenCompleted 1)"
    by (simp add: failedThenCompleted_def jsonStatus_def reportsFailed_def isFailed_def
          isCompleted_def statusOf_def outputsOf_def truthy_def)
  have n: "\<not> reportsCompleted (pollResult failedThenCompleted 1)"
    by (simp add: failedThenCompleted_def jsonStatus_def reportsCompleted_def
          isCompleted_def statusOf_def outputsOf_def truthy_def)
  have c: "isCompleted ?r"
    by (simp add: isCompleted_def statusOf_def outputsOf_def truthy_def)
  have "pollLoop (pollResult failedThenCompleted) twoImages ''task-4'' 0 [EvSubmit (makePayload twoImages)]
        = (Inr (successResponse twoImages ''task-4'' 2 ?r),
           [EvSubmit (makePayload twoImages)] @ pollEvents 0 2)"
  proof (rule pollLoop_first_completed)
    show "pollResult failedThenCompleted 2 = PollJson ?r"
      by (simp add: failedThenCompleted_def jsonStatus_def)
    show "isCompleted ?r" by (rule c)
    show "\<not> reportsCompleted (pollResult failedThenCompleted j)" if "0 < j" "j < 2" for j
    proof -
      from that have "j = 1" by simp
      with n show ?thesis by simp
    qed
  qed (simp_all add: maxAttempts_def)
  then have "generateMultiImageEdit failedThenCompleted twoImages
        = (successResponse twoImages ''task-4'' 2 ?r,
           EvSubmit (makePayload twoImages) # pollEvents 0 2)"
    by (simp add: generateMultiImageEdit_def failedThenCompleted_def truthy_def orElse_def)
  then show ?thesis using f by (simp add: successResponse_def outputsOf_def)
qed
section \<open>Properties of the edit-image route\<close>

lemma countOf_simps [simp]:
  "countOf P [] = 0"
  "countOf P (tr @ tr') = countOf P tr + countOf P tr'"
  "countOf P (e # tr) = (if P e then Suc (countOf P tr) else countOf P tr)"
  by (simp_all add: countOf_def)

lemma validateImageUrl_eq:
  "validateImageUrl w url tr =
    (headOk (headRequest w (countOf isHead tr) url),
     tr @ [EvHead url (headRequest w (countOf isHead tr) url)])"
  by (simp add: validateImageUrl_def fetchHead_def Let_def split: head_outcome.splits)

text \<open>What \<^verbatim>\<open>ensureImageUrlAccessible\<close> does, by the answers it gets.\<close>

lemma ensure_accessible:
  assumes "headOk (headRequest w (countOf isHead tr) url)"
  shows "ensureImageUrlAccessible w url tr =
           (Inr (Some url), tr @ [EvHead url (headRequest w (countOf isHead tr) url)])"
  using assms by (simp add: ensureImageUrlAccessible_def validateImageUrl_eq)

lemma ensure_downloaded:
  assumes "\<not> headOk (headRequest w (countOf isHead tr) url)"
    and "getRequest w (countOf isGet tr) url = GetBlob (Inr dataUrl)"
  shows "ensureImageUrlAccessible w url tr =
           (Inr (Some dataUrl), tr @ [EvHead url (headRequest w (countOf isHead tr) url),
                                      EvGet url (GetBlob (Inr dataUrl))])"
  using assms
  by (simp add: ensureImageUrlAccessible_def validateImageUrl_eq downloadImageAsDataUrl_def Let_def)

lemma ensure_proxy:
  assumes "\<not> headOk (headRequest w (countOf isHead tr) url)"
    and "failedStep (EvGet url (getRequest w (countOf isGet tr) url))"
  shows "ensureImageUrlAccessible w url tr =
           (case proxyRequest w (countOf isProxy tr) url of
              ProxyJson dataUrl \<Rightarrow> Inr dataUrl
            | _ \<Rightarrow> Inl (Error ''Image URL has expired and could not be recovered. Please try editing a more recent image.''),
            tr @ [EvHead url (headRequest w (countOf isHead tr) url),
                  EvGet url (getRequest w (countOf isGet tr) url),
                  EvProxy url (proxyRequest w (countOf isProxy tr) url)])"
  using assms
  by (cases "getRequest w (countOf isGet tr) url")
     (auto simp: ensureImageUrlAccessible_def validateImageUrl_eq downloadImageAsDataUrl_def Let_def
           split: proxy_outcome.splits sum.splits)

text \<open>The events a block appends never include a provider call, and when the block gives
  up every step it appended has failed.\<close>

lemma ensure_appends:
  "\<exists>evs. snd (ensureImageUrlAccessible w url tr) = tr @ EvHead url (headRequest w (countOf isHead tr) url) # evs
     \<and> recoveryOnly evs
     \<and> (isl (fst (ensureImageUrlAccessible w url tr)) \<longrightarrow>
          list_all failedStep (EvHead url (headRequest w (countOf isHead tr) url) # evs))"
proof (cases "headOk (headRequest w (countOf isHead tr) url)")
  case True
  then show ?thesis by (simp add: ensure_accessible recoveryOnly_def)
next
  case False
  show ?thesis
  proof (cases "failedStep (EvGet url (getRequest w (countOf isGet tr) url))")
    case True
    show ?thesis
      using False True
      by (cases "proxyRequest w (countOf isProxy tr) url")
         (simp_all add: ensure_proxy [OF False True] recoveryOnly_def)
  next
    case g: False
    then obtain dataUrl where "getRequest w (countOf isGet tr) url = GetBlob (Inr dataUrl)"
    proof (cases "getRequest w (countOf isGet tr) url")
      case (GetBlob b)
      with g that show ?thesis by (cases b) auto
    qed auto
    then show ?thesis
      using False by (simp add: ensure_downloaded recoveryOnly_def)
  qed
qed

lemma recoveryOnly_simps [simp]:
  "recoveryOnly []"
  "recoveryOnly (e # evs) = ((isHead e \<or> isLookup e \<or> isGet e \<or> isProxy e) \<and> recoveryOnly evs)"
  "recoveryOnly (evs @ evs') = (recoveryOnly evs \<and> recoveryOnly evs')"
  by (simp_all add: recoveryOnly_def)

lemma lookupImage_eq:
  "lookupImage w imageId tr =
    (getImageByLocalId w (countOf isLookup tr) imageId,
     tr @ [EvLookup imageId (getImageByLocalId w (countOf isLookup tr) imageId)])"
  by (simp add: lookupImage_def Let_def)

lemma fetchHead_eq:
  "fetchHead w url tr =
    (headRequest w (countOf isHead tr) url, tr @ [EvHead url (headRequest w (countOf isHead tr) url)])"
  by (simp add: fetchHead_def Let_def)

lemma ensure_then:
  "\<exists>res evs. ensureImageUrlAccessible w url tr = (res, tr @ evs)
     \<and> recoveryOnly evs \<and> (isl res \<longrightarrow> list_all failedStep evs)
     \<and> evs \<noteq> [] \<and> hd evs = EvHead url (headRequest w (countOf isHead tr) url)"
proof -
  from ensure_appends [of w url tr] obtain evs where
    e: "snd (ensureImageUrlAccessible w url tr) = tr @ EvHead url (headRequest w (countOf isHead tr) url) # evs"
      "recoveryOnly evs"
      "isl (fst (ensureImageUrlAccessible w url tr)) \<longrightarrow>
          list_all failedStep (EvHead url (headRequest w (countOf isHead tr) url) # evs)"
    by blast
  have "ensureImageUrlAccessible w url tr =
       (fst (ensureImageUrlAccessible w url tr), tr @ EvHead url (headRequest w (countOf isHead tr) url) # evs)"
    using e(1) by (simp add: prod_eq_iff)
  with e(2,3) show ?thesis
    by (intro exI [of _ "fst (ensureImageUrlAccessible w url tr)"]
              exI [of _ "EvHead url (headRequest w (countOf isHead tr) url) # evs"]) simp
qed

text \<open>The \<^verbatim>\<open>catch\<close> block.\<close>

lemma recoverInCatch_appends:
  "\<exists>evs. snd (recoverInCatch w url imageId tr) = tr @ evs \<and> recoveryOnly evs
     \<and> (\<forall>r. fst (recoverInCatch w url imageId tr) = Return r \<longrightarrow>
           r = urlExpiredResponse url \<and> list_all failedStep evs)"
proof (cases "truthy imageId \<and> isReplicateDeliveryUrl url")
  case False
  obtain res evs where e: "ensureImageUrlAccessible w url tr = (res, tr @ evs)"
    "recoveryOnly evs" "isl res \<Longrightarrow> list_all failedStep evs"
    using ensure_then [of w url "tr"] by blast
  show ?thesis
    using False e by (cases res) (auto simp: recoverInCatch_def)
next
  case True
  let ?d = "getImageByLocalId w (countOf isLookup tr) (the imageId)"
  let ?tr1 = "tr @ [EvLookup (the imageId) ?d]"
  obtain res evs where e: "ensureImageUrlAccessible w url ?tr1 = (res, ?tr1 @ evs)"
    "recoveryOnly evs" "isl res \<Longrightarrow> list_all failedStep evs"
    using ensure_then [of w url "?tr1"] by blast
  show ?thesis
  proof (cases ?d)
    case (DbThrows x)
    then show ?thesis using True by (simp add: recoverInCatch_def lookupImage_eq)
  next
    case (DbResult storedImage)
    show ?thesis
    proof (cases "found storedImage")
      case f: True
      then show ?thesis using True DbResult by (simp add: recoverInCatch_def lookupImage_eq)
    next
      case f: False
      then show ?thesis
        using True DbResult e by (cases res) (auto simp: recoverInCatch_def lookupImage_eq)
    qed
  qed
qed

lemma recoverInCatch_then:
  "\<exists>res evs. recoverInCatch w url imageId tr = (res, tr @ evs) \<and> recoveryOnly evs
     \<and> (\<forall>r. res = Return r \<longrightarrow> r = urlExpiredResponse url \<and> list_all failedStep evs)"
proof -
  from recoverInCatch_appends [of w url imageId tr] obtain evs where
    e: "snd (recoverInCatch w url imageId tr) = tr @ evs" "recoveryOnly evs"
      "\<forall>r. fst (recoverInCatch w url imageId tr) = Return r \<longrightarrow>
           r = urlExpiredResponse url \<and> list_all failedStep evs"
    by blast
  have "recoverInCatch w url imageId tr = (fst (recoverInCatch w url imageId tr), tr @ evs)"
    using e(1) by (simp add: prod_eq_iff)
  with e(2,3) show ?thesis
    by (intro exI [of _ "fst (recoverInCatch w url imageId tr)"] exI [of _ evs]) simp
qed

text \<open>The whole accessibility check: its first event is the HEAD request for the URL.\<close>

lemma checkAccessibility_appends:
  "\<exists>evs. snd (checkAccessibility w url imageId tr) =
            tr @ EvHead url (headRequest w (countOf isHead tr) url) # evs
     \<and> recoveryOnly evs
     \<and> (\<forall>r. fst (checkAccessibility w url imageId tr) = Return r \<longrightarrow>
           r = urlExpiredResponse url
         \<and> list_all failedStep (EvHead url (headRequest w (countOf isHead tr) url) # evs))"
proof -
  let ?h = "headRequest w (countOf isHead tr) url"
  let ?tr1 = "tr @ [EvHead url ?h]"
  show ?thesis
  proof (cases "headOk ?h")
    case True
    then show ?thesis
      by (cases ?h) (simp_all add: checkAccessibility_def fetchHead_eq)
  next
    case nok: False
    obtain resC evsC where c1: "recoverInCatch w url imageId ?tr1 = (resC, ?tr1 @ evsC)"
      "recoveryOnly evsC"
      "\<And>r. resC = Return r \<Longrightarrow> r = urlExpiredResponse url \<and> list_all failedStep evsC"
    using recoverInCatch_then [of w url imageId "?tr1"] by blast
    show ?thesis
    proof (cases ?h)
      case (HeadThrows e)
      then show ?thesis
        using c1 by (auto simp: checkAccessibility_def fetchHead_eq)
    next
      case (HeadResponse ok st)
      with nok have ok: "\<not> ok" by simp
      show ?thesis
      proof (cases "truthy imageId \<and> isReplicateDeliveryUrl url")
        case False
        obtain res evs where e: "ensureImageUrlAccessible w url ?tr1 = (res, ?tr1 @ evs)"
          "recoveryOnly evs" "isl res \<Longrightarrow> list_all failedStep evs"
    using ensure_then [of w url "?tr1"] by blast
        obtain resC evsC where c: "recoverInCatch w url imageId (?tr1 @ evs) = (resC, (?tr1 @ evs) @ evsC)"
          "recoveryOnly evsC"
          "\<And>r. resC = Return r \<Longrightarrow> r = urlExpiredResponse url \<and> list_all failedStep evsC"
    using recoverInCatch_then [of w url imageId "(?tr1 @ evs)"] by blast
        show ?thesis
        proof (cases res)
          case (Inr v)
          then show ?thesis
            using False HeadResponse ok e
            by (auto simp: checkAccessibility_def fetchHead_eq)
        next
          case (Inl x)
          then show ?thesis
            using False HeadResponse ok e c
            by (auto simp: checkAccessibility_def fetchHead_eq)
        qed
      next
        case True
        let ?d = "getImageByLocalId w (countOf isLookup ?tr1) (the imageId)"
        let ?tr2 = "?tr1 @ [EvLookup (the imageId) ?d]"
        show ?thesis
        proof (cases ?d)
          case (DbThrows x)
          obtain resC evsC where c: "recoverInCatch w url imageId ?tr2 = (resC, ?tr2 @ evsC)"
            "recoveryOnly evsC"
            "\<And>r. resC = Return r \<Longrightarrow> r = urlExpiredResponse url \<and> list_all failedStep evsC"
    using recoverInCatch_then [of w url imageId "?tr2"] by blast
          show ?thesis
            using True HeadResponse ok DbThrows c
            by (auto simp: checkAccessibility_def fetchHead_eq lookupImage_eq)
        next
          case (DbResult storedImage)
          show ?thesis
          proof (cases "found storedImage")
            case f: True
            then show ?thesis
              using True HeadResponse ok DbResult
              by (auto simp: checkAccessibility_def fetchHead_eq lookupImage_eq)
          next
            case f: False
            obtain res evs where e: "ensureImageUrlAccessible w url ?tr2 = (res, ?tr2 @ evs)"
              "recoveryOnly evs" "isl res \<Longrightarrow> list_all failedStep evs"
    using ensure_then [of w url "?tr2"] by blast
            obtain resC evsC where c: "recoverInCatch w url imageId (?tr2 @ evs) = (resC, (?tr2 @ evs) @ evsC)"
              "recoveryOnly evsC"
              "\<And>r. resC = Return r \<Longrightarrow> r = urlExpiredResponse url \<and> list_all failedStep evsC"
    using recoverInCatch_then [of w url imageId "(?tr2 @ evs)"] by blast
            show ?thesis
            proof (cases res)
              case (Inr v)
              then show ?thesis
                using True HeadResponse ok DbResult f e
                by (auto simp: checkAccessibility_def fetchHead_eq lookupImage_eq)
            next
              case (Inl x)
              then show ?thesis
                using True HeadResponse ok DbResult f e c
                by (auto simp: checkAccessibility_def fetchHead_eq lookupImage_eq)
            qed
          qed
        qed
      qed
    qed
  qed
qed

lemma ensure_not_accessible:
  assumes "\<not> headOk (headRequest w (countOf isHead tr) url)"
  shows "\<exists>evs. snd (ensureImageUrlAccessible w url tr) =
           tr @ EvHead url (headRequest w (countOf isHead tr) url)
              # EvGet url (getRequest w (countOf isGet tr) url) # evs"
proof (cases "failedStep (EvGet url (getRequest w (countOf isGet tr) url))")
  case True
  show ?thesis by (simp add: ensure_proxy [OF assms True])
next
  case g: False
  then obtain dataUrl where "getRequest w (countOf isGet tr) url = GetBlob (Inr dataUrl)"
  proof (cases "getRequest w (countOf isGet tr) url")
    case (GetBlob b)
    with g that show ?thesis by (cases b) auto
  qed auto
  then show ?thesis using assms by (simp add: ensure_downloaded)
qed

text \<open>
  The events that come before \<^verbatim>\<open>ensureImageUrlAccessible\<close> when the handler's own HEAD
  check has failed: the check, and the lookup if there is an image id for a Replicate
  delivery URL.
\<close>

lemma checkAccessibility_ok:
  assumes "headOk (headRequest w 0 url)"
  shows "checkAccessibility w url imageId [] =
           (Value (Some url), [EvHead url (headRequest w 0 url)])"
  using assms by (cases "headRequest w 0 url") (simp_all add: checkAccessibility_def fetchHead_eq)

lemma checkAccessibility_found:
  assumes "\<not> headOk (headRequest w 0 url)" "truthy imageId" "isReplicateDeliveryUrl url"
    and "getImageByLocalId w 0 (the imageId) = DbResult storedImage" "found storedImage"
  shows "checkAccessibility w url imageId [] =
           (Value (stored_url (the storedImage)),
            [EvHead url (headRequest w 0 url), EvLookup (the imageId) (DbResult storedImage)])"
  using assms
  by (cases "headRequest w 0 url")
     (simp_all add: checkAccessibility_def recoverInCatch_def fetchHead_eq lookupImage_eq)

lemma checkAccessibility_lookup_first:
  assumes "\<not> headOk (headRequest w 0 url)" "truthy imageId" "isReplicateDeliveryUrl url"
  shows "\<exists>evs. snd (checkAccessibility w url imageId []) =
           [EvHead url (headRequest w 0 url),
            EvLookup (the imageId) (getImageByLocalId w 0 (the imageId))] @ evs"
proof -
  let ?h = "headRequest w 0 url"
  let ?d = "getImageByLocalId w 0 (the imageId)"
  let ?tr2 = "[EvHead url ?h, EvLookup (the imageId) ?d]"
  obtain res evs where e: "ensureImageUrlAccessible w url ?tr2 = (res, ?tr2 @ evs)"
    using ensure_then [of w url ?tr2] by blast
  obtain resC evsC where c: "recoverInCatch w url imageId (?tr2 @ evs) = (resC, (?tr2 @ evs) @ evsC)"
    using recoverInCatch_then [of w url imageId "?tr2 @ evs"] by blast
  obtain resD evsD where d: "recoverInCatch w url imageId ?tr2 = (resD, ?tr2 @ evsD)"
    using recoverInCatch_then [of w url imageId ?tr2] by blast
  show ?thesis
  proof (cases ?h)
    case (HeadThrows x)
    show ?thesis
      using assms HeadThrows e
      by (cases ?d; cases res)
         (auto simp: checkAccessibility_def recoverInCatch_def fetchHead_eq lookupImage_eq)
  next
    case (HeadResponse ok st)
    show ?thesis
      using assms HeadResponse e c d
      by (cases ?d; cases res)
         (auto simp: checkAccessibility_def fetchHead_eq lookupImage_eq)
  qed
qed

lemma checkAccessibility_reaches_ensure:
  assumes "\<not> headOk (headRequest w 0 url)"
    and "truthy imageId \<and> isReplicateDeliveryUrl url \<longrightarrow>
          (\<exists>storedImage. getImageByLocalId w 0 (the imageId) = DbResult storedImage
                        \<and> \<not> found storedImage)"
  shows "checkAccessibility w url imageId [] =
          (case ensureImageUrlAccessible w url (beforeEnsure w url imageId) of
             (Inr v, tr) \<Rightarrow> (Value v, tr)
           | (Inl e, tr) \<Rightarrow>
               (case headRequest w 0 url of
                  HeadThrows x \<Rightarrow> (Return (urlExpiredResponse url), tr)
                | HeadResponse ok st \<Rightarrow> recoverInCatch w url imageId tr))"
  using assms
  by (cases "headRequest w 0 url")
     (auto simp: checkAccessibility_def recoverInCatch_def fetchHead_eq lookupImage_eq
           beforeEnsure_def split: prod.splits sum.splits)

lemma beforeEnsure_counts [simp]:
  "countOf isHead (beforeEnsure w url imageId) = 1"
  "countOf isGet (beforeEnsure w url imageId) = 0"
  "countOf isProxy (beforeEnsure w url imageId) = 0"
  by (simp_all add: beforeEnsure_def)

lemma checkAccessibility_recheck_ok:
  assumes "\<not> headOk (headRequest w 0 url)"
    and "truthy imageId \<and> isReplicateDeliveryUrl url \<longrightarrow>
          (\<exists>storedImage. getImageByLocalId w 0 (the imageId) = DbResult storedImage
                        \<and> \<not> found storedImage)"
    and "headOk (headRequest w 1 url)"
  shows "checkAccessibility w url imageId [] =
          (Value (Some url), beforeEnsure w url imageId @ [EvHead url (headRequest w 1 url)])"
  using assms(3)
  by (simp add: checkAccessibility_reaches_ensure [OF assms(1,2)] ensure_accessible)

lemma checkAccessibility_downloaded:
  assumes "\<not> headOk (headRequest w 0 url)"
    and "truthy imageId \<and> isReplicateDeliveryUrl url \<longrightarrow>
          (\<exists>storedImage. getImageByLocalId w 0 (the imageId) = DbResult storedImage
                        \<and> \<not> found storedImage)"
    and "\<not> headOk (headRequest w 1 url)" "getRequest w 0 url = GetBlob (Inr dataUrl)"
  shows "checkAccessibility w url imageId [] =
          (Value (Some dataUrl),
           beforeEnsure w url imageId @ [EvHead url (headRequest w 1 url),
                                         EvGet url (GetBlob (Inr dataUrl))])"
  using assms(3,4)
  by (simp add: checkAccessibility_reaches_ensure [OF assms(1,2)] ensure_downloaded)

lemma checkAccessibility_ensure_prefix:
  assumes "\<not> headOk (headRequest w 0 url)"
    and "truthy imageId \<and> isReplicateDeliveryUrl url \<longrightarrow>
          (\<exists>storedImage. getImageByLocalId w 0 (the imageId) = DbResult storedImage
                        \<and> \<not> found storedImage)"
  shows "\<exists>evs. snd (checkAccessibility w url imageId []) =
           (beforeEnsure w url imageId @ [EvHead url (headRequest w 1 url)]) @ evs"
    and "\<not> headOk (headRequest w 1 url) \<Longrightarrow>
         \<exists>evs. snd (checkAccessibility w url imageId []) =
           (beforeEnsure w url imageId @ [EvHead url (headRequest w 1 url),
                                          EvGet url (getRequest w 0 url)]) @ evs"
proof -
  let ?pre = "beforeEnsure w url imageId"
  obtain res evs where e: "ensureImageUrlAccessible w url ?pre = (res, ?pre @ evs)"
    "evs \<noteq> []" "hd evs = EvHead url (headRequest w 1 url)"
    using ensure_then [of w url ?pre] by auto
  obtain resC evsC where c: "recoverInCatch w url imageId (?pre @ evs) = (resC, (?pre @ evs) @ evsC)"
    using recoverInCatch_then [of w url imageId "?pre @ evs"] by blast
  from e(2,3) obtain evs' where evs: "evs = EvHead url (headRequest w 1 url) # evs'"
    by (cases evs) auto
  have tr: "snd (checkAccessibility w url imageId []) = ?pre @ evs
          \<or> snd (checkAccessibility w url imageId []) = (?pre @ evs) @ evsC"
    using e(1) c
    by (cases res; cases "headRequest w 0 url")
       (simp_all add: checkAccessibility_reaches_ensure [OF assms(1,2)])
  then show "\<exists>evs. snd (checkAccessibility w url imageId []) =
           (beforeEnsure w url imageId @ [EvHead url (headRequest w 1 url)]) @ evs"
    unfolding evs by auto
  assume n: "\<not> headOk (headRequest w 1 url)"
  from ensure_not_accessible [of w ?pre url] n e(1) evs
  obtain evs'' where "evs' = EvGet url (getRequest w 0 url) # evs''"
    by auto
  with tr evs show "\<exists>evs. snd (checkAccessibility w url imageId []) =
           (beforeEnsure w url imageId @ [EvHead url (headRequest w 1 url),
                                          EvGet url (getRequest w 0 url)]) @ evs"
    by auto
qed

text \<open>The handler on a request that reaches the accessibility check.\<close>

lemma POST_edit_image_cascade:
  assumes "reachesCascade ev body"
  shows "POST_edit_image ev w (Inr body) =
    (case checkAccessibility w (the (eb_imageUrl body)) (eb_imageId body) [] of
       (Return r, tr) \<Rightarrow> (r, tr)
     | (Throw e, tr) \<Rightarrow> (classifyError e, tr)
     | (Value None, tr) \<Rightarrow>
         (classifyError (Error ''Cannot read properties of undefined (reading 'substring')''), tr)
     | (Value (Some v), tr) \<Rightarrow>
         (replicateResponse (orDefault (eb_model body) ''flux-kontext-pro'') (the (eb_imageUrl body))
            (the (eb_prompt body)) (orDefault (eb_quality body) ''standard'')
            (orDefault (eb_style body) ''vivid'') (orDefault (eb_size body) ''1024x1024'')
            (editImage w (orDefault (eb_model body) ''flux-kontext-pro'')
               (editInputFor (the (eb_prompt body)) v)),
          tr @ [EvReplicateEdit (orDefault (eb_model body) ''flux-kontext-pro'')
                  (editInputFor (the (eb_prompt body)) v)
                  (editImage w (orDefault (eb_model body) ''flux-kontext-pro'')
                     (editInputFor (the (eb_prompt body)) v))]))"
proof -
  have m: "orDefault (eb_model body) ''flux-kontext-pro'' \<noteq> ''gpt-image-1''"
    using assms by (auto simp: reachesCascade_def isFluxKontext_def)
  show ?thesis
    using assms m
    by (simp add: POST_edit_image_def reachesCascade_def editWithReplicate_def Let_def
          editInputFor_def replicateResponse_def
        split: prod.splits flow.splits option.splits edit_outcome.splits)
qed

lemma classifyError_not_expired:
  "errorOf (classifyError e) \<noteq> Some ''Image URL expired or inaccessible''"
  by (simp add: classifyError_def errorDetails_def)

lemma replicateResponse_not_expired:
  "errorOf (replicateResponse model url p q st sz r) \<noteq> Some ''Image URL expired or inaccessible''"
  by (cases r) (simp_all add: replicateResponse_def classifyError_not_expired)

lemma POST_edit_image_expired:
  assumes "reachesCascade ev body"
    and "errorOf (fst (POST_edit_image ev w (Inr body))) = Some ''Image URL expired or inaccessible''"
  shows "fst (POST_edit_image ev w (Inr body)) = urlExpiredResponse (the (eb_imageUrl body))"
    and "list_all failedStep (snd (POST_edit_image ev w (Inr body)))"
proof -
  let ?url = "the (eb_imageUrl body)"
  let ?c = "checkAccessibility w ?url (eb_imageId body) []"
  from checkAccessibility_appends [of w ?url "eb_imageId body" "[]"]
  obtain evs where c:
    "snd ?c = EvHead ?url (headRequest w 0 ?url) # evs"
    "\<forall>r. fst ?c = Return r \<longrightarrow>
       r = urlExpiredResponse ?url \<and> list_all failedStep (EvHead ?url (headRequest w 0 ?url) # evs)"
    by auto
  obtain res tr where p: "?c = (res, tr)" by (cases ?c)
  have "\<exists>r. res = Return r"
    using assms(2) unfolding POST_edit_image_cascade [OF assms(1)] p
    by (cases res) (auto simp: classifyError_not_expired replicateResponse_not_expired
                         split: option.splits)
  then obtain r where r: "res = Return r" by blast
  with c p have "r = urlExpiredResponse ?url" "list_all failedStep tr" by auto
  then show "fst (POST_edit_image ev w (Inr body)) = urlExpiredResponse (the (eb_imageUrl body))"
    and "list_all failedStep (snd (POST_edit_image ev w (Inr body)))"
    unfolding POST_edit_image_cascade [OF assms(1)] p r by simp_all
qed

lemma POST_edit_image_trace:
  assumes "reachesCascade ev body"
  shows "\<exists>evs. snd (POST_edit_image ev w (Inr body)) =
           snd (checkAccessibility w (the (eb_imageUrl body)) (eb_imageId body) []) @ evs"
  unfolding POST_edit_image_cascade [OF assms]
  by (auto split: prod.splits flow.splits option.splits)

lemma POST_edit_image_value:
  assumes "reachesCascade ev body"
    and "checkAccessibility w (the (eb_imageUrl body)) (eb_imageId body) [] = (Value (Some v), tr)"
  shows "snd (POST_edit_image ev w (Inr body)) =
           tr @ [EvReplicateEdit (orDefault (eb_model body) ''flux-kontext-pro'')
                  (editInputFor (the (eb_prompt body)) v)
                  (editImage w (orDefault (eb_model body) ''flux-kontext-pro'')
                     (editInputFor (the (eb_prompt body)) v))]"
  unfolding POST_edit_image_cascade [OF assms(1)] assms(2) by simp

text \<open>Without the checks passed, the handler calls nothing at all on the Replicate side.\<close>

lemma POST_edit_image_replicate_only_after_checks:
  assumes "list_ex isReplicateEdit (snd (POST_edit_image ev w req))"
  shows "\<exists>body. req = Inr body
      \<and> isFluxKontext (orDefault (eb_model body) ''flux-kontext-pro'')
      \<and> truthy (REPLICATE_API_KEY ev) \<and> truthy (eb_imageUrl body) \<and> truthy (eb_prompt body)"
proof (cases req)
  case (Inl e)
  with assms show ?thesis by (simp add: POST_edit_image_def)
next
  case (Inr body)
  have g: "\<not> list_ex isReplicateEdit (snd (editWithGPTImage1 w u p q st sz mk))" for u p q st sz mk
    by (simp add: editWithGPTImage1_def Let_def split: gpt_outcome.splits)
  from assms Inr show ?thesis
    by (auto simp: POST_edit_image_def Let_def g split: if_splits)
qed

text \<open>
  Claim C1, as amended. Take a POST to the edit-image route with a flux-kontext model
  whose \<^verbatim>\<open>imageUrl\<close> does not start with \<^verbatim>\<open>data:\<close> and does not contain
  \<^verbatim>\<open>blob.vercel-storage.com\<close>. The Replicate edit is called only after the key and
  presence checks, and then the first thing the handler does is a HEAD request for
  \<^verbatim>\<open>imageUrl\<close>; if it succeeds the edit is called with that URL. If it fails or throws
  and there is an image id for a \<^verbatim>\<open>replicate.delivery\<close> URL, the stored image is looked
  up next, and a stored URL that is found is used for the edit at once. Otherwise (no
  lookup, or nothing found) the handler calls \<^verbatim>\<open>ensureImageUrlAccessible\<close>, which
  first repeats the HEAD request and keeps \<^verbatim>\<open>imageUrl\<close> unchanged when this one succeeds,
  and only else attempts to download the image and re-encode it as a data URL, which is
  then used for the edit. The response 400 "Image URL expired or inaccessible", with the
  suggestion to upload the image again, is returned only when every recovery step that
  was made has failed, and then the Replicate edit is never called.
\<close>

theorem POST_edit_image_recovery_cascade:
  "(let url = the (eb_imageUrl body); imageId = eb_imageId body; p = the (eb_prompt body);
        model = orDefault (eb_model body) ''flux-kontext-pro'';
        r = fst (POST_edit_image ev w (Inr body));
        tr = snd (POST_edit_image ev w (Inr body));
        h0 = headRequest w 0 url; h1 = headRequest w 1 url;
        d0 = getImageByLocalId w 0 (the imageId); g0 = getRequest w 0 url;
        pre = beforeEnsure w url imageId;
        edit = (\<lambda>v. EvReplicateEdit model (editInputFor p v) (editImage w model (editInputFor p v)))
    in (list_ex isReplicateEdit tr \<longrightarrow>
          isFluxKontext model \<and> truthy (REPLICATE_API_KEY ev) \<and> truthy (eb_imageUrl body)
          \<and> truthy (eb_prompt body))
     \<and> (reachesCascade ev body \<longrightarrow>
          take 1 tr = [EvHead url h0]
        \<and> (headOk h0 \<longrightarrow> tr = [EvHead url h0, edit url])
        \<and> (\<not> headOk h0 \<and> truthy imageId \<and> isReplicateDeliveryUrl url \<longrightarrow>
              take 2 tr = [EvHead url h0, EvLookup (the imageId) d0]
            \<and> (\<forall>storedImage. d0 = DbResult storedImage \<and> found storedImage \<longrightarrow>
                  tr = [EvHead url h0, EvLookup (the imageId) d0,
                        edit (the (stored_url (the storedImage)))]))
        \<and> (\<not> headOk h0
            \<and> (truthy imageId \<and> isReplicateDeliveryUrl url \<longrightarrow>
                  (\<exists>storedImage. d0 = DbResult storedImage \<and> \<not> found storedImage)) \<longrightarrow>
              take (length pre + 1) tr = pre @ [EvHead url h1]
            \<and> (headOk h1 \<longrightarrow> tr = pre @ [EvHead url h1, edit url])
            \<and> (\<not> headOk h1 \<longrightarrow>
                  take (length pre + 2) tr = pre @ [EvHead url h1, EvGet url g0]
                \<and> (\<forall>dataUrl. g0 = GetBlob (Inr dataUrl) \<longrightarrow>
                      tr = pre @ [EvHead url h1, EvGet url g0, edit dataUrl])))
        \<and> (errorOf r = Some ''Image URL expired or inaccessible'' \<longrightarrow>
              r = urlExpiredResponse url \<and> status r = 400
            \<and> (\<exists>j. r = Failure 400 j \<and> suggestion j =
                  Some ''To edit this image, please save it to your device first, then upload it again.'')
            \<and> list_all failedStep tr \<and> \<not> list_ex isReplicateEdit tr)))"
proof -
  let ?url = "the (eb_imageUrl body)" and ?id = "eb_imageId body" and ?p = "the (eb_prompt body)"
  let ?model = "orDefault (eb_model body) ''flux-kontext-pro''"
  let ?r = "fst (POST_edit_image ev w (Inr body))"
  let ?tr = "snd (POST_edit_image ev w (Inr body))"
  let ?h0 = "headRequest w 0 ?url" and ?h1 = "headRequest w 1 ?url"
  let ?d0 = "getImageByLocalId w 0 (the ?id)" and ?g0 = "getRequest w 0 ?url"
  let ?pre = "beforeEnsure w ?url ?id"
  let ?edit = "\<lambda>v. EvReplicateEdit ?model (editInputFor ?p v) (editImage w ?model (editInputFor ?p v))"
  let ?c = "checkAccessibility w ?url ?id []"
  have A: "isFluxKontext ?model \<and> truthy (REPLICATE_API_KEY ev) \<and> truthy (eb_imageUrl body)
          \<and> truthy (eb_prompt body)" if "list_ex isReplicateEdit ?tr"
    using POST_edit_image_replicate_only_after_checks [OF that] by auto
  have B: "take 1 ?tr = [EvHead ?url ?h0]" if reach: "reachesCascade ev body"
  proof -
    from checkAccessibility_appends [of w ?url ?id "[]"]
    obtain evs where "snd ?c = EvHead ?url ?h0 # evs" by auto
    moreover from POST_edit_image_trace [OF reach, of w]
    obtain evs' where "?tr = snd ?c @ evs'" by blast
    ultimately show ?thesis by simp
  qed
  have C: "?tr = [EvHead ?url ?h0, ?edit ?url]" if reach: "reachesCascade ev body" and "headOk ?h0"
    using POST_edit_image_value [OF reach checkAccessibility_ok [OF that(2)]] by simp
  have D1: "take 2 ?tr = [EvHead ?url ?h0, EvLookup (the ?id) ?d0]"
    if reach: "reachesCascade ev body"
      and h: "\<not> headOk ?h0" "truthy ?id" "isReplicateDeliveryUrl ?url"
  proof -
    from checkAccessibility_lookup_first [OF h]
    obtain evs where "snd ?c = [EvHead ?url ?h0, EvLookup (the ?id) ?d0] @ evs" by blast
    moreover from POST_edit_image_trace [OF reach, of w]
    obtain evs' where "?tr = snd ?c @ evs'" by blast
    ultimately show ?thesis by simp
  qed
  have D2: "?tr = [EvHead ?url ?h0, EvLookup (the ?id) ?d0, ?edit (the (stored_url (the storedImage)))]"
    if reach: "reachesCascade ev body"
      and h: "\<not> headOk ?h0" "truthy ?id" "isReplicateDeliveryUrl ?url"
      and d: "?d0 = DbResult storedImage" "found storedImage" for storedImage
  proof -
    from d(2) obtain u where u: "stored_url (the storedImage) = Some u"
      by (auto simp: found_def truthy_def split: option.splits)
    from checkAccessibility_found [OF h d] u
    have "?c = (Value (Some u), [EvHead ?url ?h0, EvLookup (the ?id) (DbResult storedImage)])"
      by simp
    from POST_edit_image_value [OF reach this] show ?thesis by (simp add: u d(1))
  qed
  have E: "take (length ?pre + 1) ?tr = ?pre @ [EvHead ?url ?h1]
         \<and> (headOk ?h1 \<longrightarrow> ?tr = ?pre @ [EvHead ?url ?h1, ?edit ?url])
         \<and> (\<not> headOk ?h1 \<longrightarrow>
               take (length ?pre + 2) ?tr = ?pre @ [EvHead ?url ?h1, EvGet ?url ?g0]
             \<and> (\<forall>dataUrl. ?g0 = GetBlob (Inr dataUrl) \<longrightarrow>
                   ?tr = ?pre @ [EvHead ?url ?h1, EvGet ?url ?g0, ?edit dataUrl]))"
    if reach: "reachesCascade ev body"
      and h: "\<not> headOk ?h0"
        "truthy ?id \<and> isReplicateDeliveryUrl ?url \<longrightarrow>
           (\<exists>storedImage. ?d0 = DbResult storedImage \<and> \<not> found storedImage)"
  proof (intro conjI impI allI)
    from POST_edit_image_trace [OF reach, of w]
    obtain evs' where t: "?tr = snd ?c @ evs'" by blast
    from checkAccessibility_ensure_prefix(1) [OF h]
    obtain evs where "snd ?c = (?pre @ [EvHead ?url ?h1]) @ evs" by blast
    with t show "take (length ?pre + 1) ?tr = ?pre @ [EvHead ?url ?h1]" by simp
    show "?tr = ?pre @ [EvHead ?url ?h1, ?edit ?url]" if "headOk ?h1"
      using POST_edit_image_value [OF reach checkAccessibility_recheck_ok [OF h that]] by simp
    show "take (length ?pre + 2) ?tr = ?pre @ [EvHead ?url ?h1, EvGet ?url ?g0]" if n: "\<not> headOk ?h1"
    proof -
      from checkAccessibility_ensure_prefix(2) [OF h n]
      obtain evs where "snd ?c = (?pre @ [EvHead ?url ?h1, EvGet ?url ?g0]) @ evs" by blast
      with t show ?thesis by simp
    qed
    show "?tr = ?pre @ [EvHead ?url ?h1, EvGet ?url ?g0, ?edit dataUrl]"
      if n: "\<not> headOk ?h1" and g: "?g0 = GetBlob (Inr dataUrl)" for dataUrl
      using POST_edit_image_value [OF reach checkAccessibility_downloaded [OF h n g]] g by simp
  qed
  have F: "?r = urlExpiredResponse ?url \<and> status ?r = 400
         \<and> (\<exists>j. ?r = Failure 400 j \<and> suggestion j =
               Some ''To edit this image, please save it to your device first, then upload it again.'')
         \<and> list_all failedStep ?tr \<and> \<not> list_ex isReplicateEdit ?tr"
    if reach: "reachesCascade ev body"
      and x: "errorOf ?r = Some ''Image URL expired or inaccessible''"
  proof -
    note e = POST_edit_image_expired [OF reach x]
    have "\<not> list_ex isReplicateEdit ?tr"
    proof
      assume "list_ex isReplicateEdit ?tr"
      then obtain e' where e': "e' \<in> set ?tr" "isReplicateEdit e'" by (auto simp: list_ex_iff)
      from e'(1) e(2) have "failedStep e'" by (auto simp: list_all_iff)
      with e'(2) show False by (cases e') simp_all
    qed
    with e show ?thesis by (simp add: urlExpiredResponse_def Let_def)
  qed
  show ?thesis
    unfolding Let_def using A B C D1 D2 E F by blast
qed

theorem POST_edit_image_recovery_cascade_witness:
  "reachesCascade replicateEnv deliveryRequest \<and> reachesCascade replicateEnv catRequest
   \<and> status (fst (POST_edit_image replicateEnv goneWorld (Inr deliveryRequest))) = 400
   \<and> list_all failedStep (snd (POST_edit_image replicateEnv goneWorld (Inr deliveryRequest)))
   \<and> \<not> list_ex isReplicateEdit (snd (POST_edit_image replicateEnv goneWorld (Inr deliveryRequest)))
   \<and> take 2 (snd (POST_edit_image replicateEnv goneWorld (Inr deliveryRequest)))
       = [EvHead ''https://replicate.delivery/pbxt/out.png'' (HeadResponse False 404),
          EvLookup ''img_1'' (DbResult None)]
   \<and> length (snd (POST_edit_image replicateEnv storedCopy (Inr deliveryRequest))) = 3
   \<and> list_ex isReplicateEdit (snd (POST_edit_image replicateEnv storedCopy (Inr deliveryRequest)))
   \<and> length (snd (POST_edit_image replicateEnv slowServer (Inr catRequest))) = 3
   \<and> \<not> list_ex isGet (snd (POST_edit_image replicateEnv slowServer (Inr catRequest)))
   \<and> length (snd (POST_edit_image replicateEnv downloadable (Inr catRequest))) = 4
   \<and> list_ex isGet (snd (POST_edit_image replicateEnv downloadable (Inr catRequest)))"
proof -
  let ?durl = "the (eb_imageUrl deliveryRequest)" and ?did = "eb_imageId deliveryRequest"
  let ?curl = "the (eb_imageUrl catRequest)" and ?cid = "eb_imageId catRequest"
  have r1: "reachesCascade replicateEnv deliveryRequest" by code_simp
  have r2: "reachesCascade replicateEnv catRequest" by code_simp
  have d1: "truthy ?did" "isReplicateDeliveryUrl ?durl" by code_simp+
  have d2: "\<not> truthy ?cid" by code_simp
  \<comment> \<open>nothing reachable: the 400 response\<close>
  have g0: "\<not> headOk (headRequest goneWorld 0 ?durl)"
    by (simp add: goneWorld_def)
  have gx: "errorOf (fst (POST_edit_image replicateEnv goneWorld (Inr deliveryRequest)))
              = Some ''Image URL expired or inaccessible''"
    by code_simp
  from POST_edit_image_recovery_cascade [of deliveryRequest replicateEnv goneWorld] r1 gx g0 d1
  have "status (fst (POST_edit_image replicateEnv goneWorld (Inr deliveryRequest))) = 400
   \<and> list_all failedStep (snd (POST_edit_image replicateEnv goneWorld (Inr deliveryRequest)))
   \<and> \<not> list_ex isReplicateEdit (snd (POST_edit_image replicateEnv goneWorld (Inr deliveryRequest)))
   \<and> take 2 (snd (POST_edit_image replicateEnv goneWorld (Inr deliveryRequest)))
       = [EvHead ?durl (headRequest goneWorld 0 ?durl),
          EvLookup (the ?did) (getImageByLocalId goneWorld 0 (the ?did))]"
    unfolding Let_def by blast
  moreover have "[EvHead ?durl (headRequest goneWorld 0 ?durl),
          EvLookup (the ?did) (getImageByLocalId goneWorld 0 (the ?did))]
     = [EvHead ''https://replicate.delivery/pbxt/out.png'' (HeadResponse False 404),
          EvLookup ''img_1'' (DbResult None)]"
    by (simp add: goneWorld_def deliveryRequest_def)
  ultimately have w1: "status (fst (POST_edit_image replicateEnv goneWorld (Inr deliveryRequest))) = 400
   \<and> list_all failedStep (snd (POST_edit_image replicateEnv goneWorld (Inr deliveryRequest)))
   \<and> \<not> list_ex isReplicateEdit (snd (POST_edit_image replicateEnv goneWorld (Inr deliveryRequest)))
   \<and> take 2 (snd (POST_edit_image replicateEnv goneWorld (Inr deliveryRequest)))
       = [EvHead ''https://replicate.delivery/pbxt/out.png'' (HeadResponse False 404),
          EvLookup ''img_1'' (DbResult None)]"
    by simp
  \<comment> \<open>a stored copy is found\<close>
  let ?stored = "Some \<lparr>stored_url = Some ''https://store.example.com/img_1.png''\<rparr>"
  have s0: "\<not> headOk (headRequest storedCopy 0 ?durl)"
    "getImageByLocalId storedCopy 0 (the ?did) = DbResult ?stored" "found ?stored"
    by (simp_all add: storedCopy_def goneWorld_def found_def truthy_def)
  from POST_edit_image_recovery_cascade [of deliveryRequest replicateEnv storedCopy] r1 s0 d1
  have "\<exists>a b c. snd (POST_edit_image replicateEnv storedCopy (Inr deliveryRequest))
          = [a, b, EvReplicateEdit (orDefault (eb_model deliveryRequest) ''flux-kontext-pro'')
                     (editInputFor (the (eb_prompt deliveryRequest)) (the (stored_url (the ?stored)))) c]"
    unfolding Let_def by blast
  then have w2: "length (snd (POST_edit_image replicateEnv storedCopy (Inr deliveryRequest))) = 3
   \<and> list_ex isReplicateEdit (snd (POST_edit_image replicateEnv storedCopy (Inr deliveryRequest)))"
    by auto
  \<comment> \<open>the repeated HEAD request succeeds\<close>
  have l0: "\<not> headOk (headRequest slowServer 0 ?curl)" "headOk (headRequest slowServer 1 ?curl)"
    by (simp_all add: slowServer_def goneWorld_def)
  have pre: "beforeEnsure w ?curl ?cid = [EvHead ?curl (headRequest w 0 ?curl)]" for w
    using d2 by (simp add: beforeEnsure_def)
  from POST_edit_image_recovery_cascade [of catRequest replicateEnv slowServer] r2 l0 d2
  have "\<exists>c. snd (POST_edit_image replicateEnv slowServer (Inr catRequest))
          = beforeEnsure slowServer ?curl ?cid @ [EvHead ?curl (headRequest slowServer 1 ?curl),
              EvReplicateEdit (orDefault (eb_model catRequest) ''flux-kontext-pro'')
                     (editInputFor (the (eb_prompt catRequest)) ?curl) c]"
    unfolding Let_def by blast
  then have w3: "length (snd (POST_edit_image replicateEnv slowServer (Inr catRequest))) = 3
   \<and> \<not> list_ex isGet (snd (POST_edit_image replicateEnv slowServer (Inr catRequest)))"
    unfolding pre by auto
  \<comment> \<open>the download succeeds\<close>
  have n0: "\<not> headOk (headRequest downloadable 0 ?curl)"
    "\<not> headOk (headRequest downloadable 1 ?curl)"
    "getRequest downloadable 0 ?curl = GetBlob (Inr ''data:image/png;base64,iVBORw0KGgo='')"
    by (simp_all add: downloadable_def goneWorld_def)
  from POST_edit_image_recovery_cascade [of catRequest replicateEnv downloadable] r2 n0 d2
  have "\<exists>c. snd (POST_edit_image replicateEnv downloadable (Inr catRequest))
          = beforeEnsure downloadable ?curl ?cid @ [EvHead ?curl (headRequest downloadable 1 ?curl),
              EvGet ?curl (getRequest downloadable 0 ?curl),
              EvReplicateEdit (orDefault (eb_model catRequest) ''flux-kontext-pro'')
                     (editInputFor (the (eb_prompt catRequest)) ''data:image/png;base64,iVBORw0KGgo='') c]"
    unfolding Let_def by blast
  then have w4: "length (snd (POST_edit_image replicateEnv downloadable (Inr catRequest))) = 4
   \<and> list_ex isGet (snd (POST_edit_image replicateEnv downloadable (Inr catRequest)))"
    unfolding pre by auto
  from r1 r2 w1 w2 w3 w4 show ?thesis by blast
qed

text \<open>
  The claim as stated fails where the handler's HEAD request throws and the repeated one
  inside \<^verbatim>\<open>ensureImageUrlAccessible\<close> succeeds: nothing is downloaded or re-encoded, and
  the edit is called with the original URL.
\<close>

theorem POST_edit_image_recheck_counterexample:
  "\<not> headOk (headRequest slowServer 0 ''https://example.com/cat.png'')
   \<and> snd (POST_edit_image replicateEnv slowServer (Inr catRequest)) =
       [EvHead ''https://example.com/cat.png''
          (HeadThrows (Error ''The operation was aborted due to timeout'')),
        EvHead ''https://example.com/cat.png'' (HeadResponse True 200),
        EvReplicateEdit ''flux-kontext-pro''
          (editInputFor ''make it blue'' ''https://example.com/cat.png'')
          (EditUrl ''https://replicate.delivery/pbxt/edited.png'')]
   \<and> \<not> list_ex isGet (snd (POST_edit_image replicateEnv slowServer (Inr catRequest)))"
  by code_simp

subsection \<open>Classification of provider errors\<close>

lemma recoveryOnly_last:
  assumes "recoveryOnly evs" "evs \<noteq> []"
  shows "providerThrew (last evs) = None"
proof -
  from assms(2) have "last evs \<in> set evs" by simp
  with assms(1) have "isHead (last evs) \<or> isLookup (last evs) \<or> isGet (last evs) \<or> isProxy (last evs)"
    by (auto simp: recoveryOnly_def list_all_iff)
  then show ?thesis by (cases "last evs") auto
qed

lemma checkAccessibility_last:
  "providerThrew (last (snd (checkAccessibility w url imageId []))) = None"
proof -
  from checkAccessibility_appends [of w url imageId "[]"]
  obtain evs where "snd (checkAccessibility w url imageId []) = EvHead url (headRequest w 0 url) # evs"
    "recoveryOnly evs" by auto
  then have "recoveryOnly (snd (checkAccessibility w url imageId []))"
    "snd (checkAccessibility w url imageId []) \<noteq> []" by simp_all
  then show ?thesis by (rule recoveryOnly_last)
qed

lemma editWithReplicate_provider_throws:
  assumes "snd (editWithReplicate w model url imageId p q st sz) \<noteq> []"
    and "providerThrew (last (snd (editWithReplicate w model url imageId p q st sz))) = Some e"
  shows "fst (editWithReplicate w model url imageId p q st sz) = classifyError e"
proof (cases "\<not> startsWith url ''data:'' \<and> \<not> includesStr url ''blob.vercel-storage.com''")
  case False
  with assms show ?thesis
    by (auto simp: editWithReplicate_def Let_def split: edit_outcome.splits)
next
  case True
  obtain res tr where c: "checkAccessibility w url imageId [] = (res, tr)"
    by (cases "checkAccessibility w url imageId []")
  with checkAccessibility_last [of w url imageId] have l: "providerThrew (last tr) = None" by simp
  from assms True c l show ?thesis
    by (auto simp: editWithReplicate_def Let_def
             split: flow.splits option.splits edit_outcome.splits)
qed

lemma editWithGPTImage1_provider_throws:
  assumes "snd (editWithGPTImage1 w url p q st sz mk) \<noteq> []"
    and "providerThrew (last (snd (editWithGPTImage1 w url p q st sz mk))) = Some e"
  shows "fst (editWithGPTImage1 w url p q st sz mk) = classifyError e"
  using assms
  by (auto simp: editWithGPTImage1_def Let_def split: if_splits gpt_outcome.splits)

lemma POST_edit_image_provider_throws:
  assumes "snd (POST_edit_image ev w req) \<noteq> []"
    and "providerThrew (last (snd (POST_edit_image ev w req))) = Some e"
  shows "fst (POST_edit_image ev w req) = classifyError e"
proof (cases req)
  case (Inl x)
  with assms show ?thesis by (simp add: POST_edit_image_def)
next
  case (Inr body)
  with assms show ?thesis
    by (auto simp: POST_edit_image_def Let_def
             intro: editWithReplicate_provider_throws editWithGPTImage1_provider_throws
             split: if_splits)
qed

text \<open>
  Claim C3. When the provider call inside the edit-image handler throws, the
  response is decided by these tests on the thrown value, tried in this order, the first
  that applies deciding: the message contains \<^verbatim>\<open>invalid_request_error\<close>: 400 "Invalid
  request"; it contains \<^verbatim>\<open>rate_limit_exceeded\<close>: 429 "Rate limit exceeded"; it
  contains both \<^verbatim>\<open>404 Client Error\<close> and \<^verbatim>\<open>replicate.delivery\<close>: 400 "Image URL
  expired"; it contains \<^verbatim>\<open>safety system\<close>, or the code is \<^verbatim>\<open>moderation_blocked\<close>, or
  the type is \<^verbatim>\<open>image_generation_user_error\<close>: 400 "Content not allowed"; it
  contains \<^verbatim>\<open>model_not_found\<close>: 400 "Model not available"; none of these: 500 "Failed
  to edit image".
\<close>

theorem classifyError_first_match:
  "(let r = classifyError e :: edit_success response;
        invalid = messageIncludes e ''invalid_request_error'';
        limited = messageIncludes e ''rate_limit_exceeded'';
        expired = (messageIncludes e ''404 Client Error'' \<and> messageIncludes e ''replicate.delivery'');
        blocked = (messageIncludes e ''safety system'' \<or> code e = Some ''moderation_blocked''
                   \<or> etype e = Some ''image_generation_user_error'');
        missing = messageIncludes e ''model_not_found''
    in (snd (POST_edit_image ev w req) \<noteq> []
          \<and> providerThrew (last (snd (POST_edit_image ev w req))) = Some e
          \<longrightarrow> fst (POST_edit_image ev w req) = r)
     \<and> (invalid \<longrightarrow> status r = 400 \<and> errorOf r = Some ''Invalid request'')
     \<and> (\<not> invalid \<and> limited \<longrightarrow> status r = 429 \<and> errorOf r = Some ''Rate limit exceeded'')
     \<and> (\<not> invalid \<and> \<not> limited \<and> expired \<longrightarrow>
          status r = 400 \<and> errorOf r = Some ''Image URL expired'')
     \<and> (\<not> invalid \<and> \<not> limited \<and> \<not> expired \<and> blocked \<longrightarrow>
          status r = 400 \<and> errorOf r = Some ''Content not allowed'')
     \<and> (\<not> invalid \<and> \<not> limited \<and> \<not> expired \<and> \<not> blocked \<and> missing \<longrightarrow>
          status r = 400 \<and> errorOf r = Some ''Model not available'')
     \<and> (\<not> invalid \<and> \<not> limited \<and> \<not> expired \<and> \<not> blocked \<and> \<not> missing \<longrightarrow>
          status r = 500 \<and> errorOf r = Some ''Failed to edit image''))"
proof -
  have "snd (POST_edit_image ev w req) \<noteq> []
          \<and> providerThrew (last (snd (POST_edit_image ev w req))) = Some e
          \<longrightarrow> fst (POST_edit_image ev w req) = classifyError e"
    using POST_edit_image_provider_throws by blast
  then show ?thesis
    unfolding Let_def by (simp add: classifyError_def errorDetails_def)
qed

theorem classifyError_first_match_witness:
  "snd (POST_edit_image openaiEnv rateLimitedWorld (Inr gptRequest)) \<noteq> []
   \<and> providerThrew (last (snd (POST_edit_image openaiEnv rateLimitedWorld (Inr gptRequest))))
       = Some rateLimitedInvalidRequest
   \<and> messageIncludes rateLimitedInvalidRequest ''invalid_request_error''
   \<and> status (fst (POST_edit_image openaiEnv rateLimitedWorld (Inr gptRequest))) = 400
   \<and> errorOf (fst (POST_edit_image openaiEnv rateLimitedWorld (Inr gptRequest)))
       = Some ''Invalid request''
   \<and> \<not> messageIncludes (Error ''Too many requests: rate_limit_exceeded'') ''invalid_request_error''
   \<and> status (classifyError (Error ''Too many requests: rate_limit_exceeded'') :: edit_success response) = 429
   \<and> status (classifyError (Error ''connect ETIMEDOUT'') :: edit_success response) = 500"
proof -
  have t: "snd (POST_edit_image openaiEnv rateLimitedWorld (Inr gptRequest)) \<noteq> []
     \<and> providerThrew (last (snd (POST_edit_image openaiEnv rateLimitedWorld (Inr gptRequest))))
       = Some rateLimitedInvalidRequest"
    by code_simp
  have i: "messageIncludes rateLimitedInvalidRequest ''invalid_request_error''"
    by code_simp
  from classifyError_first_match [of rateLimitedInvalidRequest openaiEnv rateLimitedWorld "Inr gptRequest"] t i
  have a: "status (fst (POST_edit_image openaiEnv rateLimitedWorld (Inr gptRequest))) = 400
   \<and> errorOf (fst (POST_edit_image openaiEnv rateLimitedWorld (Inr gptRequest)))
       = Some ''Invalid request''"
    unfolding Let_def by simp
  let ?l = "Error ''Too many requests: rate_limit_exceeded''"
  have l: "\<not> messageIncludes ?l ''invalid_request_error''" "messageIncludes ?l ''rate_limit_exceeded''"
    by code_simp+
  from classifyError_first_match [of ?l openaiEnv rateLimitedWorld "Inr gptRequest"] l
  have b: "status (classifyError ?l :: edit_success response) = 429"
    unfolding Let_def by blast
  let ?o = "Error ''connect ETIMEDOUT''"
  have o: "\<not> messageIncludes ?o ''invalid_request_error''" "\<not> messageIncludes ?o ''rate_limit_exceeded''"
    "\<not> (messageIncludes ?o ''404 Client Error'' \<and> messageIncludes ?o ''replicate.delivery'')"
    "\<not> (messageIncludes ?o ''safety system'' \<or> code ?o = Some ''moderation_blocked''
        \<or> etype ?o = Some ''image_generation_user_error'')"
    "\<not> messageIncludes ?o ''model_not_found''"
    by code_simp+
  from classifyError_first_match [of ?o openaiEnv rateLimitedWorld "Inr gptRequest"] o
  have c: "status (classifyError ?o :: edit_success response) = 500"
    unfolding Let_def by blast
  from t i a l(1) b c show ?thesis by blast
qed

text \<open>
  A message that carries two markers is decided by the earlier test: this one contains
  both \<^verbatim>\<open>invalid_request_error\<close> and \<^verbatim>\<open>rate_limit_exceeded\<close>, and the response is
  400 "Invalid request".
\<close>

lemma classifyError_two_markers:
  "messageIncludes rateLimitedInvalidRequest ''invalid_request_error''
   \<and> messageIncludes rateLimitedInvalidRequest ''rate_limit_exceeded''
   \<and> status (classifyError rateLimitedInvalidRequest :: edit_success response) = 400
   \<and> errorOf (classifyError rateLimitedInvalidRequest :: edit_success response)
       = Some ''Invalid request''"
  by code_simp

section \<open>Properties of the generate-image route and of the parameter tables\<close>

text \<open>
  Claim C6. The generate-image handler validates its input and then dispatches on the
  model string, before any provider call: a missing prompt returns 400 "Prompt is
  required"; then model \<^verbatim>\<open>gpt-image-1\<close> with no \<^verbatim>\<open>OPENAI_API_KEY\<close> returns 500; a
  model among \<^verbatim>\<open>flux-kontext-pro\<close>, \<^verbatim>\<open>flux-kontext-max\<close>, \<^verbatim>\<open>flux-dev-ultra-fast\<close>
  with no \<^verbatim>\<open>REPLICATE_API_KEY\<close> returns 500; and any other model string returns 400
  "Unsupported model: <model>". In all of these cases no provider client is invoked.
\<close>

theorem POST_generate_image_validation:
  "(let model = orDefault (gb_model body) ''flux-kontext-pro'';
        r = fst (POST_generate_image ev pr (Inr body));
        tr = snd (POST_generate_image ev pr (Inr body))
    in (\<not> truthy (gb_prompt body) \<longrightarrow>
          r = Failure 400 (errorJson ''Prompt is required'') \<and> tr = [])
     \<and> (truthy (gb_prompt body) \<longrightarrow>
          (model = ''gpt-image-1'' \<and> \<not> truthy (OPENAI_API_KEY ev) \<longrightarrow>
             status r = 500 \<and> errorOf r = Some ''OpenAI API key not configured'' \<and> tr = [])
        \<and> (isReplicateModel model \<and> \<not> truthy (REPLICATE_API_KEY ev) \<longrightarrow>
             status r = 500 \<and> errorOf r = Some ''Replicate API key not configured'' \<and> tr = [])
        \<and> (model \<noteq> ''gpt-image-1'' \<and> \<not> isReplicateModel model \<longrightarrow>
             status r = 400 \<and> errorOf r = Some (''Unsupported model: '' @ model) \<and> tr = [])))"
  by (auto simp: POST_generate_image_def Let_def isReplicateModel_def errorJson_def
        errorDetails_def)

theorem POST_generate_image_validation_witness:
  "fst (POST_generate_image noKeys workingProviders (Inr (genRequest None (Some ''gpt-image-1''))))
     = Failure 400 (errorJson ''Prompt is required'')
   \<and> snd (POST_generate_image noKeys workingProviders (Inr (genRequest None (Some ''gpt-image-1'')))) = []
   \<and> status (fst (POST_generate_image noKeys workingProviders
        (Inr (genRequest (Some ''a cat'') (Some ''gpt-image-1''))))) = 500
   \<and> snd (POST_generate_image noKeys workingProviders
        (Inr (genRequest (Some ''a cat'') (Some ''gpt-image-1'')))) = []
   \<and> status (fst (POST_generate_image noKeys workingProviders
        (Inr (genRequest (Some ''a cat'') None)))) = 500
   \<and> snd (POST_generate_image noKeys workingProviders (Inr (genRequest (Some ''a cat'') None))) = []
   \<and> errorOf (fst (POST_generate_image noKeys workingProviders
        (Inr (genRequest (Some ''a cat'') (Some ''dall-e-3''))))) = Some ''Unsupported model: dall-e-3''
   \<and> snd (POST_generate_image noKeys workingProviders
        (Inr (genRequest (Some ''a cat'') (Some ''dall-e-3'')))) = []"
proof -
  have k: "\<not> truthy (OPENAI_API_KEY noKeys)" "\<not> truthy (REPLICATE_API_KEY noKeys)"
    by (simp_all add: noKeys_def truthy_def)
  have p: "\<not> truthy (gb_prompt (genRequest None (Some ''gpt-image-1'')))"
    "truthy (gb_prompt (genRequest (Some ''a cat'') m))" for m
    by (simp_all add: genRequest_def truthy_def)
  have m: "orDefault (gb_model (genRequest (Some ''a cat'') (Some ''gpt-image-1''))) ''flux-kontext-pro''
             = ''gpt-image-1''"
    "isReplicateModel (orDefault (gb_model (genRequest (Some ''a cat'') None)) ''flux-kontext-pro'')"
    "orDefault (gb_model (genRequest (Some ''a cat'') (Some ''dall-e-3''))) ''flux-kontext-pro''
             = ''dall-e-3''"
    "''dall-e-3'' \<noteq> ''gpt-image-1''" "\<not> isReplicateModel ''dall-e-3''"
    by (simp_all add: genRequest_def orDefault_def isReplicateModel_def)
  from POST_generate_image_validation [of "genRequest None (Some ''gpt-image-1'')" noKeys workingProviders] p(1)
  have a: "fst (POST_generate_image noKeys workingProviders (Inr (genRequest None (Some ''gpt-image-1''))))
     = Failure 400 (errorJson ''Prompt is required'')
   \<and> snd (POST_generate_image noKeys workingProviders (Inr (genRequest None (Some ''gpt-image-1'')))) = []"
    unfolding Let_def by blast
  from POST_generate_image_validation [of "genRequest (Some ''a cat'') (Some ''gpt-image-1'')" noKeys workingProviders]
    p(2) k m(1)
  have b: "status (fst (POST_generate_image noKeys workingProviders
        (Inr (genRequest (Some ''a cat'') (Some ''gpt-image-1''))))) = 500
   \<and> snd (POST_generate_image noKeys workingProviders
        (Inr (genRequest (Some ''a cat'') (Some ''gpt-image-1'')))) = []"
    unfolding Let_def by blast
  from POST_generate_image_validation [of "genRequest (Some ''a cat'') None" noKeys workingProviders]
    p(2) k m(2)
  have c: "status (fst (POST_generate_image noKeys workingProviders
        (Inr (genRequest (Some ''a cat'') None)))) = 500
   \<and> snd (POST_generate_image noKeys workingProviders (Inr (genRequest (Some ''a cat'') None))) = []"
    unfolding Let_def by blast
  from POST_generate_image_validation [of "genRequest (Some ''a cat'') (Some ''dall-e-3'')" noKeys workingProviders]
    p(2) m(3,4,5)
  have d: "errorOf (fst (POST_generate_image noKeys workingProviders
        (Inr (genRequest (Some ''a cat'') (Some ''dall-e-3''))))) = Some (''Unsupported model: '' @ ''dall-e-3'')
   \<and> snd (POST_generate_image noKeys workingProviders
        (Inr (genRequest (Some ''a cat'') (Some ''dall-e-3'')))) = []"
    unfolding Let_def by simp
  from a b c d show ?thesis by simp
qed

lemma POST_edit_image_branches:
  "(\<exists>n j. POST_edit_image ev w (Inr ebody) = (Failure n j, []))
   \<or> POST_edit_image ev w (Inr ebody) =
        editWithGPTImage1 w (the (eb_imageUrl ebody)) (the (eb_prompt ebody))
          (orDefault (eb_quality ebody) ''standard'') (orDefault (eb_style ebody) ''vivid'')
          (orDefault (eb_size ebody) ''1024x1024'') (eb_mask ebody)
   \<or> POST_edit_image ev w (Inr ebody) =
        editWithReplicate w (orDefault (eb_model ebody) ''flux-kontext-pro'')
          (the (eb_imageUrl ebody)) (eb_imageId ebody) (the (eb_prompt ebody))
          (orDefault (eb_quality ebody) ''standard'') (orDefault (eb_style ebody) ''vivid'')
          (orDefault (eb_size ebody) ''1024x1024'')"
  by (simp add: POST_edit_image_def Let_def)

lemma editWithGPTImage1_options:
  assumes "EvGptEdit url p opts out \<in> set (snd (editWithGPTImage1 w u p' q st sz mk))"
  shows "go_quality opts = gptQualityOf q \<and> go_size opts = actualSizeOf sz"
  using assms
  by (cases "smartEditWithGPTImage1 w u p'
               \<lparr>go_size = actualSizeOf sz, go_quality = gptQualityOf q, go_style = st, go_mask = mk\<rparr>")
     (auto simp: editWithGPTImage1_def Let_def split: if_splits)

lemma editWithGPTImage1_metadata:
  assumes "fst (editWithGPTImage1 w u p' q st sz mk) = Success (imgs, md)"
  shows "em_quality md = q \<and> em_size md = sz"
  using assms
  by (cases "smartEditWithGPTImage1 w u p'
               \<lparr>go_size = actualSizeOf sz, go_quality = gptQualityOf q, go_style = st, go_mask = mk\<rparr>")
     (auto simp: editWithGPTImage1_def Let_def classifyError_def split: if_splits)

lemma checkAccessibility_no_gpt:
  "EvGptEdit url p opts out \<notin> set (snd (checkAccessibility w u i []))"
proof -
  from checkAccessibility_appends [of w u i "[]"]
  obtain evs where c: "snd (checkAccessibility w u i []) = EvHead u (headRequest w 0 u) # evs"
    "recoveryOnly evs" by auto
  then show ?thesis by (auto simp: recoveryOnly_def list_all_iff)
qed

lemma editWithReplicate_no_gpt:
  "EvGptEdit url p opts out \<notin> set (snd (editWithReplicate w m u i p' q st sz))"
proof -
  obtain res tr where c: "checkAccessibility w u i [] = (res, tr)"
    by (cases "checkAccessibility w u i []")
  with checkAccessibility_no_gpt [of url p opts out w u i]
  have n: "EvGptEdit url p opts out \<notin> set tr" by simp
  show ?thesis
  proof (cases "\<not> startsWith u ''data:'' \<and> \<not> includesStr u ''blob.vercel-storage.com''")
    case True
    with c n show ?thesis
      by (cases res) (auto simp: editWithReplicate_def Let_def split: option.splits edit_outcome.splits)
  next
    case False
    then show ?thesis
      by (auto simp: editWithReplicate_def Let_def split: edit_outcome.splits)
  qed
qed

lemma classifyError_not_success: "classifyError e \<noteq> Success x"
  by (simp add: classifyError_def)

lemma editWithReplicate_metadata:
  assumes "fst (editWithReplicate w m u i p' q st sz) = Success (imgs, md)"
  shows "em_quality md = q \<and> em_size md = sz"
proof -
  have u: "urlExpiredResponse u \<noteq> Success (imgs, md)"
    by (simp add: urlExpiredResponse_def Let_def)
  obtain res tr where c: "checkAccessibility w u i [] = (res, tr)"
    by (cases "checkAccessibility w u i []")
  from checkAccessibility_appends [of w u i "[]"] c
  have r: "\<forall>r. res = Return r \<longrightarrow> r = urlExpiredResponse u" by auto
  show ?thesis
  proof (cases "\<not> startsWith u ''data:'' \<and> \<not> includesStr u ''blob.vercel-storage.com''")
    case True
    with assms c u r show ?thesis
      by (cases res)
         (auto simp: editWithReplicate_def Let_def classifyError_not_success
               split: option.splits edit_outcome.splits)
  next
    case False
    with assms show ?thesis
      by (auto simp: editWithReplicate_def Let_def classifyError_not_success
               split: edit_outcome.splits)
  qed
qed

lemma gptQualityOf_table: "gptQualityOf q = (if q = ''hd'' then ''high'' else ''medium'')"
  by (simp add: gptQualityOf_def)

lemma mappedQualityOf_table: "mappedQualityOf q = (if q = ''hd'' then ''high'' else ''medium'')"
  by (simp add: mappedQualityOf_def)

lemma actualSizeOf_table:
  "(sz = ''1792x1024'' \<longrightarrow> actualSizeOf sz = ''1536x1024'')
   \<and> (sz \<noteq> ''1792x1024'' \<and> sz \<notin> {''1024x1024'', ''1536x1024'', ''1024x1536''} \<longrightarrow>
         actualSizeOf sz = ''1024x1024'')
   \<and> (sz \<in> {''1024x1024'', ''1536x1024'', ''1024x1536''} \<longrightarrow> actualSizeOf sz = sz)"
  unfolding actualSizeOf_def validSizes_def by auto

lemma POST_generate_image_gpt_options:
  assumes "e \<in> set (snd (POST_generate_image ev pr (Inr gbody)))" "gptOptions e = Some opts"
  shows "gn_quality opts = mappedQualityOf (orDefault (gb_quality gbody) ''standard'')"
  using assms
  by (auto simp: POST_generate_image_def Let_def
           split: if_splits gen_outcome.splits replicate_outcome.splits)

lemma POST_generate_image_metadata:
  assumes "fst (POST_generate_image ev pr (Inr gbody)) = Success (imgs, md)"
    and "gm_provider md = ''openai''"
  shows "gm_quality md = Some (orDefault (gb_quality gbody) ''standard'')
       \<and> gm_size md = orDefault (gb_size gbody) ''1024x1024''"
  using assms
  by (auto simp: POST_generate_image_def Let_def
           split: if_splits gen_outcome.splits replicate_outcome.splits)

text \<open>
  Claim C4. In both the generate-image and the edit-image handler the quality passed to
  GPT-Image-1 is \<^verbatim>\<open>high\<close> for the requested quality \<^verbatim>\<open>hd\<close> and \<^verbatim>\<open>medium\<close> for every
  other value. In the edit-image handler the size passed to GPT-Image-1 is
  \<^verbatim>\<open>1536x1024\<close> for \<^verbatim>\<open>1792x1024\<close>, and \<^verbatim>\<open>1024x1024\<close> for any other size outside
  \<^verbatim>\<open>1024x1024\<close>, \<^verbatim>\<open>1536x1024\<close>, \<^verbatim>\<open>1024x1536\<close>. The metadata of a successful response
  carries the quality and the size as they were requested, not the remapped values.
\<close>

theorem quality_and_size_remapping:
  "(let quality = orDefault (gb_quality gbody) ''standard'';
        sz = orDefault (gb_size gbody) ''1024x1024'';
        r = fst (POST_generate_image ev pr (Inr gbody));
        tr = snd (POST_generate_image ev pr (Inr gbody))
    in (\<forall>e opts. e \<in> set tr \<and> gptOptions e = Some opts \<longrightarrow>
           gn_quality opts = (if quality = ''hd'' then ''high'' else ''medium''))
     \<and> (\<forall>imgs md. r = Success (imgs, md) \<and> gm_provider md = ''openai'' \<longrightarrow>
           gm_quality md = Some quality \<and> gm_size md = sz))
   \<and> (let quality = orDefault (eb_quality ebody) ''standard'';
        sz = orDefault (eb_size ebody) ''1024x1024'';
        r = fst (POST_edit_image ev w (Inr ebody));
        tr = snd (POST_edit_image ev w (Inr ebody))
    in (\<forall>url p opts out. EvGptEdit url p opts out \<in> set tr \<longrightarrow>
           go_quality opts = (if quality = ''hd'' then ''high'' else ''medium'')
         \<and> (sz = ''1792x1024'' \<longrightarrow> go_size opts = ''1536x1024'')
         \<and> (sz \<noteq> ''1792x1024'' \<and> sz \<notin> {''1024x1024'', ''1536x1024'', ''1024x1536''} \<longrightarrow>
               go_size opts = ''1024x1024'')
         \<and> (sz \<in> {''1024x1024'', ''1536x1024'', ''1024x1536''} \<longrightarrow> go_size opts = sz))
     \<and> (\<forall>imgs md. r = Success (imgs, md) \<longrightarrow> em_quality md = quality \<and> em_size md = sz))"
proof -
  let ?gq = "orDefault (gb_quality gbody) ''standard''" and ?gs = "orDefault (gb_size gbody) ''1024x1024''"
  let ?eq = "orDefault (eb_quality ebody) ''standard''" and ?es = "orDefault (eb_size ebody) ''1024x1024''"
  let ?G = "POST_generate_image ev pr (Inr gbody)" and ?E = "POST_edit_image ev w (Inr ebody)"
  have gen: "gn_quality opts = (if ?gq = ''hd'' then ''high'' else ''medium'')"
    if "e \<in> set (snd ?G) \<and> gptOptions e = Some opts" for e opts
    using POST_generate_image_gpt_options [of e ev pr gbody opts] that
    by (simp only: mappedQualityOf_table)
  have genmd: "gm_quality md = Some ?gq \<and> gm_size md = ?gs"
    if "fst ?G = Success (imgs, md) \<and> gm_provider md = ''openai''" for imgs md
    using POST_generate_image_metadata [of ev pr gbody imgs md] that by blast
  have opts: "go_quality opts = gptQualityOf ?eq \<and> go_size opts = actualSizeOf ?es"
    if m: "EvGptEdit url p opts out \<in> set (snd ?E)" for url p opts out
    using POST_edit_image_branches [of ev w ebody]
  proof (elim disjE exE)
    fix n j assume "?E = (Failure n j, [])"
    with m show ?thesis by simp
  next
    assume "?E = editWithGPTImage1 w (the (eb_imageUrl ebody)) (the (eb_prompt ebody))
          ?eq (orDefault (eb_style ebody) ''vivid'') ?es (eb_mask ebody)"
    with m show ?thesis using editWithGPTImage1_options by metis
  next
    assume "?E = editWithReplicate w (orDefault (eb_model ebody) ''flux-kontext-pro'')
          (the (eb_imageUrl ebody)) (eb_imageId ebody) (the (eb_prompt ebody))
          ?eq (orDefault (eb_style ebody) ''vivid'') ?es"
    with m show ?thesis using editWithReplicate_no_gpt by metis
  qed
  have edit: "go_quality opts = (if ?eq = ''hd'' then ''high'' else ''medium'')
         \<and> (?es = ''1792x1024'' \<longrightarrow> go_size opts = ''1536x1024'')
         \<and> (?es \<noteq> ''1792x1024'' \<and> ?es \<notin> {''1024x1024'', ''1536x1024'', ''1024x1536''} \<longrightarrow>
               go_size opts = ''1024x1024'')
         \<and> (?es \<in> {''1024x1024'', ''1536x1024'', ''1024x1536''} \<longrightarrow> go_size opts = ?es)"
    if m: "EvGptEdit url p opts out \<in> set (snd ?E)" for url p opts out
    using opts [OF m] actualSizeOf_table [of ?es] gptQualityOf_table [of ?eq] by metis
  have editmd: "em_quality md = ?eq \<and> em_size md = ?es"
    if s: "fst ?E = Success (imgs, md)" for imgs md
    using POST_edit_image_branches [of ev w ebody]
  proof (elim disjE exE)
    fix n j assume "?E = (Failure n j, [])"
    with s show ?thesis by simp
  next
    assume "?E = editWithGPTImage1 w (the (eb_imageUrl ebody)) (the (eb_prompt ebody))
          ?eq (orDefault (eb_style ebody) ''vivid'') ?es (eb_mask ebody)"
    with s show ?thesis using editWithGPTImage1_metadata by metis
  next
    assume "?E = editWithReplicate w (orDefault (eb_model ebody) ''flux-kontext-pro'')
          (the (eb_imageUrl ebody)) (eb_imageId ebody) (the (eb_prompt ebody))
          ?eq (orDefault (eb_style ebody) ''vivid'') ?es"
    with s show ?thesis using editWithReplicate_metadata by metis
  qed
  show ?thesis
    unfolding Let_def
  proof (intro conjI allI impI)
  qed (use gen genmd edit editmd in blast)+
qed

theorem quality_and_size_remapping_witness:
  "EvGenerateWithGPTImage1 ''a cat''
       \<lparr>gn_quality = ''high'', gn_style = Some ''vivid'', gn_size = ''1792x1024'',
        gn_model = None, gn_n = Some 1\<rparr>
     \<in> set (snd (POST_generate_image openaiEnv workingProviders
                   (Inr (genRequest (Some ''a cat'') (Some ''gpt-image-1'')))))
   \<and> (\<exists>imgs md. fst (POST_generate_image openaiEnv workingProviders
                   (Inr (genRequest (Some ''a cat'') (Some ''gpt-image-1'')))) = Success (imgs, md)
        \<and> gm_quality md = Some ''hd'' \<and> gm_size md = ''1792x1024'')
   \<and> (\<exists>out. EvGptEdit ''https://example.com/cat.png'' ''make it blue''
         \<lparr>go_size = ''1536x1024'', go_quality = ''high'', go_style = ''vivid'', go_mask = None\<rparr> out
       \<in> set (snd (POST_edit_image openaiEnv gptWorld (Inr gptRequest))))
   \<and> (\<exists>imgs md. fst (POST_edit_image openaiEnv gptWorld (Inr gptRequest)) = Success (imgs, md)
        \<and> em_quality md = ''hd'' \<and> em_size md = ''1792x1024'')"
proof -
  let ?G = "POST_generate_image openaiEnv workingProviders
              (Inr (genRequest (Some ''a cat'') (Some ''gpt-image-1'')))"
  let ?E = "POST_edit_image openaiEnv gptWorld (Inr gptRequest)"
  let ?o = "\<lparr>gn_quality = ''high'', gn_style = Some ''vivid'', gn_size = ''1792x1024'',
        gn_model = None, gn_n = Some 1\<rparr>"
  let ?md = "\<lparr>gm_model = ''gpt-image-1'', gm_provider = ''openai'', gm_quality = Some ''hd'',
        gm_mappedQuality = Some ''high'', gm_style = ''vivid'', gm_size = ''1792x1024'',
        gm_originalPrompt = ''a cat'', gm_imageCount = 1\<rparr>"
  let ?imgs = "[\<lparr>ge_url = ''https://cdn.example.com/gen.png'', ge_revisedPrompt = ''a cat'',
        ge_index = 0\<rparr>]"
  let ?eo = "\<lparr>go_size = ''1536x1024'', go_quality = ''high'', go_style = ''vivid'', go_mask = None\<rparr>"
  let ?out = "GptResult \<lparr>g_imageUrl = ''https://cdn.example.com/edited.png'',
       g_originalImageUrl = None, g_revisedPrompt = None, g_model = None, g_method = None\<rparr>"
  let ?emd = "\<lparr>em_model = ''gpt-image-1'', em_provider = ''openai'', em_quality = ''hd'',
       em_style = ''vivid'', em_size = ''1792x1024'', em_originalPrompt = ''make it blue'',
       em_editMode = True, em_method = ''image-to-image'', em_imageCount = 1, em_note = None\<rparr>"
  let ?eimgs = "[\<lparr>ie_url = ''https://cdn.example.com/edited.png'',
       ie_originalUrl = ''https://example.com/cat.png'', ie_revisedPrompt = ''make it blue'',
       ie_index = 0\<rparr>]"
  have g1: "EvGenerateWithGPTImage1 ''a cat'' ?o \<in> set (snd ?G)
            \<and> gptOptions (EvGenerateWithGPTImage1 ''a cat'' ?o) = Some ?o"
    by code_simp
  have g2: "fst ?G = Success (?imgs, ?md) \<and> gm_provider ?md = ''openai''"
    by code_simp
  have e1: "EvGptEdit ''https://example.com/cat.png'' ''make it blue'' ?eo ?out \<in> set (snd ?E)"
    by code_simp
  have e2: "fst ?E = Success (?eimgs, ?emd)"
    by code_simp
  have q: "orDefault (gb_quality (genRequest (Some ''a cat'') (Some ''gpt-image-1''))) ''standard'' = ''hd''"
    "orDefault (gb_size (genRequest (Some ''a cat'') (Some ''gpt-image-1''))) ''1024x1024'' = ''1792x1024''"
    "orDefault (eb_quality gptRequest) ''standard'' = ''hd''"
    "orDefault (eb_size gptRequest) ''1024x1024'' = ''1792x1024''"
    by (simp_all add: genRequest_def gptRequest_def orDefault_def)
  note t = quality_and_size_remapping [of "genRequest (Some ''a cat'') (Some ''gpt-image-1'')"
      openaiEnv workingProviders gptRequest gptWorld, unfolded Let_def q]
  note t1 = t [THEN conjunct1, THEN conjunct1, rule_format, OF g1]
  note t2 = t [THEN conjunct1, THEN conjunct2, rule_format, OF g2]
  note t3 = t [THEN conjunct2, THEN conjunct1, rule_format, OF e1]
  note t4 = t [THEN conjunct2, THEN conjunct2, rule_format, OF e2]
  from t1 have a: "gn_quality ?o = ''high''" by simp
  from t2 have b: "gm_quality ?md = Some ''hd'' \<and> gm_size ?md = ''1792x1024''" by simp
  from t3 have c: "go_quality ?eo = ''high'' \<and> go_size ?eo = ''1536x1024''" by simp
  from t4 have d: "em_quality ?emd = ''hd'' \<and> em_size ?emd = ''1792x1024''" by simp
  show ?thesis
  proof (intro conjI)
    show "EvGenerateWithGPTImage1 ''a cat'' ?o \<in> set (snd ?G)" using g1 by (rule conjunct1)
    show "\<exists>imgs md. fst ?G = Success (imgs, md)
        \<and> gm_quality md = Some ''hd'' \<and> gm_size md = ''1792x1024''"
      using g2 [THEN conjunct1] b by (intro exI [of _ ?imgs] exI [of _ ?md] conjI) simp_all
    show "\<exists>out. EvGptEdit ''https://example.com/cat.png'' ''make it blue'' ?eo out \<in> set (snd ?E)"
      using e1 by (rule exI)
    show "\<exists>imgs md. fst ?E = Success (imgs, md)
        \<and> em_quality md = ''hd'' \<and> em_size md = ''1792x1024''"
      using e2 d by (intro exI [of _ ?eimgs] exI [of _ ?emd] conjI) simp_all
  qed
qed

section \<open>Properties of the edit-multi-image route\<close>

text \<open>
  Claim C10. The edit-multi-image handler returns 400, without constructing or contacting
  the WaveSpeed client, whenever \<^verbatim>\<open>images\<close> is missing, not an array or empty,
  whenever the prompt is missing, not a string or only whitespace, whenever fewer than 2
  images are supplied, and whenever more than 10 images are supplied. The check for the
  missing API key (500) is reached only after all of these validations have passed.
\<close>

theorem POST_edit_multi_image_validation:
  "(let imgs = mb_images body; p = mb_prompt body;
        r = fst (POST_edit_multi_image ev ws (Inr body));
        tr = snd (POST_edit_multi_image ev ws (Inr body))
    in ((\<forall>xs. imgs \<noteq> JArr xs) \<or> imgs = JArr [] \<longrightarrow> status r = 400 \<and> tr = [])
     \<and> ((\<forall>s. p \<noteq> JStr s) \<or> (\<exists>s. p = JStr s \<and> trim s = []) \<longrightarrow> status r = 400 \<and> tr = [])
     \<and> (length (elements imgs) < 2 \<longrightarrow> status r = 400 \<and> tr = [])
     \<and> (length (elements imgs) > 10 \<longrightarrow> status r = 400 \<and> tr = [])
     \<and> (errorOf r = Some ''WaveSpeed API key not configured'' \<longrightarrow>
          status r = 500 \<and> tr = [] \<and> \<not> truthy (WAVESPEED_API_KEY ev)
        \<and> (\<exists>xs. imgs = JArr xs \<and> 2 \<le> length xs \<and> length xs \<le> 10)
        \<and> (\<exists>s. p = JStr s \<and> trim s \<noteq> [])))"
proof -
  have t: "trim [] = []" by (simp add: trim_def)
  have a: "\<not> jsTruthy imgs \<or> \<not> isArray imgs \<or> length (elements imgs) = 0"
    if "(\<forall>xs. imgs \<noteq> JArr xs) \<or> imgs = JArr []" for imgs
    using that by (cases imgs) auto
  have b: "\<not> jsTruthy p \<or> \<not> isString p \<or> trim (stringOf p) = []"
    if "(\<forall>s. p \<noteq> JStr s) \<or> (\<exists>s. p = JStr s \<and> trim s = [])" for p
    using that by (cases p) auto
  have a': "\<exists>xs. imgs = JArr xs \<and> length xs = length (elements imgs)"
    if "\<not> (\<not> jsTruthy imgs \<or> \<not> isArray imgs \<or> length (elements imgs) = 0)" for imgs
    using that by (cases imgs) auto
  have b': "\<exists>s. p = JStr s \<and> trim s \<noteq> []"
    if "\<not> (\<not> jsTruthy p \<or> \<not> isString p \<or> trim (stringOf p) = [])" for p
    using that by (cases p) auto
  have e: "errorOf (fst (POST_edit_multi_image ev ws (Inr body))) = Some ''WaveSpeed API key not configured''
      \<longrightarrow> status (fst (POST_edit_multi_image ev ws (Inr body))) = 500
        \<and> snd (POST_edit_multi_image ev ws (Inr body)) = [] \<and> \<not> truthy (WAVESPEED_API_KEY ev)
        \<and> \<not> (\<not> jsTruthy (mb_images body) \<or> \<not> isArray (mb_images body)
              \<or> length (elements (mb_images body)) = 0)
        \<and> \<not> (\<not> jsTruthy (mb_prompt body) \<or> \<not> isString (mb_prompt body)
              \<or> trim (stringOf (mb_prompt body)) = [])
        \<and> 2 \<le> length (elements (mb_images body)) \<and> length (elements (mb_images body)) \<le> 10"
    by (simp add: POST_edit_multi_image_def Let_def errorJson_def errorDetails_def
             split: prod.splits)
  have v: "(\<not> jsTruthy (mb_images body) \<or> \<not> isArray (mb_images body)
              \<or> length (elements (mb_images body)) = 0)
         \<or> (\<not> jsTruthy (mb_prompt body) \<or> \<not> isString (mb_prompt body)
              \<or> trim (stringOf (mb_prompt body)) = [])
         \<or> length (elements (mb_images body)) < 2 \<or> length (elements (mb_images body)) > 10
     \<longrightarrow> status (fst (POST_edit_multi_image ev ws (Inr body))) = 400
       \<and> snd (POST_edit_multi_image ev ws (Inr body)) = []"
    by (simp add: POST_edit_multi_image_def Let_def)
  show ?thesis
    unfolding Let_def
  proof (intro conjI impI)
    assume "errorOf (fst (POST_edit_multi_image ev ws (Inr body))) = Some ''WaveSpeed API key not configured''"
    with e a' [of "mb_images body"] b' [of "mb_prompt body"]
    show "\<exists>xs. mb_images body = JArr xs \<and> 2 \<le> length xs \<and> length xs \<le> 10"
      and "\<exists>s. mb_prompt body = JStr s \<and> trim s \<noteq> []"
      by auto
  qed (use a [of "mb_images body"] b [of "mb_prompt body"] e v in blast)+
qed

theorem POST_edit_multi_image_validation_witness:
  "status (fst (POST_edit_multi_image noKeys completesAtThird (Inr (multiBody JUndefined (JStr ''merge''))))) = 400
   \<and> snd (POST_edit_multi_image noKeys completesAtThird (Inr (multiBody JUndefined (JStr ''merge'')))) = []
   \<and> status (fst (POST_edit_multi_image noKeys completesAtThird (Inr (multiBody (someImages 3) (JStr ''  ''))))) = 400
   \<and> status (fst (POST_edit_multi_image noKeys completesAtThird (Inr (multiBody (someImages 1) (JStr ''merge''))))) = 400
   \<and> status (fst (POST_edit_multi_image noKeys completesAtThird (Inr (multiBody (someImages 11) (JStr ''merge''))))) = 400
   \<and> snd (POST_edit_multi_image noKeys completesAtThird (Inr (multiBody (someImages 11) (JStr ''merge'')))) = []
   \<and> status (fst (POST_edit_multi_image noKeys completesAtThird (Inr (multiBody (someImages 3) (JStr ''merge''))))) = 500"
proof -
  note t = POST_edit_multi_image_validation [of _ noKeys completesAtThird, unfolded Let_def]
  have h1: "(\<forall>xs. mb_images (multiBody JUndefined (JStr ''merge'')) \<noteq> JArr xs)
          \<or> mb_images (multiBody JUndefined (JStr ''merge'')) = JArr []"
    by (simp add: multiBody_def)
  have h2: "(\<forall>s. mb_prompt (multiBody (someImages 3) (JStr ''  '')) \<noteq> JStr s)
          \<or> (\<exists>s. mb_prompt (multiBody (someImages 3) (JStr ''  '')) = JStr s \<and> trim s = [])"
    by (simp add: multiBody_def trim_def isSpace_def)
  have h3: "length (elements (mb_images (multiBody (someImages 1) (JStr ''merge'')))) < 2"
    by (simp add: multiBody_def someImages_def)
  have h4: "length (elements (mb_images (multiBody (someImages 11) (JStr ''merge'')))) > 10"
    by (simp add: multiBody_def someImages_def)
  have h5: "errorOf (fst (POST_edit_multi_image noKeys completesAtThird
              (Inr (multiBody (someImages 3) (JStr ''merge''))))) = Some ''WaveSpeed API key not configured''"
    by code_simp
  from t [of "multiBody JUndefined (JStr ''merge'')"] h1
  have a: "status (fst (POST_edit_multi_image noKeys completesAtThird (Inr (multiBody JUndefined (JStr ''merge''))))) = 400
   \<and> snd (POST_edit_multi_image noKeys completesAtThird (Inr (multiBody JUndefined (JStr ''merge'')))) = []"
    by blast
  from t [of "multiBody (someImages 3) (JStr ''  '')"] h2
  have b: "status (fst (POST_edit_multi_image noKeys completesAtThird (Inr (multiBody (someImages 3) (JStr ''  ''))))) = 400"
    by blast
  from t [of "multiBody (someImages 1) (JStr ''merge'')"] h3
  have c: "status (fst (POST_edit_multi_image noKeys completesAtThird (Inr (multiBody (someImages 1) (JStr ''merge''))))) = 400"
    by blast
  from t [of "multiBody (someImages 11) (JStr ''merge'')"] h4
  have d: "status (fst (POST_edit_multi_image noKeys completesAtThird (Inr (multiBody (someImages 11) (JStr ''merge''))))) = 400
   \<and> snd (POST_edit_multi_image noKeys completesAtThird (Inr (multiBody (someImages 11) (JStr ''merge'')))) = []"
    by blast
  from t [of "multiBody (someImages 3) (JStr ''merge'')"] h5
  have e: "status (fst (POST_edit_multi_image noKeys completesAtThird (Inr (multiBody (someImages 3) (JStr ''merge''))))) = 500"
    by blast
  from a b c d e show ?thesis by blast
qed

section \<open>Properties of the progress store\<close>

lemma progress_in_range:
  fixes x :: real
  assumes "a \<le> b"
  shows "a \<le> \<lfloor>max (real_of_int a) (min x (real_of_int b))\<rfloor>"
    and "\<lfloor>max (real_of_int a) (min x (real_of_int b))\<rfloor> \<le> b"
proof -
  have "real_of_int a \<le> max (real_of_int a) (min x (real_of_int b))" by simp
  then show "a \<le> \<lfloor>max (real_of_int a) (min x (real_of_int b))\<rfloor>"
    by (simp only: le_floor_iff)
  have "max (real_of_int a) (min x (real_of_int b)) \<le> real_of_int b"
    using assms by simp
  then have "\<lfloor>max (real_of_int a) (min x (real_of_int b))\<rfloor> \<le> \<lfloor>real_of_int b\<rfloor>"
    by (rule floor_mono)
  then show "\<lfloor>max (real_of_int a) (min x (real_of_int b))\<rfloor> \<le> b" by simp
qed

lemma calculateProgressFromElapsed_range:
  "stage \<noteq> completed \<Longrightarrow> stage \<noteq> failed \<Longrightarrow>
   \<lfloor>fst (stageRanges stage)\<rfloor> \<le> calculateProgressFromElapsed elapsedTime estimatedTotal stage random
   \<and> calculateProgressFromElapsed elapsedTime estimatedTotal stage random \<le> \<lfloor>snd (stageRanges stage)\<rfloor>"
proof (cases stage)
  case initializing
  then show ?thesis
    using progress_in_range [of 0 20] by (simp add: calculateProgressFromElapsed_def Let_def)
next
  case processing
  then show ?thesis
    using progress_in_range [of 20 85] by (simp add: calculateProgressFromElapsed_def Let_def)
next
  case finalizing
  then show ?thesis
    using progress_in_range [of 85 100] by (simp add: calculateProgressFromElapsed_def Let_def)
qed simp_all

lemma calculateProgress_cap:
  assumes "calculateProgress imageId now random state i = Some r'"
    and "calculateProgress imageId now random state i \<noteq> state i"
  shows "i = imageId \<and> (\<exists>current. state imageId = Some current \<and> ip_stage r' = ip_stage current
            \<and> ip_status current = generating
            \<and> ip_progress r' = min (of_int (calculateProgressFromElapsed
                  (of_int ((now - ip_createdAt current) div 1000))
                  (ip_estimatedTotalTime current) (ip_stage current) random))
                (if ip_stage current = completed then 100 else 99))"
proof (cases "state imageId")
  case None
  with assms show ?thesis by (simp add: calculateProgress_def)
next
  case (Some current)
  with assms show ?thesis
    by (auto simp: calculateProgress_def Let_def split: if_splits)
qed

text \<open>
  Claim C5. For every stage, every non-negative elapsed time and every positive estimated
  total, \<^verbatim>\<open>calculateProgressFromElapsed\<close> returns 100 for the stage \<^verbatim>\<open>completed\<close>, 0
  for \<^verbatim>\<open>failed\<close>, and otherwise an integer within the range of the stage (initializing 0
  to 20, processing 20 to 85, finalizing 85 to 100): the floor of the smoothstep value
  \<^verbatim>\<open>t*t*(3-2*t)\<close> of \<^verbatim>\<open>t = min(elapsedTime/estimatedTotal, 1)\<close>, scaled to the range,
  shifted by the random variance and clamped to the range. And \<^verbatim>\<open>calculateProgress\<close>
  of the store never sets the progress of a record above 99 while its stage is not
  \<^verbatim>\<open>completed\<close>.
\<close>

theorem calculateProgress_bounds:
  "(0 \<le> elapsedTime \<and> 0 < estimatedTotal \<and> 0 \<le> random \<and> random < 1 \<longrightarrow>
      (let p = calculateProgressFromElapsed elapsedTime estimatedTotal stage random;
           t = min (elapsedTime / estimatedTotal) 1
       in (stage = completed \<longrightarrow> p = 100)
        \<and> (stage = failed \<longrightarrow> p = 0)
        \<and> (stage = initializing \<longrightarrow> 0 \<le> p \<and> p \<le> 20
              \<and> p = \<lfloor>max 0 (min (0 + t * t * (3 - 2 * t) * (20 - 0) + (random - 0.5)) 20)\<rfloor>)
        \<and> (stage = processing \<longrightarrow> 20 \<le> p \<and> p \<le> 85
              \<and> p = \<lfloor>max 20 (min (20 + t * t * (3 - 2 * t) * (85 - 20) + (random - 0.5)) 85)\<rfloor>)
        \<and> (stage = finalizing \<longrightarrow> 85 \<le> p \<and> p \<le> 100
              \<and> p = \<lfloor>max 85 (min (85 + t * t * (3 - 2 * t) * (100 - 85) + (random - 0.5)) 100)\<rfloor>)))
   \<and> (\<forall>r'. calculateProgress imageId now random state imageId = Some r'
          \<and> calculateProgress imageId now random state imageId \<noteq> state imageId
          \<and> ip_stage r' \<noteq> completed
        \<longrightarrow> ip_progress r' \<le> 99)"
proof (intro conjI impI allI)
  show "let p = calculateProgressFromElapsed elapsedTime estimatedTotal stage random;
           t = min (elapsedTime / estimatedTotal) 1
       in (stage = completed \<longrightarrow> p = 100)
        \<and> (stage = failed \<longrightarrow> p = 0)
        \<and> (stage = initializing \<longrightarrow> 0 \<le> p \<and> p \<le> 20
              \<and> p = \<lfloor>max 0 (min (0 + t * t * (3 - 2 * t) * (20 - 0) + (random - 0.5)) 20)\<rfloor>)
        \<and> (stage = processing \<longrightarrow> 20 \<le> p \<and> p \<le> 85
              \<and> p = \<lfloor>max 20 (min (20 + t * t * (3 - 2 * t) * (85 - 20) + (random - 0.5)) 85)\<rfloor>)
        \<and> (stage = finalizing \<longrightarrow> 85 \<le> p \<and> p \<le> 100
              \<and> p = \<lfloor>max 85 (min (85 + t * t * (3 - 2 * t) * (100 - 85) + (random - 0.5)) 100)\<rfloor>)"
    unfolding Let_def
  proof (intro conjI impI)
    assume s: "stage = initializing"
    with calculateProgressFromElapsed_range [of stage elapsedTime estimatedTotal random]
    show "0 \<le> calculateProgressFromElapsed elapsedTime estimatedTotal stage random"
      and "calculateProgressFromElapsed elapsedTime estimatedTotal stage random \<le> 20"
      by simp_all
  next
    assume s: "stage = processing"
    with calculateProgressFromElapsed_range [of stage elapsedTime estimatedTotal random]
    show "20 \<le> calculateProgressFromElapsed elapsedTime estimatedTotal stage random"
      and "calculateProgressFromElapsed elapsedTime estimatedTotal stage random \<le> 85"
      by simp_all
  next
    assume s: "stage = finalizing"
    with calculateProgressFromElapsed_range [of stage elapsedTime estimatedTotal random]
    show "85 \<le> calculateProgressFromElapsed elapsedTime estimatedTotal stage random"
      and "calculateProgressFromElapsed elapsedTime estimatedTotal stage random \<le> 100"
      by simp_all
  qed (simp_all add: calculateProgressFromElapsed_def Let_def smoothstep_def)
next
  fix r'
  assume h: "calculateProgress imageId now random state imageId = Some r'
          \<and> calculateProgress imageId now random state imageId \<noteq> state imageId
          \<and> ip_stage r' \<noteq> completed"
  with calculateProgress_cap [of imageId now random state imageId r']
  show "ip_progress r' \<le> 99" by auto
qed

theorem calculateProgress_bounds_witness:
  "calculateProgressFromElapsed 6 12 processing 0.25 = 52
   \<and> calculateProgressFromElapsed 0 12 initializing 0.75 = 0
   \<and> calculateProgressFromElapsed 30 12 finalizing 0.9 = 100
   \<and> map_option ip_progress
       (calculateProgress ''img_1'' 61000 0.9 [''img_1'' \<mapsto> lateImage] ''img_1'') = Some 99"
proof -
  note t = calculateProgress_bounds [unfolded Let_def]
  have n: "(0::real) \<le> 6 \<and> (0::real) < 12 \<and> (0::real) \<le> 0.25 \<and> (0.25::real) < 1" by simp
  from t [THEN conjunct1, rule_format, OF n, of processing]
  have a: "calculateProgressFromElapsed 6 12 processing 0.25 = 52" by simp
  have m: "(0::real) \<le> 0 \<and> (0::real) < 12 \<and> (0::real) \<le> 0.75 \<and> (0.75::real) < 1" by simp
  from t [THEN conjunct1, rule_format, OF m, of initializing]
  have b: "calculateProgressFromElapsed 0 12 initializing 0.75 = 0" by simp
  have l: "(0::real) \<le> 30 \<and> (0::real) < 12 \<and> (0::real) \<le> 0.9 \<and> (0.9::real) < 1" by simp
  from t [THEN conjunct1, rule_format, OF l, of finalizing]
  have c: "calculateProgressFromElapsed 30 12 finalizing 0.9 = 100" by simp
  let ?s = "calculateProgress ''img_1'' 61000 0.9 [''img_1'' \<mapsto> lateImage]"
  have p: "calculateProgressFromElapsed 60 12 finalizing 0.9 = 100"
    by (simp add: calculateProgressFromElapsed_def Let_def smoothstep_def)
  have s: "?s ''img_1'' = Some (lateImage\<lparr>ip_elapsedTime := 60, ip_progress := 99,
      ip_estimatedRemainingTime := 0, ip_stageMessage := ''Processing final image...'',
      ip_lastUpdated := 61000\<rparr>)"
    by (simp add: calculateProgress_def Let_def lateImage_def p getStageMessage_def truthy_def)
  have h: "?s ''img_1'' = Some (lateImage\<lparr>ip_elapsedTime := 60, ip_progress := 99,
      ip_estimatedRemainingTime := 0, ip_stageMessage := ''Processing final image...'',
      ip_lastUpdated := 61000\<rparr>)
     \<and> ?s ''img_1'' \<noteq> [''img_1'' \<mapsto> lateImage] ''img_1''
     \<and> ip_stage (lateImage\<lparr>ip_elapsedTime := 60, ip_progress := 99,
      ip_estimatedRemainingTime := 0, ip_stageMessage := ''Processing final image...'',
      ip_lastUpdated := 61000\<rparr>) \<noteq> completed"
    unfolding s by (simp add: lateImage_def)
  from t [THEN conjunct2, rule_format, OF h]
  have "ip_progress (lateImage\<lparr>ip_elapsedTime := 60, ip_progress := 99,
      ip_estimatedRemainingTime := 0, ip_stageMessage := ''Processing final image...'',
      ip_lastUpdated := 61000\<rparr>) \<le> 99" .
  with s have d: "map_option ip_progress (?s ''img_1'') = Some 99" by simp
  from a b c d show ?thesis by blast
qed

section \<open>Properties of saveGeneratedImages\<close>

lemma sliceLast_drop: "0 < k \<Longrightarrow> sliceLast k xs = drop (length xs - k) xs"
  by (simp add: sliceLast_def)

lemma sliceLast_suffix: "\<exists>n\<le>length xs. sliceLast k xs = drop (length xs - n) xs \<and> (0 < k \<longrightarrow> n \<le> k)"
proof (cases "k = 0")
  case True
  then show ?thesis by (intro exI [of _ "length xs"]) (simp add: sliceLast_def)
next
  case False
  then show ?thesis
    by (intro exI [of _ "min k (length xs)"]) (auto simp: sliceLast_def min_def)
qed

lemma shrinkToFit_suffix:
  "\<exists>n\<le>length xs. shrinkToFit br xs = drop (length xs - n) xs"
proof (induction br xs rule: shrinkToFit.induct)
  case (1 br imagesToSave)
  show ?case
  proof (cases "tooLarge br imagesToSave")
    case False
    then show ?thesis
      by (intro exI [of _ "length imagesToSave"]) (simp add: shrinkToFit.simps [of br imagesToSave])
  next
    case True
    from "1.IH" [OF True] obtain n where
      n: "n \<le> length (sliceSeventy imagesToSave)"
         "shrinkToFit br (sliceSeventy imagesToSave)
            = drop (length (sliceSeventy imagesToSave) - n) (sliceSeventy imagesToSave)"
      by blast
    from sliceLast_suffix [of imagesToSave "seventyPercent (length imagesToSave)"]
    obtain m where m: "m \<le> length imagesToSave"
      "sliceSeventy imagesToSave = drop (length imagesToSave - m) imagesToSave"
      by (auto simp: sliceSeventy_def)
    have l: "length (sliceSeventy imagesToSave) = m" using m by simp
    have "shrinkToFit br imagesToSave = drop (m - n) (drop (length imagesToSave - m) imagesToSave)"
      using True n(2) m(2) l by (simp add: shrinkToFit.simps [of br imagesToSave])
    also have "\<dots> = drop (length imagesToSave - n) imagesToSave"
      using n(1) m(1) l by simp
    finally show ?thesis using n(1) m(1) l by (intro exI [of _ n]) simp
  qed
qed

lemma first_attempt_recent:
  "\<exists>n\<le>30. shrinkToFit br (sliceLast 30 xs) = drop (length xs - n) xs
     \<and> length (shrinkToFit br (sliceLast 30 xs)) \<le> 30"
proof -
  have s: "sliceLast 30 xs = drop (length xs - 30) xs" by (simp add: sliceLast_def)
  from shrinkToFit_suffix [of "sliceLast 30 xs" br] obtain n where
    n: "n \<le> length (sliceLast 30 xs)"
       "shrinkToFit br (sliceLast 30 xs) = drop (length (sliceLast 30 xs) - n) (sliceLast 30 xs)"
    by blast
  have l: "length (sliceLast 30 xs) = min 30 (length xs)" unfolding s by auto
  have "shrinkToFit br (sliceLast 30 xs) = drop (length xs - n) xs"
    using n l unfolding s by (auto simp: min_def split: if_splits)
  moreover have "n \<le> 30" using n(1) l by simp
  moreover have "length (shrinkToFit br (sliceLast 30 xs)) \<le> 30"
    using n l by (simp add: n(2))
  ultimately show ?thesis by blast
qed

text \<open>
  The loop, told with a size test \<^term>\<open>ov\<close> and a slice \<^term>\<open>sl\<close> that agree with the
  ones of the code: it stops, and it stops at the first list that passes the test.
\<close>

lemma shrinkToFit_stops:
  assumes ov: "\<And>ys. tooLarge br ys = ov ys"
    and sl: "\<And>ys. ov ys \<Longrightarrow> sliceSeventy ys = sl ys"
  shows "\<exists>k. (\<forall>j<k. ov ((sl ^^ j) xs)) \<and> \<not> ov ((sl ^^ k) xs)"
proof (induction "length xs" arbitrary: xs rule: less_induct)
  case less
  show ?case
  proof (cases "ov xs")
    case False
    then show ?thesis by (intro exI [of _ 0]) simp
  next
    case True
    then have "tooLarge br xs" by (simp add: ov)
    then have "length (sliceSeventy xs) < length xs"
      by (auto simp: tooLarge_def sliceSeventy_def sliceLast_def seventyPercent_def)
    then have "length (sl xs) < length xs" using sl [OF True] by simp
    from less [OF this] obtain k where
      k: "\<forall>j<k. ov ((sl ^^ j) (sl xs))" "\<not> ov ((sl ^^ k) (sl xs))"
      by blast
    have "\<forall>j<Suc k. ov ((sl ^^ j) xs)"
    proof (intro allI impI)
      fix j assume "j < Suc k"
      show "ov ((sl ^^ j) xs)"
      proof (cases j)
        case 0
        with True show ?thesis by simp
      next
        case (Suc i)
        with \<open>j < Suc k\<close> k(1) show ?thesis by (simp add: funpow_swap1)
      qed
    qed
    with k(2) show ?thesis
      by (intro exI [of _ "Suc k"]) (simp add: funpow_swap1)
  qed
qed

lemma shrinkToFit_least:
  assumes ov: "\<And>ys. tooLarge br ys = ov ys"
    and sl: "\<And>ys. ov ys \<Longrightarrow> sliceSeventy ys = sl ys"
  shows "(\<forall>j<k. ov ((sl ^^ j) xs)) \<Longrightarrow> \<not> ov ((sl ^^ k) xs) \<Longrightarrow> shrinkToFit br xs = (sl ^^ k) xs"
proof (induction k arbitrary: xs)
  case 0
  then have "\<not> tooLarge br xs" by (simp add: ov)
  then show ?case by (simp add: shrinkToFit.simps [of br xs])
next
  case (Suc k)
  from Suc.prems(1) have t: "ov xs" by force
  then have "tooLarge br xs" by (simp add: ov)
  then have s: "shrinkToFit br xs = shrinkToFit br (sl xs)"
    using sl [OF t] by (simp add: shrinkToFit.simps [of br xs])
  have a: "\<forall>j<k. ov ((sl ^^ j) (sl xs))"
  proof (intro allI impI)
    fix j assume "j < k"
    then have "Suc j < Suc k" by simp
    with Suc.prems(1) have "ov ((sl ^^ Suc j) xs)" by blast
    then show "ov ((sl ^^ j) (sl xs))" by (simp add: funpow_swap1)
  qed
  have b: "\<not> ov ((sl ^^ k) (sl xs))" using Suc.prems(2) by (simp add: funpow_swap1)
  from Suc.IH [OF a b] s show ?case by (simp add: funpow_swap1)
qed

text \<open>
  Claim C7. \<^verbatim>\<open>saveGeneratedImages\<close> first drops every image that is still generating,
  has no URL or has a data URL. If none remain the storage is left untouched. Otherwise
  it takes the 30 most recent of the remaining images and, as long as their serialized
  size exceeds 4 MB (4 * 1024 * 1024 bytes) and more than 5 remain, slices them to their
  most recent 70 percent (rounded down); the loop stops. It serializes the images that
  are left, one entry per image and in their order, each with its id, its URL cut to the
  first 500 characters, its prompt cut to the first 200 characters and the other stored
  fields, and writes the entries under \<^verbatim>\<open>generatedImages\<close>. If that write throws it
  removes the keys \<^verbatim>\<open>generatedImages\<close> and \<^verbatim>\<open>imageCache\<close> (each as far as its removal
  does not throw) and writes only the 10 most recent of the remaining images, serialized
  in the same way; if this write throws too, it gives up. In every case it returns
  normally.
\<close>

theorem saveGeneratedImages_eviction:
  "(let entry = (\<lambda>img :: GeneratedImage.
          \<lparr>se_id = gi_id img,
           se_url = take 500 (gi_url img),
           se_prompt = take 200 (gi_prompt img),
           se_timestamp = (case gi_timestamp img of None \<Rightarrow> dateNow br | Some t \<Rightarrow> t),
           se_quality = gi_quality img,
           se_model = gi_model img,
           se_originalImageId = gi_originalImageId img,
           se_isUploaded = gi_isUploaded img,
           se_geminiUri = gi_geminiUri img,
           se_isMultiImageEdit = gi_isMultiImageEdit img,
           se_sourceImages = gi_sourceImages img,
           se_inputImages = map_option (map (\<lambda>url.
               if take 5 url = ''data:'' then ''[DATA_URL_REMOVED]'' else take 200 url))
             (gi_inputImages img)\<rparr>);
        over = (\<lambda>xs. calculateDataSize br (map entry xs) > 4 * 1024 * 1024 \<and> length xs > 5);
        seventy = (\<lambda>xs :: GeneratedImage list. drop (length xs - (7 * length xs) div 10) xs);
        remaining = filter (\<lambda>img :: GeneratedImage. \<not> gi_isGenerating img \<and> gi_url img \<noteq> []
                                   \<and> take 5 (gi_url img) \<noteq> ''data:'') imgs;
        last30 = drop (length remaining - 30) remaining;
        minimal = drop (length remaining - 10) remaining;
        cleared = (\<lambda>key. if (key = ''generatedImages'' \<or> key = ''imageCache'') \<and> removable br key
                         then None else storage key);
        result = saveGeneratedImages br imgs storage
    in (remaining = [] \<longrightarrow> result = storage)
     \<and> (\<exists>k. (\<forall>j<k. over ((seventy ^^ j) last30)) \<and> \<not> over ((seventy ^^ k) last30))
     \<and> (\<forall>k. remaining \<noteq> [] \<and> (\<forall>j<k. over ((seventy ^^ j) last30)) \<and> \<not> over ((seventy ^^ k) last30) \<longrightarrow>
            length ((seventy ^^ k) last30) \<le> 30
          \<and> (\<exists>n\<le>30. (seventy ^^ k) last30 = drop (length remaining - n) remaining)
          \<and> (\<forall>e \<in> set (map entry ((seventy ^^ k) last30)).
                 length (se_url e) \<le> 500 \<and> length (se_prompt e) \<le> 200)
          \<and> (accepts br storage ''generatedImages'' (Images (map entry ((seventy ^^ k) last30))) \<longrightarrow>
                result = storage(''generatedImages'' \<mapsto> Images (map entry ((seventy ^^ k) last30))))
          \<and> (\<not> accepts br storage ''generatedImages'' (Images (map entry ((seventy ^^ k) last30))) \<longrightarrow>
                (accepts br cleared ''generatedImages'' (Images (map entry minimal)) \<longrightarrow>
                    result = cleared(''generatedImages'' \<mapsto> Images (map entry minimal)))
              \<and> (\<not> accepts br cleared ''generatedImages'' (Images (map entry minimal)) \<longrightarrow>
                    result = cleared))))"
proof -
  define entry where "entry = (\<lambda>img :: GeneratedImage.
          \<lparr>se_id = gi_id img,
           se_url = take 500 (gi_url img),
           se_prompt = take 200 (gi_prompt img),
           se_timestamp = (case gi_timestamp img of None \<Rightarrow> dateNow br | Some t \<Rightarrow> t),
           se_quality = gi_quality img,
           se_model = gi_model img,
           se_originalImageId = gi_originalImageId img,
           se_isUploaded = gi_isUploaded img,
           se_geminiUri = gi_geminiUri img,
           se_isMultiImageEdit = gi_isMultiImageEdit img,
           se_sourceImages = gi_sourceImages img,
           se_inputImages = map_option (map (\<lambda>url.
               if take 5 url = ''data:'' then ''[DATA_URL_REMOVED]'' else take 200 url))
             (gi_inputImages img)\<rparr>)"
  define over where
    "over = (\<lambda>xs. calculateDataSize br (map entry xs) > 4 * 1024 * 1024 \<and> length xs > 5)"
  define seventy where
    "seventy = (\<lambda>xs :: GeneratedImage list. drop (length xs - (7 * length xs) div 10) xs)"
  define remaining where
    "remaining = filter (\<lambda>img :: GeneratedImage. \<not> gi_isGenerating img \<and> gi_url img \<noteq> []
                                   \<and> take 5 (gi_url img) \<noteq> ''data:'') imgs"
  define last30 where "last30 = drop (length remaining - 30) remaining"
  define minimal where "minimal = drop (length remaining - 10) remaining"
  define cleared where
    "cleared = (\<lambda>key. if (key = ''generatedImages'' \<or> key = ''imageCache'') \<and> removable br key
                         then None else storage key)"
  define result where "result = saveGeneratedImages br imgs storage"
  have five: "length ''data:'' = 5" by simp
  have sw: "startsWith s ''data:'' = (take 5 s = ''data:'')" for s
    unfolding startsWith_def five ..
  have sub: "substring s 0 n = take n s" for s n
    by (simp add: substring_def)
  have pe: "prepareEntry (dateNow br) = entry"
    unfolding entry_def by (rule ext) (simp add: prepareEntry_def sub sw cong: if_cong)
  have pf: "prepareForStorage (dateNow br) ys = map entry ys" for ys
    by (simp add: prepareForStorage_def pe)
  have ov: "tooLarge br ys = over ys" for ys
    by (simp add: tooLarge_def maxSize_def pf over_def)
  have sl: "sliceSeventy ys = seventy ys" if "over ys" for ys
  proof -
    from that have "5 < length ys" by (simp add: over_def)
    then have "(7 * length ys) div 10 \<noteq> 0" by simp
    then show ?thesis
      by (simp add: sliceSeventy_def sliceLast_def seventyPercent_def seventy_def)
  qed
  have rem: "completedImages imgs = remaining"
    by (simp add: completedImages_def remaining_def sw)
  have l30: "sliceLast 30 remaining = last30" by (simp add: sliceLast_def last30_def)
  have l10: "sliceLast 10 remaining = minimal" by (simp add: sliceLast_def minimal_def)
  have cl: "clearOldImages br storage = cleared"
    unfolding cleared_def by (rule ext) (simp add: clearOldImages_def removeItem_def)
  have c1: "remaining = [] \<longrightarrow> result = storage"
    by (simp add: result_def saveGeneratedImages_def rem)
  have c2: "\<exists>k. (\<forall>j<k. over ((seventy ^^ j) last30)) \<and> \<not> over ((seventy ^^ k) last30)"
    by (rule shrinkToFit_stops [of br over seventy, OF ov sl])
  have c3: "\<forall>k. remaining \<noteq> [] \<and> (\<forall>j<k. over ((seventy ^^ j) last30)) \<and> \<not> over ((seventy ^^ k) last30) \<longrightarrow>
            length ((seventy ^^ k) last30) \<le> 30
          \<and> (\<exists>n\<le>30. (seventy ^^ k) last30 = drop (length remaining - n) remaining)
          \<and> (\<forall>e \<in> set (map entry ((seventy ^^ k) last30)).
                 length (se_url e) \<le> 500 \<and> length (se_prompt e) \<le> 200)
          \<and> (accepts br storage ''generatedImages'' (Images (map entry ((seventy ^^ k) last30))) \<longrightarrow>
                result = storage(''generatedImages'' \<mapsto> Images (map entry ((seventy ^^ k) last30))))
          \<and> (\<not> accepts br storage ''generatedImages'' (Images (map entry ((seventy ^^ k) last30))) \<longrightarrow>
                (accepts br cleared ''generatedImages'' (Images (map entry minimal)) \<longrightarrow>
                    result = cleared(''generatedImages'' \<mapsto> Images (map entry minimal)))
              \<and> (\<not> accepts br cleared ''generatedImages'' (Images (map entry minimal)) \<longrightarrow>
                    result = cleared))"
  proof (intro allI impI)
    fix k
    assume h: "remaining \<noteq> [] \<and> (\<forall>j<k. over ((seventy ^^ j) last30)) \<and> \<not> over ((seventy ^^ k) last30)"
    let ?first = "(seventy ^^ k) last30"
    from h have f: "shrinkToFit br (sliceLast 30 remaining) = ?first"
      unfolding l30 using shrinkToFit_least [of br over seventy k last30, OF ov sl] by blast
    from first_attempt_recent [of br remaining]
    have r: "length ?first \<le> 30" "\<exists>n\<le>30. ?first = drop (length remaining - n) remaining"
      unfolding f by blast+
    have t: "\<forall>e \<in> set (map entry ?first). length (se_url e) \<le> 500 \<and> length (se_prompt e) \<le> 200"
      by (simp add: entry_def)
    have n: "completedImages imgs \<noteq> []" using h rem by simp
    have s: "result =
        (if accepts br storage ''generatedImages'' (Images (map entry ?first))
         then storage(''generatedImages'' \<mapsto> Images (map entry ?first))
         else if accepts br cleared ''generatedImages'' (Images (map entry minimal))
         then cleared(''generatedImages'' \<mapsto> Images (map entry minimal))
         else cleared)"
      using n unfolding result_def saveGeneratedImages_def Let_def setItem_def
      by (simp add: rem f pf l10 cl)
    from r t s show "length ?first \<le> 30
          \<and> (\<exists>n\<le>30. ?first = drop (length remaining - n) remaining)
          \<and> (\<forall>e \<in> set (map entry ?first).
                 length (se_url e) \<le> 500 \<and> length (se_prompt e) \<le> 200)
          \<and> (accepts br storage ''generatedImages'' (Images (map entry ?first)) \<longrightarrow>
                result = storage(''generatedImages'' \<mapsto> Images (map entry ?first)))
          \<and> (\<not> accepts br storage ''generatedImages'' (Images (map entry ?first)) \<longrightarrow>
                (accepts br cleared ''generatedImages'' (Images (map entry minimal)) \<longrightarrow>
                    result = cleared(''generatedImages'' \<mapsto> Images (map entry minimal)))
              \<and> (\<not> accepts br cleared ''generatedImages'' (Images (map entry minimal)) \<longrightarrow>
                    result = cleared))"
      by simp
  qed
  from c1 c2 c3 have main: "(remaining = [] \<longrightarrow> result = storage)
     \<and> (\<exists>k. (\<forall>j<k. over ((seventy ^^ j) last30)) \<and> \<not> over ((seventy ^^ k) last30))
     \<and> (\<forall>k. remaining \<noteq> [] \<and> (\<forall>j<k. over ((seventy ^^ j) last30)) \<and> \<not> over ((seventy ^^ k) last30) \<longrightarrow>
            length ((seventy ^^ k) last30) \<le> 30
          \<and> (\<exists>n\<le>30. (seventy ^^ k) last30 = drop (length remaining - n) remaining)
          \<and> (\<forall>e \<in> set (map entry ((seventy ^^ k) last30)).
                 length (se_url e) \<le> 500 \<and> length (se_prompt e) \<le> 200)
          \<and> (accepts br storage ''generatedImages'' (Images (map entry ((seventy ^^ k) last30))) \<longrightarrow>
                result = storage(''generatedImages'' \<mapsto> Images (map entry ((seventy ^^ k) last30))))
          \<and> (\<not> accepts br storage ''generatedImages'' (Images (map entry ((seventy ^^ k) last30))) \<longrightarrow>
                (accepts br cleared ''generatedImages'' (Images (map entry minimal)) \<longrightarrow>
                    result = cleared(''generatedImages'' \<mapsto> Images (map entry minimal)))
              \<and> (\<not> accepts br cleared ''generatedImages'' (Images (map entry minimal)) \<longrightarrow>
                    result = cleared)))"
    by blast
  show ?thesis
    unfolding Let_def
    using main [unfolded result_def cleared_def minimal_def last30_def remaining_def
                         seventy_def over_def entry_def] .
qed

lemma imageNo_completed:
  "\<not> gi_isGenerating (imageNo n)" "gi_url (imageNo n) \<noteq> []"
  "take 5 (gi_url (imageNo n)) \<noteq> ''data:''"
  by (simp_all add: imageNo_def)

theorem saveGeneratedImages_eviction_witness:
  "saveGeneratedImages roomyBrowser [pendingImage] usedStorage = usedStorage
   \<and> saveGeneratedImages roomyBrowser (pendingImage # map imageNo [1, 2, 3, 4, 5, 6, 7]) usedStorage
       = usedStorage(''generatedImages'' \<mapsto> Images (map storedNo [4, 5, 6, 7]))
   \<and> saveGeneratedImages fullBrowser (map imageNo [1, 2, 3, 4, 5, 6, 7, 8, 9, 10, 11, 12]) usedStorage
         ''generatedImages''
       = Some (Images (map storedNo [3, 4, 5, 6, 7, 8, 9, 10, 11, 12]))
   \<and> saveGeneratedImages fullBrowser (map imageNo [1, 2, 3, 4, 5, 6, 7, 8, 9, 10, 11, 12]) usedStorage
         ''imageCache'' = None
   \<and> saveGeneratedImages fullBrowser (map imageNo [1, 2, 3, 4, 5, 6, 7, 8, 9, 10, 11, 12]) usedStorage
         ''theme'' = Some (Other ''dark'')
   \<and> saveGeneratedImages roomyBrowser [longImage] usedStorage
       = usedStorage(''generatedImages'' \<mapsto> Images [storedLong])"
proof -
  \<comment> \<open>nothing to save\<close>
  note t1 = saveGeneratedImages_eviction [where br = roomyBrowser and imgs = "[pendingImage]"
      and storage = usedStorage, unfolded Let_def, THEN conjunct1]
  from t1 have r1: "saveGeneratedImages roomyBrowser [pendingImage] usedStorage = usedStorage"
    by (simp add: pendingImage_def)
  \<comment> \<open>seven images of one megabyte each: one slice to the four most recent\<close>
  let ?seven = "pendingImage # map imageNo [1, 2, 3, 4, 5, 6, 7]"
  note t2 = saveGeneratedImages_eviction [where br = roomyBrowser and imgs = ?seven
      and storage = usedStorage, unfolded Let_def, THEN conjunct2, THEN conjunct2,
      THEN spec [where x = "1 :: nat"]]
  from t2 have r2: "saveGeneratedImages roomyBrowser ?seven usedStorage
       = usedStorage(''generatedImages'' \<mapsto> Images (map storedNo [4, 5, 6, 7]))"
    by (simp add: pendingImage_def imageNo_completed roomyBrowser_def imageNo_def storedNo_def)
  \<comment> \<open>a full storage: the keys are removed and the ten most recent images are written\<close>
  let ?twelve = "map imageNo [1, 2, 3, 4, 5, 6, 7, 8, 9, 10, 11, 12]"
  note t3 = saveGeneratedImages_eviction [where br = fullBrowser and imgs = ?twelve
      and storage = usedStorage, unfolded Let_def, THEN conjunct2, THEN conjunct2,
      THEN spec [where x = "0 :: nat"]]
  from t3 have r3: "saveGeneratedImages fullBrowser ?twelve usedStorage
       = (\<lambda>key. if key = ''generatedImages'' \<or> key = ''imageCache'' then None else usedStorage key)
           (''generatedImages'' \<mapsto> Images (map storedNo [3, 4, 5, 6, 7, 8, 9, 10, 11, 12]))"
    by (simp add: imageNo_completed fullBrowser_def usedStorage_def imageNo_def storedNo_def)
  have r3a: "saveGeneratedImages fullBrowser ?twelve usedStorage ''generatedImages''
       = Some (Images (map storedNo [3, 4, 5, 6, 7, 8, 9, 10, 11, 12]))"
    and r3b: "saveGeneratedImages fullBrowser ?twelve usedStorage ''imageCache'' = None"
    and r3c: "saveGeneratedImages fullBrowser ?twelve usedStorage ''theme'' = Some (Other ''dark'')"
    unfolding r3 by (simp_all add: usedStorage_def)
  \<comment> \<open>a long URL and a long prompt are cut\<close>
  note t4 = saveGeneratedImages_eviction [where br = roomyBrowser and imgs = "[longImage]"
      and storage = usedStorage, unfolded Let_def, THEN conjunct2, THEN conjunct2,
      THEN spec [where x = "0 :: nat"]]
  from t4 have r4: "saveGeneratedImages roomyBrowser [longImage] usedStorage
       = usedStorage(''generatedImages'' \<mapsto> Images [storedLong])"
    by (simp add: roomyBrowser_def longImage_def imageNo_def storedLong_def)
  from r1 r2 r3a r3b r3c r4 show ?thesis by blast
qed

end
